(* ===== verification/Prelude.thy ===== *)
theory Prelude
  imports Main "HOL-Library.Sublist"
begin

text \<open>
  Shared vocabulary of the development: the Python built-in string operations the two
  handlers call (\<open>str.find\<close>, slicing \<open>s[i:j]\<close>, \<open>str.replace\<close>, \<open>str.split\<close>,
  \<open>str.join\<close>), the Python exceptions the handlers can raise, and the generic list lemmas
  that the component theories use through the collection \<open>py_str\<close>.
  Strings are \<^typ>\<open>string\<close> (lists of characters); the keys and names handled by the
  program are ASCII, so one character is one code point as in Python.
\<close>

named_theorems py_str "characteristic equations of the modelled Python string operations"

type_synonym pystr = string

section \<open>Python exceptions\<close>

text \<open>
  The exceptions the handlers can raise, as values. \<open>ClientError\<close> carries the error
  code an AWS service call fails with (\<open>NoSuchKey\<close>, \<open>NoSuchBucket\<close>,
  \<open>ConflictException\<close>); \<open>ParamValidationError\<close> is botocore's client-side check of
  a request parameter (here: a \<open>None\<close> role where a string is required).
\<close>

datatype py_error =
    KeyError pystr
  | IndexError
  | TypeError pystr
  | ParamValidationError pystr
  | ClientError pystr

type_synonym 'a py_result = "py_error + 'a"

text \<open>
  Sequencing of statements that may raise: the first exception propagates and nothing
  after it runs.
\<close>

fun py_bind :: "'a py_result \<Rightarrow> ('a \<Rightarrow> 'b py_result) \<Rightarrow> 'b py_result" where
  "py_bind (Inl e) f = Inl e"
| "py_bind (Inr x) f = f x"

section \<open>The process environment\<close>

text \<open>
  \<open>os.environ\<close> as a map from variable names to values: \<open>os.environ[k]\<close> raises
  \<open>KeyError\<close> for an unset variable, \<open>os.environ.get(k)\<close> is the map itself
  (\<open>None\<close> for an unset variable).
\<close>

type_synonym environ = "pystr \<rightharpoonup> pystr"

definition environ_getitem :: "environ \<Rightarrow> pystr \<Rightarrow> pystr py_result" where
  "environ_getitem env k = (case env k of None \<Rightarrow> Inl (KeyError k) | Some v \<Rightarrow> Inr v)"

section \<open>\<open>str.find\<close>\<close>

text \<open>
  \<open>s.find(sub)\<close> returns the least index at which \<open>sub\<close> occurs in \<open>s\<close>, and
  \<open>-1\<close> when it does not occur; the empty string occurs at index 0.
  The scan keeps the index of the current position.
\<close>

fun find_from :: "pystr \<Rightarrow> pystr \<Rightarrow> nat \<Rightarrow> int" where
  "find_from sub [] i = (if sub = [] then int i else -1)"
| "find_from sub (c # cs) i =
     (if prefix sub (c # cs) then int i else find_from sub cs (Suc i))"

definition py_find :: "pystr \<Rightarrow> pystr \<Rightarrow> int" where
  "py_find s sub = find_from sub s 0"

section \<open>Slicing\<close>

text \<open>
  \<open>s[i:j]\<close> with integer bounds: a negative bound counts from the end, and both bounds
  are clamped to \<open>[0, len(s)]\<close>; slicing never raises. \<open>s[i:]\<close> is
  \<open>s[i:len(s)]\<close> and \<open>s[:j]\<close> is \<open>s[0:j]\<close>.
\<close>

definition py_index :: "int \<Rightarrow> nat \<Rightarrow> nat" where
  "py_index i n = nat (if i < 0 then max 0 (int n + i) else min i (int n))"

definition py_slice :: "pystr \<Rightarrow> int \<Rightarrow> int \<Rightarrow> pystr" where
  "py_slice s i j =
     (let a = py_index i (length s); b = py_index j (length s) in take (b - a) (drop a s))"

definition py_slice_from :: "pystr \<Rightarrow> int \<Rightarrow> pystr" where
  "py_slice_from s i = py_slice s i (int (length s))"

definition py_slice_to :: "pystr \<Rightarrow> int \<Rightarrow> pystr" where
  "py_slice_to s j = py_slice s 0 j"

section \<open>\<open>str.replace\<close>\<close>

text \<open>
  \<open>s.replace(old, new)\<close> replaces every occurrence of a non-empty \<open>old\<close>, scanning
  from the left and resuming after each replaced occurrence (occurrences do not overlap, and
  the inserted text is not rescanned). For an empty \<open>old\<close>, Python inserts \<open>new\<close> before
  every character and at the end.
\<close>

function replace_scan :: "pystr \<Rightarrow> pystr \<Rightarrow> pystr \<Rightarrow> pystr" where
  "replace_scan old new [] = []"
| "replace_scan old new (c # cs) =
     (if old \<noteq> [] \<and> prefix old (c # cs)
      then new @ replace_scan old new (drop (length old) (c # cs))
      else c # replace_scan old new cs)"
  by pat_completeness auto
termination
  by (relation "measure (\<lambda>(old, new, s). length s)") auto

definition py_replace :: "pystr \<Rightarrow> pystr \<Rightarrow> pystr \<Rightarrow> pystr" where
  "py_replace s old new =
     (if old = [] then new @ concat (map (\<lambda>c. c # new) s) else replace_scan old new s)"

section \<open>\<open>str.split\<close> and \<open>str.join\<close>\<close>

text \<open>
  \<open>s.split(sep)\<close> with a non-empty separator cuts \<open>s\<close> at every occurrence of
  \<open>sep\<close>, scanning from the left, and always returns at least one part
  (\<open>''.split(':') == ['']\<close>). An empty separator raises \<open>ValueError\<close>, which no caller
  here can trigger; the model returns the unsplit string for it.
  \<open>sep.join(parts)\<close> puts \<open>sep\<close> between consecutive parts.
\<close>

fun cons_first :: "char \<Rightarrow> pystr list \<Rightarrow> pystr list" where
  "cons_first c [] = [[c]]"
| "cons_first c (w # ws) = (c # w) # ws"

function split_scan :: "pystr \<Rightarrow> pystr \<Rightarrow> pystr list" where
  "split_scan sep [] = [[]]"
| "split_scan sep (c # cs) =
     (if sep \<noteq> [] \<and> prefix sep (c # cs)
      then [] # split_scan sep (drop (length sep) (c # cs))
      else cons_first c (split_scan sep cs))"
  by pat_completeness auto
termination
  by (relation "measure (\<lambda>(sep, s). length s)") auto

definition py_split :: "pystr \<Rightarrow> pystr \<Rightarrow> pystr list" where
  "py_split s sep = (if sep = [] then [s] else split_scan sep s)"

fun py_join :: "pystr \<Rightarrow> pystr list \<Rightarrow> pystr" where
  "py_join sep [] = []"
| "py_join sep [w] = w"
| "py_join sep (w # v # ws) = w @ sep @ py_join sep (v # ws)"

text \<open>Indexing a list, \<open>xs[i]\<close> for \<open>i \<ge> 0\<close>: \<open>IndexError\<close> out of range.\<close>

definition py_getitem :: "'a list \<Rightarrow> nat \<Rightarrow> 'a py_result" where
  "py_getitem xs i = (if i < length xs then Inr (xs ! i) else Inl IndexError)"

section \<open>Lemmas on results\<close>

lemma py_bind_eq_Inr [simp]: "py_bind m f = Inr y \<longleftrightarrow> (\<exists>x. m = Inr x \<and> f x = Inr y)"
  by (cases m) simp_all

lemma py_bind_eq_Inl [simp]:
  "py_bind m f = Inl e \<longleftrightarrow> m = Inl e \<or> (\<exists>x. m = Inr x \<and> f x = Inl e)"
  by (cases m) simp_all

lemma py_getitem_in_range [py_str]: "i < length xs \<Longrightarrow> py_getitem xs i = Inr (xs ! i)"
  by (simp add: py_getitem_def)

lemma py_getitem_out_of_range [py_str]: "length xs \<le> i \<Longrightarrow> py_getitem xs i = Inl IndexError"
  by (simp add: py_getitem_def)

lemma environ_getitem_Some [py_str]: "env k = Some v \<Longrightarrow> environ_getitem env k = Inr v"
  by (simp add: environ_getitem_def)

lemma environ_getitem_None [py_str]: "env k = None \<Longrightarrow> environ_getitem env k = Inl (KeyError k)"
  by (simp add: environ_getitem_def)

section \<open>Lemmas on occurrences\<close>

text \<open>\<open>sub\<close> occurs in \<open>s\<close> exactly when it is a prefix of some suffix of \<open>s\<close>.\<close>

lemma sublist_iff_prefix_drop: "sublist sub s \<longleftrightarrow> (\<exists>i. prefix sub (drop i s))"
proof
  assume "sublist sub s"
  then obtain ps ss where "s = ps @ sub @ ss" by (auto simp: sublist_def)
  then have "prefix sub (drop (length ps) s)" by simp
  then show "\<exists>i. prefix sub (drop i s)" ..
next
  assume "\<exists>i. prefix sub (drop i s)"
  then obtain i where "prefix sub (drop i s)" ..
  then have "sublist sub (drop i s)" by (rule prefix_imp_sublist)
  then show "sublist sub s" by (metis sublist_drop sublist_order.order_trans)
qed

text \<open>
  The key fact of every scan below: if \<open>sub\<close> does not occur in \<open>ys\<close> followed by
  all but the last character of \<open>sub\<close>, then no occurrence of \<open>sub\<close> in
  \<open>ys @ sub @ t\<close> starts before \<open>length ys\<close>.
\<close>

lemma no_early_prefix:
  assumes "\<not> sublist sub (ys @ butlast sub)" and "ys \<noteq> []"
  shows "\<not> prefix sub (ys @ sub @ t)"
proof
  assume pre: "prefix sub (ys @ sub @ t)"
  have "prefix (ys @ butlast sub) (ys @ sub @ t)"
    by (metis append_assoc prefixeq_butlast prefix_order.order_trans same_prefix_prefix
        prefix_prefix)
  moreover have "length sub \<le> length (ys @ butlast sub)"
    using assms(2) by (cases ys) auto
  ultimately have "prefix sub (ys @ butlast sub)"
    using pre prefix_length_prefix by blast
  with assms(1) show False by (auto dest: prefix_imp_sublist)
qed

lemma not_sublist_butlast: "xs \<noteq> [] \<Longrightarrow> \<not> sublist xs (butlast xs)"
  using sublist_length_le [of xs "butlast xs"] by (cases xs) auto

text \<open>An occurrence that would start inside \<open>xs\<close> needs the first character of \<open>old\<close> there.\<close>

lemma first_char_absent:
  assumes "old \<noteq> []" and "hd old \<notin> set xs"
  shows "\<not> sublist old (xs @ butlast old)"
proof
  assume "sublist old (xs @ butlast old)"
  then obtain i where i: "prefix old (drop i (xs @ butlast old))"
    by (auto simp: sublist_iff_prefix_drop)
  show False
  proof (cases "i < length xs")
    case True
    then have "drop i (xs @ butlast old) = xs ! i # drop (Suc i) (xs @ butlast old)"
      by (simp add: Cons_nth_drop_Suc)
    with i assms(1) have "hd old = xs ! i" by (cases old) auto
    with True assms(2) show False by (simp add: nth_mem)
  next
    case False
    then have "length (drop i (xs @ butlast old)) < length old"
      using assms(1) by (cases old) auto
    with i show False by (auto dest: prefix_length_le)
  qed
qed

lemma no_occurrence_Cons: "\<not> sublist sub (c # cs) \<Longrightarrow> \<not> sublist sub cs"
  by (auto simp: sublist_Cons_right)

lemma no_occurrence_butlast_Cons:
  "\<not> sublist sub (c # ys @ zs) \<Longrightarrow> \<not> sublist sub (ys @ zs)"
  by (auto simp: sublist_Cons_right)

lemma no_occurrence_char:
  "c \<in> set sub \<Longrightarrow> c \<notin> set s \<Longrightarrow> \<not> sublist sub s"
  by (auto dest: set_mono_sublist)

section \<open>Lemmas on \<open>str.find\<close>\<close>

lemma find_from_absent: "\<not> sublist sub s \<Longrightarrow> find_from sub s i = -1"
proof (induction sub s i rule: find_from.induct)
  case (1 sub i)
  then show ?case by simp
next
  case (2 sub c cs i)
  then show ?case by (auto simp: sublist_Cons_right)
qed

lemma find_from_at:
  assumes "sub \<noteq> []" and "\<not> sublist sub (pre @ butlast sub)"
  shows "find_from sub (pre @ sub @ t) i = int (i + length pre)"
  using assms(2)
proof (induction pre arbitrary: i)
  case Nil
  from assms(1) show ?case by (cases sub) auto
next
  case (Cons x xs)
  have "\<not> prefix sub ((x # xs) @ sub @ t)"
    using Cons.prems by (rule no_early_prefix) simp
  moreover have "\<not> sublist sub (xs @ butlast sub)"
    using Cons.prems by (auto simp: sublist_Cons_right)
  ultimately show ?case using Cons.IH [of "Suc i"] by simp
qed

text \<open>What \<open>find_from\<close> computes, for every start index: the least position of an occurrence.\<close>

lemma find_from_least:
  "find_from sub s i =
     (if sublist sub s then int (i + (LEAST j. prefix sub (drop j s))) else -1)"
proof (induction sub s i rule: find_from.induct)
  case (1 sub i)
  then show ?case by simp
next
  case (2 sub c cs i)
  show ?case
  proof (cases "prefix sub (c # cs)")
    case True
    then have "(LEAST j. prefix sub (drop j (c # cs))) = 0"
      by (intro Least_equality) simp_all
    with True show ?thesis by simp
  next
    case False
    show ?thesis
    proof (cases "sublist sub cs")
      case True
      then obtain j where j: "prefix sub (drop j cs)" by (auto simp: sublist_iff_prefix_drop)
      have "(LEAST j. prefix sub (drop j (c # cs))) = Suc (LEAST j. prefix sub (drop j cs))"
        using Least_Suc [of "\<lambda>j. prefix sub (drop j (c # cs))" "Suc j"] j False by simp
      with True False "2.IH" show ?thesis by (simp add: sublist_Cons_right)
    next
      case no: False
      with False "2.IH" show ?thesis by (simp add: sublist_Cons_right)
    qed
  qed
qed

section \<open>Lemmas on \<open>str.replace\<close>\<close>

lemma replace_scan_absent: "\<not> sublist old s \<Longrightarrow> replace_scan old new s = s"
  by (induction old new s rule: replace_scan.induct) (auto simp: sublist_Cons_right)

lemma replace_scan_at:
  assumes "old \<noteq> []" and "\<not> sublist old (pre @ butlast old)"
  shows "replace_scan old new (pre @ old @ t) = pre @ new @ replace_scan old new t"
  using assms(2)
proof (induction pre)
  case Nil
  from assms(1) show ?case by (cases old) auto
next
  case (Cons x xs)
  have "\<not> prefix old ((x # xs) @ old @ t)"
    using Cons.prems by (rule no_early_prefix) simp
  moreover have "\<not> sublist old (xs @ butlast old)"
    using Cons.prems by (auto simp: sublist_Cons_right)
  ultimately show ?case using Cons.IH by simp
qed

lemma replace_scan_prefix:
  "old \<noteq> [] \<Longrightarrow> prefix old s \<Longrightarrow> replace_scan old new s = new @ replace_scan old new (drop (length old) s)"
  by (cases s) auto

text \<open>An occurrence at the start is replaced; then the scan goes on behind it.\<close>

lemma replace_scan_start:
  "old \<noteq> [] \<Longrightarrow> replace_scan old new (old @ t) = new @ replace_scan old new t"
  by (metis append_Nil not_sublist_butlast replace_scan_at)

text \<open>Text whose characters cannot start an occurrence is copied unchanged.\<close>

lemma replace_scan_skip:
  "old \<noteq> [] \<Longrightarrow> hd old \<notin> set xs \<Longrightarrow> replace_scan old new (xs @ t) = xs @ replace_scan old new t"
  by (induction xs) (auto simp: neq_Nil_conv)

text \<open>
  A tail holding no copy of the last character of \<open>old\<close> cannot be touched by any
  occurrence, so the scan leaves it in place.
\<close>

lemma sublist_last_in: "old \<noteq> [] \<Longrightarrow> sublist old w \<Longrightarrow> last old \<in> set w"
  by (auto simp: sublist_def)

lemma replace_scan_keeps_tail:
  assumes "old \<noteq> []" and "last old \<notin> set w"
  shows "\<exists>u. replace_scan old new (y @ w) = u @ w"
proof (induction "length y" arbitrary: y rule: less_induct)
  case less
  show ?case
  proof (cases y)
    case Nil
    have "\<not> sublist old w" using assms sublist_last_in by blast
    with Nil show ?thesis by (auto simp: replace_scan_absent)
  next
    case (Cons c y')
    show ?thesis
    proof (cases "prefix old (c # y' @ w)")
      case True
      show ?thesis
      proof (cases "length old \<le> length y")
        case le: True
        have "drop (length old) (y @ w) = drop (length old) y @ w" using le by (simp add: drop_append)
        then have d: "drop (length old) (c # y' @ w) = drop (length old) y @ w" using Cons by simp
        have "length (drop (length old) y) < length y" using le assms(1) Cons by simp
        then obtain u where u: "replace_scan old new (drop (length old) y @ w) = u @ w"
          using less by blast
        have "replace_scan old new (y @ w) = new @ replace_scan old new (drop (length old) (c # y' @ w))"
          using True Cons assms(1) by simp
        with d u show ?thesis by auto
      next
        case False
        have "prefix old (y @ w)" using True Cons by simp
        then obtain v where "old = y @ v" and "prefix v w"
          using False by (auto simp: prefix_append dest: prefix_length_le)
        moreover from False \<open>old = y @ v\<close> have "v \<noteq> []" by auto
        ultimately have "last old \<in> set w"
          by (metis last_appendR last_in_set set_mono_prefix subsetD)
        with assms(2) show ?thesis ..
      qed
    next
      case False
      from less [of y'] Cons obtain u where "replace_scan old new (y' @ w) = u @ w" by auto
      with False Cons show ?thesis by auto
    qed
  qed
qed

lemma replace_scan_same: "new = old \<Longrightarrow> replace_scan old new s = s"
  by (induction old new s rule: replace_scan.induct) (auto simp: prefix_def)

lemma py_replace_nonempty [py_str]: "old \<noteq> [] \<Longrightarrow> py_replace s old new = replace_scan old new s"
  by (simp add: py_replace_def)

section \<open>Lemmas on \<open>str.split\<close> and \<open>str.join\<close>\<close>

lemma cons_first_not_Nil [simp]: "cons_first c ws \<noteq> []"
  by (cases ws) simp_all

lemma split_scan_not_Nil [simp]: "split_scan sep s \<noteq> []"
  by (induction sep s rule: split_scan.induct) simp_all

lemma py_join_cons_first [simp]: "py_join sep (cons_first c ws) = c # py_join sep ws"
  by (induction sep ws rule: py_join.induct) simp_all

lemma py_join_Nil_Cons: "ws \<noteq> [] \<Longrightarrow> py_join sep ([] # ws) = sep @ py_join sep ws"
  by (cases ws) simp_all

lemma replace_scan_split_join: "replace_scan old new s = py_join new (split_scan old s)"
  by (induction old s rule: split_scan.induct) (simp_all add: py_join_Nil_Cons)

lemma split_scan_no_sep: "c \<notin> set w \<Longrightarrow> split_scan [c] w = [w]"
  by (induction w) auto

lemma split_scan_sep: "c \<notin> set w \<Longrightarrow> split_scan [c] (w @ c # r) = w # split_scan [c] r"
  by (induction w) auto

lemma py_split_sep:
  "c \<notin> set w \<Longrightarrow> py_split (w @ c # r) [c] = w # py_split r [c]"
  by (simp add: py_split_def split_scan_sep)

lemma py_split_not_Nil [simp]: "py_split s sep \<noteq> []"
  by (simp add: py_split_def)

text \<open>A separator that occurs in neither head splits a concatenation in one way only.\<close>

lemma append_sep_unique:
  "a @ c # x = b @ c # y \<Longrightarrow> c \<notin> set a \<Longrightarrow> c \<notin> set b \<Longrightarrow> a = b \<and> x = y"
proof (induction a arbitrary: b)
  case Nil
  then show ?case by (cases b) auto
next
  case (Cons d a)
  then show ?case by (cases b) auto
qed

section \<open>Lemmas on slicing\<close>

lemma py_index_nonneg: "0 \<le> i \<Longrightarrow> py_index i n = min (nat i) n"
  by (auto simp: py_index_def min_def)

lemma py_slice_nonneg [py_str]:
  "0 \<le> i \<Longrightarrow> 0 \<le> j \<Longrightarrow> py_slice s i j = take (nat j - nat i) (drop (nat i) s)"
  by (auto simp: py_slice_def py_index_nonneg min_def Let_def)

lemma py_slice_from_nonneg [py_str]: "0 \<le> i \<Longrightarrow> py_slice_from s i = drop (nat i) s"
  by (simp add: py_slice_from_def py_slice_nonneg)

lemma py_slice_to_nonneg [py_str]: "0 \<le> j \<Longrightarrow> py_slice_to s j = take (nat j) s"
  by (simp add: py_slice_to_def py_slice_nonneg)

end
