(* ===== verification/Paths.thy ===== *)
theory Paths
  imports Prelude
begin

text \<open>
  The path conventions both handlers share: the module \<open>aux_paths\<close> (imported by
  \<open>ingest_call_recording.py\<close> and \<open>run_call_analytics.py\<close>, not part of \<open>src/\<close>) as a
  record of its four string constants, with the values the specification gives them; and
  the abstract format of the keys that flow through the pipeline: the key under which
  Amazon Connect stores a call recording, the ISO-timestamped key of the recording in the
  data lake, and the key of the call-analytics result. The handlers' key functions are
  refinements of the maps between these formats (theories \<open>Ingest\<close> and \<open>Analytics\<close>).
\<close>

section \<open>The module \<open>aux_paths\<close>\<close>

record paths =
  PATH_CONNECT_CALLRECORDINGS :: pystr
  PATH_CONNECT_CALLRECORDINGS_RAW :: pystr
  PATH_TRANSCRIBE_CALLANALYTICS_RAW :: pystr
  PATH_CALL_ANALYTICS_RESULT :: pystr

definition aux_paths :: paths where
  "aux_paths =
     \<lparr>PATH_CONNECT_CALLRECORDINGS = ''CallRecordings/'',
      PATH_CONNECT_CALLRECORDINGS_RAW = ''call-recordings-raw/'',
      PATH_TRANSCRIBE_CALLANALYTICS_RAW = ''transcribe-call-analytics-raw/'',
      PATH_CALL_ANALYTICS_RESULT = ''-call-analytics-result''\<rparr>"

section \<open>Key formats\<close>

text \<open>
  Amazon Connect stores a recording under
  \<open>\<langle>prefix\<rangle>CallRecordings/YYYY/MM/DD/\<langle>contact id\<rangle>_YYYYMMDDThh:mm_UTC.wav\<close>,
  the contact id being a 36-character UUID. The fields of that key:
\<close>

record connect_key =
  ck_prefix :: pystr
  ck_year :: pystr
  ck_month :: pystr
  ck_day :: pystr
  ck_contact_id :: pystr
  ck_ts_year :: pystr
  ck_ts_month :: pystr
  ck_ts_day :: pystr
  ck_ts_hour :: pystr
  ck_ts_minute :: pystr

definition connect_recording_key :: "paths \<Rightarrow> connect_key \<Rightarrow> pystr" where
  "connect_recording_key P k =
     ck_prefix k @ PATH_CONNECT_CALLRECORDINGS P @
     ck_year k @ ''/'' @ ck_month k @ ''/'' @ ck_day k @ ''/'' @ ck_contact_id k @ ''_'' @
     ck_ts_year k @ ck_ts_month k @ ck_ts_day k @ ''T'' @ ck_ts_hour k @ '':'' @
     ck_ts_minute k @ ''_UTC.wav''"

text \<open>
  The common stem of the data-lake keys: the date path and contact id as Connect wrote
  them, then the timestamp in ISO 8601 form \<open>YYYY-MM-DDThh:mm:00Z\<close>.
\<close>

definition iso_stem :: "connect_key \<Rightarrow> pystr" where
  "iso_stem k =
     ck_year k @ ''/'' @ ck_month k @ ''/'' @ ck_day k @ ''/'' @ ck_contact_id k @ ''_'' @
     ck_ts_year k @ ''-'' @ ck_ts_month k @ ''-'' @ ck_ts_day k @ ''T'' @ ck_ts_hour k @ '':'' @
     ck_ts_minute k @ '':00Z''"

definition datalake_recording_key :: "paths \<Rightarrow> connect_key \<Rightarrow> pystr" where
  "datalake_recording_key P k = PATH_CONNECT_CALLRECORDINGS_RAW P @ iso_stem k @ ''.wav''"

definition transcript_key :: "paths \<Rightarrow> connect_key \<Rightarrow> pystr" where
  "transcript_key P k =
     PATH_TRANSCRIBE_CALLANALYTICS_RAW P @ iso_stem k @ PATH_CALL_ANALYTICS_RESULT P @ ''.json''"

text \<open>A recording as Connect names it, used by the witnesses below and in the other theories.\<close>

definition example_connect_key :: connect_key where
  "example_connect_key =
     \<lparr>ck_prefix = ''connect/acme-contact-center/'', ck_year = ''2022'', ck_month = ''06'',
      ck_day = ''01'', ck_contact_id = ''1c2a6f0e-3b4d-4e5f-8a9b-0c1d2e3f4a5b'',
      ck_ts_year = ''2022'', ck_ts_month = ''06'', ck_ts_day = ''01'', ck_ts_hour = ''12'',
      ck_ts_minute = ''34''\<rparr>"

section \<open>Well-formed keys\<close>

text \<open>The field widths Connect uses; the 52/54/62 offsets of the ingestion code rely on them.\<close>

definition connect_key_shape :: "connect_key \<Rightarrow> bool" where
  "connect_key_shape k \<longleftrightarrow>
     length (ck_year k) = 4 \<and> length (ck_month k) = 2 \<and> length (ck_day k) = 2 \<and>
     length (ck_contact_id k) = 36 \<and>
     length (ck_ts_year k) = 4 \<and> length (ck_ts_month k) = 2 \<and> length (ck_ts_day k) = 2 \<and>
     length (ck_ts_hour k) = 2 \<and> length (ck_ts_minute k) = 2"

text \<open>The characters Connect uses: decimal digits in the dates, a lower-case UUID as id.\<close>

definition digits :: pystr where
  "digits = ''0123456789''"

definition uuid_chars :: pystr where
  "uuid_chars = ''0123456789abcdef-''"

definition connect_key_chars :: "connect_key \<Rightarrow> bool" where
  "connect_key_chars k \<longleftrightarrow>
     set (ck_year k @ ck_month k @ ck_day k @ ck_ts_year k @ ck_ts_month k @ ck_ts_day k @
          ck_ts_hour k @ ck_ts_minute k) \<subseteq> set digits \<and>
     set (ck_contact_id k) \<subseteq> set uuid_chars"

text \<open>
  The marker \<open>CallRecordings/\<close> is found where the format puts it: no earlier occurrence
  starts in the prefix.
\<close>

definition marker_first :: "paths \<Rightarrow> connect_key \<Rightarrow> bool" where
  "marker_first P k \<longleftrightarrow>
     PATH_CONNECT_CALLRECORDINGS P \<noteq> [] \<and>
     \<not> sublist (PATH_CONNECT_CALLRECORDINGS P) (ck_prefix k @ butlast (PATH_CONNECT_CALLRECORDINGS P))"

text \<open>A Connect key as Connect writes it: field widths, characters, and the marker where it belongs.\<close>

definition wf_connect_key :: "paths \<Rightarrow> connect_key \<Rightarrow> bool" where
  "wf_connect_key P k \<longleftrightarrow> connect_key_shape k \<and> connect_key_chars k \<and> marker_first P k"

text \<open>
  The characters a data-lake recording key can hold after its prefix. A configuration of
  paths is well-formed for the analytics step when the raw-recordings prefix has a
  character no such key can hold after its prefix (so the prefix is not found again there) and the transcription prefix has no dot (so
  \<open>.wav\<close> is found only at the end).
\<close>

definition stem_chars :: pystr where
  "stem_chars = ''0123456789abcdef-/_T:Z.wv''"

definition wf_paths :: "paths \<Rightarrow> bool" where
  "wf_paths P \<longleftrightarrow>
     (\<exists>c\<in>set (PATH_CONNECT_CALLRECORDINGS_RAW P). c \<notin> set stem_chars) \<and>
     CHR ''.'' \<notin> set (PATH_TRANSCRIBE_CALLANALYTICS_RAW P)"

section \<open>The configured paths\<close>

text \<open>What a data-lake recording key holds after its prefix: no character outside
  \<open>stem_chars\<close>, and no dot before the extension.\<close>

lemma iso_stem_chars:
  assumes "connect_key_chars k"
  shows "set (iso_stem k @ ''.wav'') \<subseteq> set stem_chars" and "CHR ''.'' \<notin> set (iso_stem k)"
proof -
  have ds: "set digits \<subseteq> set stem_chars" and us: "set uuid_chars \<subseteq> set stem_chars"
    by (simp_all add: digits_def uuid_chars_def stem_chars_def)
  have dd: "CHR ''.'' \<notin> set digits" and ud: "CHR ''.'' \<notin> set uuid_chars"
    by (simp_all add: digits_def uuid_chars_def)
  from assms have fd: "set (ck_year k) \<subseteq> set digits" "set (ck_month k) \<subseteq> set digits"
    "set (ck_day k) \<subseteq> set digits" "set (ck_ts_year k) \<subseteq> set digits"
    "set (ck_ts_month k) \<subseteq> set digits" "set (ck_ts_day k) \<subseteq> set digits"
    "set (ck_ts_hour k) \<subseteq> set digits" "set (ck_ts_minute k) \<subseteq> set digits"
    and fu: "set (ck_contact_id k) \<subseteq> set uuid_chars"
    by (simp_all add: connect_key_chars_def)
  have lits: "set ''/'' \<subseteq> set stem_chars" "set ''_'' \<subseteq> set stem_chars"
    "set ''-'' \<subseteq> set stem_chars" "set ''T'' \<subseteq> set stem_chars"
    "set '':'' \<subseteq> set stem_chars" "set '':00Z'' \<subseteq> set stem_chars"
    "set ''.wav'' \<subseteq> set stem_chars"
    by (simp_all add: stem_chars_def)
  have nodot: "CHR ''.'' \<notin> set ''/''" "CHR ''.'' \<notin> set ''_''" "CHR ''.'' \<notin> set ''-''"
    "CHR ''.'' \<notin> set ''T''" "CHR ''.'' \<notin> set '':''" "CHR ''.'' \<notin> set '':00Z''"
    by simp_all
  show "set (iso_stem k @ ''.wav'') \<subseteq> set stem_chars"
    unfolding iso_stem_def set_append Un_subset_iff
    using fd fu ds us lits by (meson order_trans)
  show "CHR ''.'' \<notin> set (iso_stem k)"
    unfolding iso_stem_def set_append Un_iff
    using fd fu dd ud nodot by blast
qed

lemma wf_aux_paths: "wf_paths aux_paths"
  by (simp add: wf_paths_def aux_paths_def stem_chars_def)

lemma example_connect_key_shape: "connect_key_shape example_connect_key"
  by (simp add: connect_key_shape_def example_connect_key_def)

lemma example_connect_key_chars: "connect_key_chars example_connect_key"
  by (simp add: connect_key_chars_def example_connect_key_def digits_def uuid_chars_def)

lemma example_marker_first: "marker_first aux_paths example_connect_key"
  by (simp add: marker_first_def aux_paths_def example_connect_key_def sublist_code)

lemma example_datalake_key:
  "datalake_recording_key aux_paths example_connect_key =
     ''call-recordings-raw/2022/06/01/1c2a6f0e-3b4d-4e5f-8a9b-0c1d2e3f4a5b_2022-06-01T12:34:00Z.wav''"
  by (simp add: datalake_recording_key_def aux_paths_def example_connect_key_def iso_stem_def)

lemma example_transcript_key:
  "transcript_key aux_paths example_connect_key =
     ''transcribe-call-analytics-raw/2022/06/01/1c2a6f0e-3b4d-4e5f-8a9b-0c1d2e3f4a5b_2022-06-01T12:34:00Z-call-analytics-result.json''"
  by (simp add: transcript_key_def aux_paths_def example_connect_key_def iso_stem_def)

end
