(* ===== verification/Events.thy ===== *)
theory Events
  imports Prelude
begin

text \<open>
  The inbound event and its extraction (module \<open>aux_eventbridge_events\<close>, not part of
  \<open>src/\<close>; modelled from the specification). Lambda hands the handler the EventBridge
  event as a Python \<open>dict\<close> decoded from JSON; the model is a JSON value whose objects
  are association lists (the last binding of a key wins, as in \<open>json.loads\<close>). The
  extraction functions subscript the event along \<open>detail.bucket.name\<close> and
  \<open>detail.object.key\<close>: a missing key raises \<open>KeyError\<close>, subscripting a non-object
  raises \<open>TypeError\<close>, and a value that is not a string fails where it is used as one.
\<close>

datatype json =
    JNull
  | JBool bool
  | JNum int
  | JStr pystr
  | JArr "json list"
  | JObj "(pystr \<times> json) list"

fun py_subscript :: "json \<Rightarrow> pystr \<Rightarrow> json py_result" where
  "py_subscript (JObj kvs) k = (case map_of (rev kvs) k of None \<Rightarrow> Inl (KeyError k) | Some v \<Rightarrow> Inr v)"
| "py_subscript (JStr s) k = Inl (TypeError ''string indices must be integers'')"
| "py_subscript (JArr vs) k = Inl (TypeError ''list indices must be integers or slices, not str'')"
| "py_subscript v k = Inl (TypeError ''object is not subscriptable'')"

fun json_path :: "json \<Rightarrow> pystr list \<Rightarrow> json py_result" where
  "json_path v [] = Inr v"
| "json_path v (k # ks) = py_bind (py_subscript v k) (\<lambda>w. json_path w ks)"

fun json_str :: "json \<Rightarrow> pystr py_result" where
  "json_str (JStr s) = Inr s"
| "json_str v = Inl (TypeError ''expected str'')"

definition extract_source_bucket_name :: "json \<Rightarrow> pystr py_result" where
  "extract_source_bucket_name event =
     py_bind (json_path event [''detail'', ''bucket'', ''name'']) json_str"

definition extract_source_object_key :: "json \<Rightarrow> pystr py_result" where
  "extract_source_object_key event =
     py_bind (json_path event [''detail'', ''object'', ''key'']) json_str"

text \<open>The copy-source descriptor \<open>{"Bucket": ..., "Key": ...}\<close> handed to S3.\<close>

record copy_source =
  cs_Bucket :: pystr
  cs_Key :: pystr

definition extract_copy_source :: "json \<Rightarrow> copy_source py_result" where
  "extract_copy_source event =
     py_bind (extract_source_bucket_name event) (\<lambda>b.
     py_bind (extract_source_object_key event) (\<lambda>k.
       Inr \<lparr>cs_Bucket = b, cs_Key = k\<rparr>))"

text \<open>The \<open>Object Created\<close> event S3 sends to EventBridge for a new object.\<close>

definition object_created_event :: "pystr \<Rightarrow> pystr \<Rightarrow> json" where
  "object_created_event b k =
     JObj [(''version'', JStr ''0''), (''detail-type'', JStr ''Object Created''),
           (''source'', JStr ''aws.s3''),
           (''detail'', JObj [(''version'', JStr ''0''),
                             (''bucket'', JObj [(''name'', JStr b)]),
                             (''object'', JObj [(''key'', JStr k)])])]"

text \<open>An event of another source reaching the function: a scheduled event, whose detail is empty.\<close>

definition scheduled_event :: json where
  "scheduled_event =
     JObj [(''version'', JStr ''0''), (''detail-type'', JStr ''Scheduled Event''),
           (''source'', JStr ''aws.events''), (''detail'', JObj [])]"

lemma extract_object_created [simp]:
  "extract_source_bucket_name (object_created_event b k) = Inr b"
  "extract_source_object_key (object_created_event b k) = Inr k"
  "extract_copy_source (object_created_event b k) = Inr \<lparr>cs_Bucket = b, cs_Key = k\<rparr>"
  by (simp_all add: extract_source_bucket_name_def extract_source_object_key_def
      extract_copy_source_def object_created_event_def)

end
