(* ===== verification/Aws.thy ===== *)
theory Aws
  imports Events
begin

text \<open>
  The external collaborators the handlers call, reduced to what the handlers rely on: the
  Lambda invocation context, Amazon S3's \<open>copy_object\<close> and Amazon Transcribe's
  \<open>start_call_analytics_job\<close>. They are not code of the repository; they are modelled
  from the service contracts so that the handlers' effects and failures can be stated.
  Object contents are left abstract (type \<open>'obj\<close>): the handlers never look at them.
\<close>

record lambda_context =
  invoked_function_arn :: pystr

section \<open>Amazon S3\<close>

text \<open>A store maps bucket names to buckets, and a bucket maps object keys to objects.\<close>

type_synonym 'obj bucket = "pystr \<rightharpoonup> 'obj"
type_synonym 'obj s3_store = "pystr \<rightharpoonup> 'obj bucket"

text \<open>
  \<open>copy_object(CopySource=..., Bucket=..., Key=...)\<close>: botocore's S3 hook
  \<open>validate_bucket_name\<close> runs before parameter validation and matches the bucket name
  with \<open>re.search\<close>, which raises \<open>TypeError\<close> on \<open>None\<close>; S3 fails on a missing source bucket or object and on a missing
  destination bucket; otherwise the destination key holds a copy of the source object
  (an existing object there is overwritten) and the source is kept.
\<close>

definition s3_copy_object ::
  "'obj s3_store \<Rightarrow> copy_source \<Rightarrow> pystr option \<Rightarrow> pystr \<Rightarrow> 'obj s3_store py_result" where
  "s3_copy_object s3 src dst_bucket dst_key =
     (case dst_bucket of
        None \<Rightarrow> Inl (TypeError ''expected string or bytes-like object'')
      | Some db \<Rightarrow>
          (case s3 (cs_Bucket src) of
             None \<Rightarrow> Inl (ClientError ''NoSuchBucket'')
           | Some sb \<Rightarrow>
               (case sb (cs_Key src) of
                  None \<Rightarrow> Inl (ClientError ''NoSuchKey'')
                | Some obj \<Rightarrow>
                    (case s3 db of
                       None \<Rightarrow> Inl (ClientError ''NoSuchBucket'')
                     | Some b \<Rightarrow> Inr (s3(db \<mapsto> b(dst_key \<mapsto> obj)))))))"

section \<open>Amazon Transcribe\<close>

datatype participant_role = CUSTOMER | AGENT

record channel_definition =
  ChannelId :: nat
  ParticipantRole :: participant_role

record call_analytics_job =
  CallAnalyticsJobName :: pystr
  MediaFileUri :: pystr
  OutputLocation :: pystr
  DataAccessRoleArn :: pystr
  ChannelDefinitions :: "channel_definition list"

text \<open>The service's job store, by job name.\<close>

type_synonym jobs = "pystr \<rightharpoonup> call_analytics_job"

text \<open>Job names the service accepts: 1 to 200 characters of \<open>[0-9a-zA-Z._-]\<close>.\<close>

definition job_name_chars :: pystr where
  "job_name_chars = ''0123456789abcdefghijklmnopqrstuvwxyzABCDEFGHIJKLMNOPQRSTUVWXYZ._-''"

definition valid_job_name :: "pystr \<Rightarrow> bool" where
  "valid_job_name n \<longleftrightarrow> n \<noteq> [] \<and> length n \<le> 200 \<and> set n \<subseteq> set job_name_chars"

text \<open>
  \<open>start_call_analytics_job\<close>: botocore rejects a \<open>None\<close> role before sending; the
  service rejects an invalid name and a name already in use; otherwise the job is stored.
\<close>

definition start_call_analytics_job ::
  "jobs \<Rightarrow> pystr \<Rightarrow> pystr \<Rightarrow> pystr \<Rightarrow> pystr option \<Rightarrow> channel_definition list \<Rightarrow> jobs py_result" where
  "start_call_analytics_job js name media output role channels =
     (case role of
        None \<Rightarrow> Inl (ParamValidationError ''DataAccessRoleArn'')
      | Some r \<Rightarrow>
          (if \<not> valid_job_name name then Inl (ClientError ''BadRequestException'')
           else if name \<in> dom js then Inl (ClientError ''ConflictException'')
           else Inr (js(name \<mapsto>
                  \<lparr>CallAnalyticsJobName = name, MediaFileUri = media, OutputLocation = output,
                   DataAccessRoleArn = r, ChannelDefinitions = channels\<rparr>))))"

section \<open>Characteristic equations\<close>

lemma s3_copy_object_Inr:
  "s3_copy_object s3 src db k = Inr s3' \<longleftrightarrow>
     (\<exists>d sb obj b. db = Some d \<and> s3 (cs_Bucket src) = Some sb \<and> sb (cs_Key src) = Some obj \<and>
        s3 d = Some b \<and> s3' = s3(d \<mapsto> b(k \<mapsto> obj)))"
  by (auto simp: s3_copy_object_def split: option.split)

text \<open>Copying again what was just copied changes nothing: the source still holds the object.\<close>

lemma s3_copy_object_idempotent:
  assumes "s3_copy_object s3 src db k = Inr s3'"
  shows "s3_copy_object s3' src db k = Inr s3'"
proof -
  from assms obtain d sb obj b where db: "db = Some d" and sb: "s3 (cs_Bucket src) = Some sb"
    and obj: "sb (cs_Key src) = Some obj" and b: "s3 d = Some b" and s3': "s3' = s3(d \<mapsto> b(k \<mapsto> obj))"
    by (auto simp: s3_copy_object_Inr)
  have "\<exists>sb'. s3' (cs_Bucket src) = Some sb' \<and> sb' (cs_Key src) = Some obj"
    using sb obj b s3' by auto
  with db s3' show ?thesis by (auto simp: s3_copy_object_Inr)
qed

lemma start_call_analytics_job_Inr:
  "start_call_analytics_job js name media output role channels = Inr js' \<longleftrightarrow>
     (\<exists>r. role = Some r \<and> valid_job_name name \<and> name \<notin> dom js \<and>
        js' = js(name \<mapsto> \<lparr>CallAnalyticsJobName = name, MediaFileUri = media, OutputLocation = output,
                             DataAccessRoleArn = r, ChannelDefinitions = channels\<rparr>))"
  by (auto simp: start_call_analytics_job_def split: option.split)

section \<open>An invocation environment\<close>

text \<open>
  The configuration a deployed stack gives both functions, and the context of an
  invocation, used by the witnesses of the handler theorems.
\<close>

definition example_context :: lambda_context where
  "example_context =
     \<lparr>invoked_function_arn = ''arn:aws:lambda:eu-central-1:123456789012:function:ingest-call-recording''\<rparr>"

definition example_env :: environ where
  "example_env =
     [''AWS_REGION'' \<mapsto> ''eu-central-1'',
      ''DATA_LAKE_DATA_BUCKET_NAME'' \<mapsto> ''datalake-bucket'',
      ''DATA_ACCESS_ROLE_ARN'' \<mapsto> ''arn:aws:iam::123456789012:role/transcribe-data-access'']"

end
