(* ===== verification/Ingest.thy ===== *)
theory Ingest
  imports Paths Aws
begin

text \<open>
  The data-lake ingestion service, \<open>2-datalake-ingestion-service/src/ingest_call_recording.py\<close>:
  the key mapping \<open>construct_destination_object_key\<close> (KeyMapper, recording variant) and the
  handler \<open>lambda_handler\<close> that copies a new recording from the contact-center bucket
  into the data lake (CopyDispatcher). Logging calls have no effect on the modelled state
  and are left out.
\<close>

section \<open>Definitions\<close>

text \<open>
  The names of the four configuration variables the module declares. Only the data-lake
  bucket name is read; the handler also reads \<open>AWS_REGION\<close>, a name set by Lambda itself.
\<close>

definition ENV_CONTACT_CENTER_DATA_BUCKET_ARN :: pystr where
  "ENV_CONTACT_CENTER_DATA_BUCKET_ARN = ''CONTACT_CENTER_DATA_BUCKET_ARN''"

definition ENV_CONTACT_CENTER_DATA_BUCKET_NAME :: pystr where
  "ENV_CONTACT_CENTER_DATA_BUCKET_NAME = ''CONTACT_CENTER_DATA_BUCKET_NAME''"

definition ENV_DATA_LAKE_DATA_BUCKET_ARN :: pystr where
  "ENV_DATA_LAKE_DATA_BUCKET_ARN = ''DATA_LAKE_DATA_BUCKET_ARN''"

definition ENV_DATA_LAKE_DATA_BUCKET_NAME :: pystr where
  "ENV_DATA_LAKE_DATA_BUCKET_NAME = ''DATA_LAKE_DATA_BUCKET_NAME''"

text \<open>
  \<open>construct_destination_object_key\<close>: find the marker, take what follows it, and
  rebuild it with a dash after character 52 and after character 54, the first 62
  characters kept and \<open>:00Z.wav\<close> appended.
\<close>

definition ingest_construct_destination_object_key :: "paths \<Rightarrow> pystr \<Rightarrow> pystr" where
  "ingest_construct_destination_object_key P source_object_key =
     (let index = py_find source_object_key (PATH_CONNECT_CALLRECORDINGS P);
          index = index + int (length (PATH_CONNECT_CALLRECORDINGS P));
          tmp_destination_object_key_suffix = py_slice_from source_object_key index;
          destination_object_key_suffix =
            py_slice_to tmp_destination_object_key_suffix 52 @ ''-'' @
            py_slice tmp_destination_object_key_suffix 52 54 @ ''-'' @
            py_slice tmp_destination_object_key_suffix 54 62 @ '':00Z.wav''
      in PATH_CONNECT_CALLRECORDINGS_RAW P @ destination_object_key_suffix)"

text \<open>\<open>context.invoked_function_arn.split(":")[4]\<close>, the account id.\<close>

definition lambda_account_id :: "lambda_context \<Rightarrow> pystr py_result" where
  "lambda_account_id context = py_getitem (py_split (invoked_function_arn context) '':'') 4"

text \<open>
  \<open>lambda_handler\<close>: the account id is the fifth field of the function ARN (an
  \<open>IndexError\<close> if there is none), the region must be set, the copy source comes from
  the event, the destination bucket from the environment (possibly unset), and the copy is
  the one effect.
\<close>

definition ingest_lambda_handler ::
  "paths \<Rightarrow> environ \<Rightarrow> json \<Rightarrow> lambda_context \<Rightarrow> 'obj s3_store \<Rightarrow> 'obj s3_store py_result" where
  "ingest_lambda_handler P env event context s3 =
     py_bind (lambda_account_id context) (\<lambda>aws_account_id.
     py_bind (environ_getitem env ''AWS_REGION'') (\<lambda>aws_region.
     py_bind (extract_copy_source event) (\<lambda>copy_source.
       (let destination_bucket_name = env ENV_DATA_LAKE_DATA_BUCKET_NAME;
            destination_object_key = ingest_construct_destination_object_key P (cs_Key copy_source)
        in s3_copy_object s3 copy_source destination_bucket_name destination_object_key))))"

text \<open>A context whose ARN field holds a bare function name instead of an ARN.\<close>

definition bare_name_context :: lambda_context where
  "bare_name_context = \<lparr>invoked_function_arn = ''ingest-call-recording''\<rparr>"

text \<open>A recording of a second Connect instance, with the same date, contact id and time.\<close>

definition other_instance_key :: connect_key where
  "other_instance_key = example_connect_key\<lparr>ck_prefix := ''connect/other-instance/''\<rparr>"

text \<open>A contact-center bucket holding one recording, and an empty data-lake bucket.\<close>

definition example_store :: "nat s3_store" where
  "example_store =
     [''contact-center-bucket'' \<mapsto> [connect_recording_key aux_paths example_connect_key \<mapsto> 1],
      ''datalake-bucket'' \<mapsto> Map.empty]"

section \<open>The key mapping\<close>

text \<open>
  Where the marker is found (first occurrence right after \<open>pre\<close>), the key is the
  raw-recordings prefix and the reformatted first 62 characters after the marker.
\<close>

lemma ingest_marker_find:
  assumes "PATH_CONNECT_CALLRECORDINGS P \<noteq> []"
    and "\<not> sublist (PATH_CONNECT_CALLRECORDINGS P) (pre @ butlast (PATH_CONNECT_CALLRECORDINGS P))"
  shows "py_find (pre @ PATH_CONNECT_CALLRECORDINGS P @ t) (PATH_CONNECT_CALLRECORDINGS P) = int (length pre)"
  using find_from_at [OF assms, of t 0] by (simp add: py_find_def)

lemma ingest_key_found:
  assumes "PATH_CONNECT_CALLRECORDINGS P \<noteq> []"
    and "\<not> sublist (PATH_CONNECT_CALLRECORDINGS P) (pre @ butlast (PATH_CONNECT_CALLRECORDINGS P))"
  shows "ingest_construct_destination_object_key P (pre @ PATH_CONNECT_CALLRECORDINGS P @ t) =
           PATH_CONNECT_CALLRECORDINGS_RAW P @ take 52 t @ ''-'' @ take 2 (drop 52 t) @ ''-'' @
           take 8 (drop 54 t) @ '':00Z.wav''"
  using ingest_marker_find [OF assms]
  by (simp add: ingest_construct_destination_object_key_def py_str nat_add_distrib)

text \<open>On a key in Connect's format, the mapping is the format change to the ISO key.\<close>

lemma ingest_key_connect:
  assumes "connect_key_shape k" and "marker_first P k"
  shows "ingest_construct_destination_object_key P (connect_recording_key P k) =
           datalake_recording_key P k"
  using assms ingest_key_found [of P "ck_prefix k"]
  by (simp add: connect_key_shape_def marker_first_def connect_recording_key_def
      datalake_recording_key_def iso_stem_def)

text \<open>The handler succeeds exactly when each step succeeds, and then its result is the copy.\<close>

lemma ingest_lambda_handler_Inr:
  "ingest_lambda_handler P env event ctx s3 = Inr s3' \<longleftrightarrow>
     (\<exists>acct region cs. lambda_account_id ctx = Inr acct \<and> environ_getitem env ''AWS_REGION'' = Inr region \<and>
        extract_copy_source event = Inr cs \<and>
        s3_copy_object s3 cs (env ENV_DATA_LAKE_DATA_BUCKET_NAME)
          (ingest_construct_destination_object_key P (cs_Key cs)) = Inr s3')"
  by (auto simp: ingest_lambda_handler_def Let_def)

lemma take_eq_le: "take n xs = take n ys \<Longrightarrow> m \<le> n \<Longrightarrow> take m xs = take m ys"
  by (metis min.absorb1 take_take)

text \<open>Whatever the source key, the mapped key has the raw prefix and ends in \<open>:00Z.wav\<close>.\<close>

lemma ingest_key_shape:
  "\<exists>y. ingest_construct_destination_object_key P s = PATH_CONNECT_CALLRECORDINGS_RAW P @ y @ '':00Z.wav''"
proof -
  have "\<exists>y. R @ a @ ''-'' @ b @ ''-'' @ c @ '':00Z.wav'' = R @ y @ '':00Z.wav''" for R a b c :: pystr
    by (rule exI [of _ "a @ ''-'' @ b @ ''-'' @ c"]) simp
  then show ?thesis unfolding ingest_construct_destination_object_key_def Let_def by blast
qed

lemmas ingest_handler_simps =
  ingest_lambda_handler_def lambda_account_id_def s3_copy_object_def py_str

section \<open>Properties of the handler\<close>

text \<open>
  C1. A new Connect recording in the contact-center bucket is copied, under its
  ISO-timestamped data-lake key, into the configured data-lake bucket; nothing else in
  the store changes.
\<close>

theorem ingest_handler_copies_connect_recording:
  assumes "4 < length (py_split (invoked_function_arn ctx) '':'')"
    and "env ''AWS_REGION'' = Some region"
    and "env ENV_DATA_LAKE_DATA_BUCKET_NAME = Some dl"
    and "s3 cc = Some ccb" and "ccb (connect_recording_key P k) = Some rec"
    and "s3 dl = Some dlb"
    and "connect_key_shape k" and "marker_first P k"
  shows "ingest_lambda_handler P env (object_created_event cc (connect_recording_key P k)) ctx s3 =
           Inr (s3(dl \<mapsto> dlb(datalake_recording_key P k \<mapsto> rec)))"
  using assms ingest_marker_find [of P "ck_prefix k"]
  by (simp add: ingest_handler_simps ingest_construct_destination_object_key_def nat_add_distrib
      connect_key_shape_def marker_first_def connect_recording_key_def datalake_recording_key_def iso_stem_def)

theorem ingest_handler_copies_connect_recording_witness:
  "ingest_lambda_handler aux_paths example_env
     (object_created_event ''contact-center-bucket'' (connect_recording_key aux_paths example_connect_key))
     example_context example_store =
   Inr (example_store(''datalake-bucket'' \<mapsto>
     [''call-recordings-raw/2022/06/01/1c2a6f0e-3b4d-4e5f-8a9b-0c1d2e3f4a5b_2022-06-01T12:34:00Z.wav'' \<mapsto> 1]))"
proof -
  have arn: "4 < length (py_split (invoked_function_arn example_context) '':'')"
    by (simp add: example_context_def py_split_def)
  show ?thesis
    using ingest_handler_copies_connect_recording [OF arn, of example_env "''eu-central-1''"
        "''datalake-bucket''" example_store "''contact-center-bucket''"]
      example_connect_key_shape example_marker_first
    by (simp add: example_env_def example_store_def ENV_DATA_LAKE_DATA_BUCKET_NAME_def
        example_datalake_key)
qed

text \<open>
  C5. A successful run has exactly one effect: the object the event names is copied,
  under the mapped key, into the bucket the environment names; that bucket must exist and
  the source object must exist. Every other bucket and key of the store is unchanged.
\<close>

theorem ingest_handler_effect:
  assumes "ingest_lambda_handler P env event ctx s3 = Inr s3'"
  shows "\<exists>cs dl sb obj dlb.
           extract_copy_source event = Inr cs \<and> env ENV_DATA_LAKE_DATA_BUCKET_NAME = Some dl \<and>
           s3 (cs_Bucket cs) = Some sb \<and> sb (cs_Key cs) = Some obj \<and> s3 dl = Some dlb \<and>
           s3' = s3(dl \<mapsto> dlb(ingest_construct_destination_object_key P (cs_Key cs) \<mapsto> obj))"
proof -
  from assms obtain cs where cs: "extract_copy_source event = Inr cs"
    and copy: "s3_copy_object s3 cs (env ENV_DATA_LAKE_DATA_BUCKET_NAME)
                 (ingest_construct_destination_object_key P (cs_Key cs)) = Inr s3'"
    using assms by (auto simp: ingest_lambda_handler_def Let_def)
  from copy show ?thesis
    unfolding s3_copy_object_Inr using cs by blast
qed

theorem ingest_handler_effect_witness:
  "\<exists>cs dl sb obj dlb.
     extract_copy_source (object_created_event ''contact-center-bucket''
       (connect_recording_key aux_paths example_connect_key)) = Inr cs \<and>
     example_env ENV_DATA_LAKE_DATA_BUCKET_NAME = Some dl \<and>
     example_store (cs_Bucket cs) = Some sb \<and> sb (cs_Key cs) = Some obj \<and> example_store dl = Some dlb \<and>
     example_store(''datalake-bucket'' \<mapsto> [datalake_recording_key aux_paths example_connect_key \<mapsto> 1]) =
       example_store(dl \<mapsto> dlb(ingest_construct_destination_object_key aux_paths (cs_Key cs) \<mapsto> obj))"
proof -
  have arn: "4 < length (py_split (invoked_function_arn example_context) '':'')"
    by (simp add: example_context_def py_split_def)
  have "ingest_lambda_handler aux_paths example_env
     (object_created_event ''contact-center-bucket'' (connect_recording_key aux_paths example_connect_key))
     example_context example_store =
     Inr (example_store(''datalake-bucket'' \<mapsto> [datalake_recording_key aux_paths example_connect_key \<mapsto> 1]))"
    using arn example_connect_key_shape example_marker_first
    by (simp add: ingest_handler_simps example_env_def example_store_def
        ENV_DATA_LAKE_DATA_BUCKET_NAME_def ingest_key_connect)
  then show ?thesis by (rule ingest_handler_effect)
qed

text \<open>
  C6. A key without the marker is not rejected: \<open>find\<close> returns -1, the slice starts
  at \<open>len(marker) - 1\<close>, and the handler copies the object under a key cut from the
  middle of the source key.
\<close>

theorem ingest_key_marker_absent:
  assumes "PATH_CONNECT_CALLRECORDINGS P \<noteq> []"
    and "\<not> sublist (PATH_CONNECT_CALLRECORDINGS P) s"
  shows "ingest_construct_destination_object_key P s =
           (let t = drop (length (PATH_CONNECT_CALLRECORDINGS P) - 1) s
            in PATH_CONNECT_CALLRECORDINGS_RAW P @ take 52 t @ ''-'' @ take 2 (drop 52 t) @ ''-'' @
               take 8 (drop 54 t) @ '':00Z.wav'')"
proof -
  have "py_find s (PATH_CONNECT_CALLRECORDINGS P) = -1"
    using assms(2) by (simp add: py_find_def find_from_absent)
  moreover have "0 \<le> -1 + int (length (PATH_CONNECT_CALLRECORDINGS P))"
    using assms(1) by simp
  ultimately show ?thesis
    by (simp add: ingest_construct_destination_object_key_def py_str nat_diff_distrib')
qed

theorem ingest_key_marker_absent_witness:
  "PATH_CONNECT_CALLRECORDINGS aux_paths \<noteq> [] \<and>
   \<not> sublist (PATH_CONNECT_CALLRECORDINGS aux_paths)
     ''connect/acme-contact-center/ChatTranscripts/2022/06/01/1c2a6f0e-3b4d-4e5f-8a9b-0c1d2e3f4a5b_20220601T12:34_UTC.json'' \<and>
   ingest_construct_destination_object_key aux_paths
     ''connect/acme-contact-center/ChatTranscripts/2022/06/01/1c2a6f0e-3b4d-4e5f-8a9b-0c1d2e3f4a5b_20220601T12:34_UTC.json'' =
   ''call-recordings-raw/ontact-center/ChatTranscripts/2022/06/01/1c2a6f0e-3b-4d--4e5f-8a:00Z.wav''"
proof -
  have m: "PATH_CONNECT_CALLRECORDINGS aux_paths \<noteq> []" by (simp add: aux_paths_def)
  have a: "\<not> sublist (PATH_CONNECT_CALLRECORDINGS aux_paths)
     ''connect/acme-contact-center/ChatTranscripts/2022/06/01/1c2a6f0e-3b4d-4e5f-8a9b-0c1d2e3f4a5b_20220601T12:34_UTC.json''"
    by (simp add: aux_paths_def sublist_code)
  show ?thesis
    using ingest_key_marker_absent [OF m a] m a by (simp add: aux_paths_def)
qed

text \<open>
  C7. Whatever the source key, the mapped key is at most 72 characters longer than the
  raw-recordings prefix: at most 62 characters of the source key survive.
\<close>

theorem ingest_key_length_bound:
  "length (ingest_construct_destination_object_key P s) \<le>
     length (PATH_CONNECT_CALLRECORDINGS_RAW P) + 72"
  by (simp add: ingest_construct_destination_object_key_def py_str Let_def)

text \<open>
  C8. The mapping forgets everything before the marker and everything after the 62nd
  character behind it: recordings of two Connect instances with the same date path,
  contact id and minute map to the same data-lake key, and the second copy overwrites the
  first.
\<close>

theorem ingest_key_collision:
  assumes "PATH_CONNECT_CALLRECORDINGS P \<noteq> []"
    and "\<not> sublist (PATH_CONNECT_CALLRECORDINGS P) (pre1 @ butlast (PATH_CONNECT_CALLRECORDINGS P))"
    and "\<not> sublist (PATH_CONNECT_CALLRECORDINGS P) (pre2 @ butlast (PATH_CONNECT_CALLRECORDINGS P))"
    and "take 62 t1 = take 62 t2"
  shows "ingest_construct_destination_object_key P (pre1 @ PATH_CONNECT_CALLRECORDINGS P @ t1) =
           ingest_construct_destination_object_key P (pre2 @ PATH_CONNECT_CALLRECORDINGS P @ t2)"
proof -
  have t52: "take 52 t1 = take 52 t2" and t54: "take 54 t1 = take 54 t2"
    using take_eq_le [OF assms(4)] by simp_all
  have d52: "take 2 (drop 52 t1) = take 2 (drop 52 t2)"
    by (simp only: take_drop) (simp add: t54)
  have d54: "take 8 (drop 54 t1) = take 8 (drop 54 t2)"
    by (simp only: take_drop) (simp add: assms(4))
  from t52 d52 d54 show ?thesis
    by (simp add: ingest_key_found [OF assms(1,2)] ingest_key_found [OF assms(1,3)])
qed

theorem ingest_key_collision_witness:
  "connect_recording_key aux_paths example_connect_key \<noteq> connect_recording_key aux_paths other_instance_key \<and>
   ingest_construct_destination_object_key aux_paths (connect_recording_key aux_paths example_connect_key) =
   ingest_construct_destination_object_key aux_paths (connect_recording_key aux_paths other_instance_key)"
proof -
  let ?m = "PATH_CONNECT_CALLRECORDINGS aux_paths"
  let ?t = "''2022/06/01/1c2a6f0e-3b4d-4e5f-8a9b-0c1d2e3f4a5b_20220601T12:34_UTC.wav''"
  have m: "?m \<noteq> []" by (simp add: aux_paths_def)
  have p1: "\<not> sublist ?m (''connect/acme-contact-center/'' @ butlast ?m)"
    and p2: "\<not> sublist ?m (''connect/other-instance/'' @ butlast ?m)"
    by (simp_all add: aux_paths_def sublist_code)
  have k1: "connect_recording_key aux_paths example_connect_key = ''connect/acme-contact-center/'' @ ?m @ ?t"
    and k2: "connect_recording_key aux_paths other_instance_key = ''connect/other-instance/'' @ ?m @ ?t"
    by (simp_all add: connect_recording_key_def example_connect_key_def other_instance_key_def aux_paths_def)
  show ?thesis
    unfolding k1 k2 using ingest_key_collision [OF m p1 p2, of ?t ?t] by simp
qed

text \<open>
  C9. The account id is computed before anything else and only logged, yet a context
  whose ARN has fewer than five colon-separated fields makes the handler fail with
  \<open>IndexError\<close>, whatever the event, the environment and the store.
\<close>

theorem ingest_handler_short_arn:
  assumes "length (py_split (invoked_function_arn ctx) '':'') \<le> 4"
  shows "ingest_lambda_handler P env event ctx s3 = Inl IndexError"
  using assms by (simp add: ingest_handler_simps)

theorem ingest_handler_short_arn_witness:
  "length (py_split (invoked_function_arn bare_name_context) '':'') \<le> 4 \<and>
   ingest_lambda_handler aux_paths example_env
     (object_created_event ''contact-center-bucket'' (connect_recording_key aux_paths example_connect_key))
     bare_name_context example_store = Inl IndexError"
proof -
  have a: "length (py_split (invoked_function_arn bare_name_context) '':'') \<le> 4"
    by (simp add: bare_name_context_def py_split_def)
  show ?thesis using a ingest_handler_short_arn [OF a] by simp
qed

text \<open>
  C10. The data-lake bucket is read with \<open>os.environ.get\<close>, so an unset variable is not
  reported where it is read: the copy is attempted with \<open>Bucket=None\<close>, botocore's
  bucket-name check raises \<open>TypeError\<close> on it, and nothing is written.
\<close>

theorem ingest_handler_unset_bucket:
  assumes "4 < length (py_split (invoked_function_arn ctx) '':'')"
    and "env ''AWS_REGION'' = Some region"
    and "extract_copy_source event = Inr cs"
    and "env ENV_DATA_LAKE_DATA_BUCKET_NAME = None"
  shows "ingest_lambda_handler P env event ctx s3 = Inl (TypeError ''expected string or bytes-like object'')"
  using assms by (simp add: ingest_handler_simps)

theorem ingest_handler_unset_bucket_witness:
  "ingest_lambda_handler aux_paths (example_env(''DATA_LAKE_DATA_BUCKET_NAME'' := None))
     (object_created_event ''contact-center-bucket'' (connect_recording_key aux_paths example_connect_key))
     example_context example_store = Inl (TypeError ''expected string or bytes-like object'')"
proof -
  have arn: "4 < length (py_split (invoked_function_arn example_context) '':'')"
    by (simp add: example_context_def py_split_def)
  have r: "(example_env(''DATA_LAKE_DATA_BUCKET_NAME'' := None)) ''AWS_REGION'' = Some ''eu-central-1''"
    and b: "(example_env(''DATA_LAKE_DATA_BUCKET_NAME'' := None)) ENV_DATA_LAKE_DATA_BUCKET_NAME = None"
    by (simp_all add: example_env_def ENV_DATA_LAKE_DATA_BUCKET_NAME_def)
  show ?thesis
    using ingest_handler_unset_bucket [OF arn r extract_object_created(3) b] .
qed

text \<open>
  C11. On a Lambda function ARN \<open>arn:<partition>:lambda:<region>:<account>:<rest>\<close>
  whose partition, region and account hold no colon, the expression
  \<open>invoked_function_arn.split(":")[4]\<close> is the account, whatever the rest (function name,
  version or alias qualifier).
\<close>

theorem lambda_account_id_arn:
  assumes "CHR '':'' \<notin> set aws_partition" and "CHR '':'' \<notin> set region"
    and "CHR '':'' \<notin> set account"
  shows "lambda_account_id \<lparr>invoked_function_arn =
            ''arn:'' @ aws_partition @ '':lambda:'' @ region @ '':'' @ account @ '':'' @ rest\<rparr> = Inr account"
proof -
  have w: "CHR '':'' \<notin> set ''arn''" "CHR '':'' \<notin> set ''lambda''" by simp_all
  have eq: "''arn:'' @ aws_partition @ '':lambda:'' @ region @ '':'' @ account @ '':'' @ rest =
        ''arn'' @ CHR '':'' # aws_partition @ CHR '':'' # ''lambda'' @ CHR '':'' # region @ CHR '':'' #
        account @ CHR '':'' # rest"
    by simp
  have split: "py_split (''arn'' @ CHR '':'' # aws_partition @ CHR '':'' # ''lambda'' @ CHR '':'' #
      region @ CHR '':'' # account @ CHR '':'' # rest) [CHR '':''] =
      ''arn'' # aws_partition # ''lambda'' # region # account # py_split rest [CHR '':'']"
    by (simp only: py_split_sep w assms not_False_eq_True)
  show ?thesis
    unfolding lambda_account_id_def lambda_context.select_convs eq split
    by (simp add: py_getitem_def)
qed

theorem lambda_account_id_arn_witness:
  "lambda_account_id example_context = Inr ''123456789012''"
proof -
  have "example_context = \<lparr>invoked_function_arn =
     ''arn:'' @ ''aws'' @ '':lambda:'' @ ''eu-central-1'' @ '':'' @ ''123456789012'' @ '':'' @
     ''function:ingest-call-recording''\<rparr>"
    by (simp add: example_context_def)
  then show ?thesis
    using lambda_account_id_arn [of "''aws''" "''eu-central-1''" "''123456789012''"
        "''function:ingest-call-recording''"] by simp
qed


section \<open>Configuration the handler reads\<close>

lemma ingest_lambda_handler_env_frame:
  assumes "env' ''AWS_REGION'' = env ''AWS_REGION''"
    and "env' ENV_DATA_LAKE_DATA_BUCKET_NAME = env ENV_DATA_LAKE_DATA_BUCKET_NAME"
  shows "ingest_lambda_handler P env' event ctx s3 = ingest_lambda_handler P env event ctx s3"
  using assms by (simp add: ingest_lambda_handler_def environ_getitem_def)

text \<open>
  C26. The handler's result does not depend on the three other configuration variables
  the module declares: in particular the configured contact-center bucket is never compared
  with the bucket the event names, and any bucket the event names is copied from.
\<close>

theorem ingest_handler_ignores_unused_config:
  "ingest_lambda_handler P
     (env(ENV_CONTACT_CENTER_DATA_BUCKET_ARN := a, ENV_CONTACT_CENTER_DATA_BUCKET_NAME := n,
          ENV_DATA_LAKE_DATA_BUCKET_ARN := d)) event ctx s3 =
   ingest_lambda_handler P env event ctx s3"
  by (rule ingest_lambda_handler_env_frame)
    (simp_all add: ENV_CONTACT_CENTER_DATA_BUCKET_ARN_def ENV_CONTACT_CENTER_DATA_BUCKET_NAME_def
      ENV_DATA_LAKE_DATA_BUCKET_ARN_def ENV_DATA_LAKE_DATA_BUCKET_NAME_def)


text \<open>
  C30. A malformed event (spec section 7, case (a)): when the bucket or the key cannot be
  extracted, the handler raises the extraction error and copies nothing.
\<close>

theorem ingest_handler_malformed_event:
  assumes "lambda_account_id ctx = Inr acct" and "env ''AWS_REGION'' = Some region"
    and "extract_copy_source event = Inl err"
  shows "ingest_lambda_handler P env event ctx s3 = Inl err"
  using assms by (simp add: ingest_lambda_handler_def environ_getitem_def)

theorem ingest_handler_malformed_event_witness:
  "ingest_lambda_handler aux_paths example_env scheduled_event example_context example_store =
     Inl (KeyError ''bucket'')"
proof -
  have "lambda_account_id example_context = Inr ''123456789012''"
    by (simp add: lambda_account_id_def example_context_def py_split_def py_getitem_def)
  moreover have "example_env ''AWS_REGION'' = Some ''eu-central-1''" by (simp add: example_env_def)
  moreover have "extract_copy_source scheduled_event = Inl (KeyError ''bucket'')"
    by (simp add: extract_copy_source_def extract_source_bucket_name_def scheduled_event_def)
  ultimately show ?thesis by (rule ingest_handler_malformed_event)
qed


text \<open>
  C36. Boundary: when the marker is found but at most 52 characters follow it (a truncated
  or foreign key), Python's clamping slices raise nothing; the code returns the raw prefix,
  the whole remainder and two dangling dashes before \<open>:00Z.wav\<close>.
\<close>

theorem ingest_key_short_suffix:
  assumes "PATH_CONNECT_CALLRECORDINGS P \<noteq> []"
    and "\<not> sublist (PATH_CONNECT_CALLRECORDINGS P) (pre @ butlast (PATH_CONNECT_CALLRECORDINGS P))"
    and "length t \<le> 52"
  shows "ingest_construct_destination_object_key P (pre @ PATH_CONNECT_CALLRECORDINGS P @ t) =
           PATH_CONNECT_CALLRECORDINGS_RAW P @ t @ ''--:00Z.wav''"
  using ingest_key_found [OF assms(1,2)] assms(3) by simp

theorem ingest_key_short_suffix_witness:
  "ingest_construct_destination_object_key aux_paths
     ''connect/acme-contact-center/CallRecordings/2022/06/01/voicemail.wav'' =
   ''call-recordings-raw/2022/06/01/voicemail.wav--:00Z.wav''"
proof -
  have "PATH_CONNECT_CALLRECORDINGS aux_paths \<noteq> []"
    and "\<not> sublist (PATH_CONNECT_CALLRECORDINGS aux_paths)
            (''connect/acme-contact-center/'' @ butlast (PATH_CONNECT_CALLRECORDINGS aux_paths))"
    and "length ''2022/06/01/voicemail.wav'' \<le> 52"
    by (simp_all add: aux_paths_def sublist_code)
  from ingest_key_short_suffix [OF this] show ?thesis by (simp add: aux_paths_def)
qed

text \<open>
  C17. The handler reads the region with \<open>os.environ["AWS_REGION"]\<close> right after the
  account id and before it looks at the event: with a usable function ARN and the
  region unset it raises \<open>KeyError('AWS_REGION')\<close>, whatever the event (even one the
  extraction would reject), the rest of the configuration and the store; nothing is copied.
\<close>

theorem ingest_handler_unset_region:
  assumes "4 < length (py_split (invoked_function_arn ctx) '':'')"
    and "env ''AWS_REGION'' = None"
  shows "ingest_lambda_handler P env event ctx s3 = Inl (KeyError ''AWS_REGION'')"
  using assms by (simp add: ingest_handler_simps)

theorem ingest_handler_unset_region_witness:
  "ingest_lambda_handler aux_paths (example_env(''AWS_REGION'' := None)) scheduled_event
     example_context example_store = Inl (KeyError ''AWS_REGION'')"
proof -
  have arn: "4 < length (py_split (invoked_function_arn example_context) '':'')"
    by (simp add: example_context_def py_split_def)
  show ?thesis
    using ingest_handler_unset_region [OF arn, of "example_env(''AWS_REGION'' := None)"] by simp
qed

text \<open>
  C35. On recordings in Connect's format, the data-lake key loses exactly the instance
  prefix: two recordings are copied to the same key if and only if they agree on every
  field but the prefix (date path, contact id and timestamp). Within one instance the
  mapping is injective, so recordings are never overwritten there.
\<close>

theorem ingest_key_injective:
  assumes "connect_key_shape k1" and "marker_first P k1"
    and "connect_key_shape k2" and "marker_first P k2"
  shows "ingest_construct_destination_object_key P (connect_recording_key P k1) =
           ingest_construct_destination_object_key P (connect_recording_key P k2) \<longleftrightarrow>
         k1\<lparr>ck_prefix := []\<rparr> = k2\<lparr>ck_prefix := []\<rparr>"
proof -
  have "ingest_construct_destination_object_key P (connect_recording_key P k1) =
          ingest_construct_destination_object_key P (connect_recording_key P k2) \<longleftrightarrow>
        iso_stem k1 = iso_stem k2"
    using assms by (simp add: ingest_key_connect datalake_recording_key_def)
  also have "\<dots> \<longleftrightarrow> k1\<lparr>ck_prefix := []\<rparr> = k2\<lparr>ck_prefix := []\<rparr>"
    using assms(1,3) by (cases k1, cases k2) (auto simp: iso_stem_def connect_key_shape_def)
  finally show ?thesis .
qed

theorem ingest_key_injective_witness:
  "ingest_construct_destination_object_key aux_paths (connect_recording_key aux_paths example_connect_key) =
   ingest_construct_destination_object_key aux_paths (connect_recording_key aux_paths other_instance_key)"
proof -
  have "connect_key_shape other_instance_key" "marker_first aux_paths other_instance_key"
    by (simp_all add: other_instance_key_def example_connect_key_def connect_key_shape_def
        marker_first_def aux_paths_def sublist_code)
  with ingest_key_injective [OF example_connect_key_shape example_marker_first] show ?thesis
    by (simp add: other_instance_key_def)
qed

end
