(* ===== verification/Uuid.thy ===== *)
theory Uuid
  imports Prelude "HOL-Library.Word"
begin

unbundle bit_operations_syntax

text \<open>
  The job names of the analytics handler: \<open>"job-" + uuid.uuid4().hex\<close>. CPython's
  \<open>uuid4()\<close> reads 16 random bytes as a big-endian 128-bit integer, clears and sets the
  variant bits (\<open>int &= ~(0xc000 << 48); int |= 0x8000 << 48\<close>) and the version nibble
  (\<open>int &= ~(0xf000 << 64); int |= 4 << 76\<close>); \<open>.hex\<close> is \<open>'%032x' % int\<close>.
  The \<open>uuid\<close> module is Python's, not the repository's; it is modelled here from its
  source because the uniqueness of job names rests on it.
\<close>

definition uuid4 :: "128 word \<Rightarrow> 128 word" where
  "uuid4 r =
     ((((r AND NOT (push_bit 48 0xc000)) OR push_bit 48 0x8000)
        AND NOT (push_bit 64 0xf000)) OR push_bit 76 4)"

definition hex_chars :: pystr where
  "hex_chars = ''0123456789abcdef''"

text \<open>The last \<open>k\<close> hexadecimal digits of \<open>n\<close>, most significant first, zero-padded.\<close>

fun hex_digits :: "nat \<Rightarrow> nat \<Rightarrow> pystr" where
  "hex_digits 0 n = []"
| "hex_digits (Suc k) n = hex_digits k (n div 16) @ [hex_chars ! (n mod 16)]"

definition uuid_hex :: "128 word \<Rightarrow> pystr" where
  "uuid_hex u = hex_digits 32 (unat u)"

text \<open>Reading hexadecimal digits back, the inverse used to show that \<open>.hex\<close> is injective.\<close>

definition hex_value :: "char \<Rightarrow> nat" where
  "hex_value c = length (takeWhile (\<lambda>d. d \<noteq> c) hex_chars)"

definition parse_hex :: "pystr \<Rightarrow> nat" where
  "parse_hex s = foldl (\<lambda>acc c. 16 * acc + hex_value c) 0 s"

text \<open>The six bits \<open>uuid4\<close> overwrites: the variant (62, 63) and the version (76 to 79).\<close>

definition uuid4_fixed_bits :: "128 word" where
  "uuid4_fixed_bits = push_bit 48 0xc000 OR push_bit 64 0xf000"

section \<open>Bits\<close>

lemma bit_int_above: "0 \<le> (a::int) \<Longrightarrow> a < 2 ^ m \<Longrightarrow> m \<le> k \<Longrightarrow> \<not> bit a k"
  by (metis bit_int_def div_pos_pos_trivial dvd_0_right order_less_le_trans power_increasing_iff
      one_less_numeral_iff semiring_norm(76) zero_less_power zero_le_numeral zero_less_numeral)

lemma bit_int_3: "bit (3::int) k \<longleftrightarrow> k < 2"
proof (cases "k < 2")
  case True
  then have "k = 0 \<or> k = 1" by auto
  then show ?thesis by auto
next
  case False
  then show ?thesis using bit_int_above [of 3 2 k] by simp
qed

lemma bit_int_15: "bit (15::int) k \<longleftrightarrow> k < 4"
proof (cases "k < 4")
  case True
  then have "k = 0 \<or> k = 1 \<or> k = 2 \<or> k = 3" by auto
  then show ?thesis by auto
next
  case False
  then show ?thesis using bit_int_above [of 15 4 k] by simp
qed

lemma bit_push_bit_numeral:
  "bit (push_bit m (numeral w :: 'a::len word)) n \<longleftrightarrow>
     m \<le> n \<and> n < LENGTH('a) \<and> bit (numeral w :: int) (n - m)"
  by (simp only: bit_push_bit_iff possible_bit_word bit_numeral_word_iff) auto

lemma bit_push_bit_one:
  "bit (push_bit m (1 :: 'a::len word)) n \<longleftrightarrow> n = m \<and> n < LENGTH('a)"
  by (simp only: bit_push_bit_iff possible_bit_word bit_1_iff) auto

lemma uuid4_masks:
  "push_bit 48 (0xc000 :: 128 word) = push_bit 62 3"
  "push_bit 48 (0x8000 :: 128 word) = push_bit 63 1"
  "push_bit 64 (0xf000 :: 128 word) = push_bit 76 15"
  "push_bit 76 (4 :: 128 word) = push_bit 78 1"
  by simp_all

lemma bit_uuid4:
  "bit (uuid4 r) n \<longleftrightarrow>
     (if n \<in> {62, 63, 76, 77, 78, 79} then n = 63 \<or> n = 78 else bit r n)"
proof -
  have "bit (uuid4 r) n \<longleftrightarrow>
     ((bit r n \<and> \<not> (62 \<le> n \<and> n < 128 \<and> n - 62 < 2)) \<or> (n = 63)) \<and>
       \<not> (76 \<le> n \<and> n < 128 \<and> n - 76 < 4) \<or> n = 78"
    unfolding uuid4_def uuid4_masks
    by (simp only: bit_or_iff bit_and_iff bit_not_iff bit_push_bit_numeral bit_push_bit_one
        bit_int_3 bit_int_15) (auto dest: bit_imp_le_length)
  then show ?thesis by (auto dest: bit_imp_le_length)
qed

lemma bit_uuid4_fixed_bits: "bit uuid4_fixed_bits n \<longleftrightarrow> n \<in> {62, 63, 76, 77, 78, 79}"
proof -
  have "bit uuid4_fixed_bits n \<longleftrightarrow>
      (62 \<le> n \<and> n < 128 \<and> n - 62 < 2) \<or> (76 \<le> n \<and> n < 128 \<and> n - 76 < 4)"
    unfolding uuid4_fixed_bits_def uuid4_masks
    by (simp only: bit_or_iff bit_push_bit_numeral bit_int_3 bit_int_15) simp
  then show ?thesis by auto
qed

text \<open>\<open>uuid4\<close> keeps the 122 random bits and only those.\<close>

lemma bit_and_not_fixed:
  "bit (r AND NOT uuid4_fixed_bits) n \<longleftrightarrow> bit r n \<and> n \<notin> {62, 63, 76, 77, 78, 79}"
  by (auto simp only: bit_and_iff bit_not_iff bit_uuid4_fixed_bits dest: bit_imp_possible_bit)

lemma uuid4_eq_iff:
  "uuid4 r1 = uuid4 r2 \<longleftrightarrow> r1 AND NOT uuid4_fixed_bits = r2 AND NOT uuid4_fixed_bits"
proof
  assume eq: "uuid4 r1 = uuid4 r2"
  show "r1 AND NOT uuid4_fixed_bits = r2 AND NOT uuid4_fixed_bits"
  proof (rule bit_eqI)
    fix n
    from eq have "bit (uuid4 r1) n \<longleftrightarrow> bit (uuid4 r2) n" by simp
    then show "bit (r1 AND NOT uuid4_fixed_bits) n \<longleftrightarrow> bit (r2 AND NOT uuid4_fixed_bits) n"
      unfolding bit_and_not_fixed bit_uuid4 by (cases "n \<in> {62, 63, 76, 77, 78, 79}") simp_all
  qed
next
  assume eq: "r1 AND NOT uuid4_fixed_bits = r2 AND NOT uuid4_fixed_bits"
  show "uuid4 r1 = uuid4 r2"
  proof (rule bit_eqI)
    fix n
    from eq have "bit (r1 AND NOT uuid4_fixed_bits) n \<longleftrightarrow> bit (r2 AND NOT uuid4_fixed_bits) n"
      by simp
    then show "bit (uuid4 r1) n \<longleftrightarrow> bit (uuid4 r2) n"
      unfolding bit_and_not_fixed bit_uuid4 by (cases "n \<in> {62, 63, 76, 77, 78, 79}") simp_all
  qed
qed

lemma bit_int_4: "bit (4::int) k \<longleftrightarrow> k = 2"
proof (cases "k < 3")
  case True
  then have "k = 0 \<or> k = 1 \<or> k = 2" by auto
  then show ?thesis by auto
next
  case False
  then show ?thesis using bit_int_above [of 4 3 k] by simp
qed

lemma uuid4_version_nibble: "take_bit 4 (drop_bit 76 (uuid4 r)) = 4"
proof (rule bit_eqI)
  fix n
  have "bit (take_bit 4 (drop_bit 76 (uuid4 r))) n \<longleftrightarrow> n < 4 \<and> bit (uuid4 r) (76 + n)"
    by (simp only: bit_take_bit_iff bit_drop_bit_eq comp_apply)
  also have "\<dots> \<longleftrightarrow> n = 2"
    unfolding bit_uuid4 by auto
  also have "\<dots> \<longleftrightarrow> bit (4 :: 128 word) n"
    by (simp only: bit_numeral_word_iff bit_int_4) auto
  finally show "bit (take_bit 4 (drop_bit 76 (uuid4 r))) n \<longleftrightarrow> bit (4 :: 128 word) n" .
qed

section \<open>Hexadecimal digits\<close>

lemma hex_digits_numeral:
  "hex_digits (numeral k) n = hex_digits (pred_numeral k) (n div 16) @ [hex_chars ! (n mod 16)]"
  by (simp only: numeral_eq_Suc hex_digits.simps)

lemma length_hex_digits [simp]: "length (hex_digits k n) = k"
  by (induction k arbitrary: n) simp_all

lemma set_hex_digits: "set (hex_digits k n) \<subseteq> set hex_chars"
proof (induction k arbitrary: n)
  case 0
  then show ?case by simp
next
  case (Suc k)
  have "n mod 16 < length hex_chars" by (simp add: hex_chars_def)
  with Suc show ?case by auto
qed

lemma takeWhile_nth_distinct:
  "distinct xs \<Longrightarrow> i < length xs \<Longrightarrow> length (takeWhile (\<lambda>d. d \<noteq> xs ! i) xs) = i"
proof (induction xs arbitrary: i)
  case Nil
  then show ?case by simp
next
  case (Cons x xs)
  then show ?case by (cases i) (auto simp: nth_mem)
qed

lemma hex_value_nth: "i < 16 \<Longrightarrow> hex_value (hex_chars ! i) = i"
  unfolding hex_value_def by (rule takeWhile_nth_distinct) (simp_all add: hex_chars_def)

lemma parse_hex_snoc: "parse_hex (xs @ [c]) = 16 * parse_hex xs + hex_value c"
  by (simp add: parse_hex_def)

lemma parse_hex_digits: "parse_hex (hex_digits k n) = n mod 16 ^ k"
proof (induction k arbitrary: n)
  case 0
  then show ?case by (simp add: parse_hex_def)
next
  case (Suc k)
  have "parse_hex (hex_digits (Suc k) n) = 16 * (n div 16 mod 16 ^ k) + n mod 16"
    by (simp add: parse_hex_snoc Suc.IH hex_value_nth)
  also have "\<dots> = n mod 16 ^ Suc k"
    by (simp add: mod_mult2_eq)
  finally show ?case .
qed

lemma nth_hex_digits:
  "i < k \<Longrightarrow> hex_digits k n ! i = hex_chars ! (n div 16 ^ (k - Suc i) mod 16)"
proof (induction k arbitrary: n)
  case 0
  then show ?case by simp
next
  case (Suc k)
  show ?case
  proof (cases "i < k")
    case True
    have "hex_digits (Suc k) n ! i = hex_digits k (n div 16) ! i"
      using True by (simp add: nth_append)
    also have "\<dots> = hex_chars ! (n div 16 div 16 ^ (k - Suc i) mod 16)"
      using True by (rule Suc.IH)
    also have "n div 16 div 16 ^ (k - Suc i) = n div 16 ^ (Suc k - Suc i)"
    proof -
      from True have "k - i = Suc (k - Suc i)" by simp
      then show ?thesis by (simp add: div_mult2_eq [symmetric])
    qed
    finally show ?thesis .
  next
    case False
    with Suc.prems have "i = k" by simp
    then show ?thesis by (simp add: nth_append)
  qed
qed

lemma uuid_hex_parse: "parse_hex (uuid_hex u) = unat u"
proof -
  have "unat u < 16 ^ 32"
    using unsigned_less [of u] by simp
  then show ?thesis by (simp add: uuid_hex_def parse_hex_digits)
qed

lemma uuid_hex_inj: "uuid_hex u = uuid_hex v \<longleftrightarrow> u = v"
  by (metis uuid_hex_parse word_unat_eq_iff)

lemma uuid_hex_digit_12: "uuid_hex u ! 12 = hex_chars ! unat (take_bit 4 (drop_bit 76 u))"
proof -
  have "unat (take_bit 4 (drop_bit 76 u)) = take_bit 4 (drop_bit 76 (unat u))"
    by (simp only: unsigned_take_bit_eq unat_drop_bit_eq)
  also have "\<dots> = unat u div 2 ^ 76 mod 2 ^ 4"
    by (simp only: take_bit_eq_mod drop_bit_eq_div)
  finally have "unat (take_bit 4 (drop_bit 76 u)) = unat u div 16 ^ 19 mod 16"
    by simp
  then show ?thesis by (simp add: uuid_hex_def nth_hex_digits)
qed

end
