(* ===== verification/Analytics.thy ===== *)
theory Analytics
  imports Ingest Uuid
begin

text \<open>
  The call-transcription service, \<open>3-call-transcription-service/src/run_call_analytics.py\<close>:
  the key mapping \<open>construct_destination_object_key\<close> (KeyMapper, analytics variant),
  \<open>run_call_analytics\<close>, which assembles the media and output URIs and a fresh job name and
  starts the Transcribe job (AnalyticsDispatcher), and \<open>lambda_handler\<close>. The random bytes
  behind \<open>uuid.uuid4()\<close> are a parameter \<open>rnd\<close> of the invocation. Logging is left out.
  The last section composes the two functions: the analytics handler on the ingestion
  handler's copy, and the analytics key mapping on the ingestion key mapping's output.
\<close>

section \<open>Definitions\<close>

text \<open>The names of the three configuration variables the module declares; the ARN is not read.\<close>

definition analytics_ENV_DATA_LAKE_DATA_BUCKET_ARN :: pystr where
  "analytics_ENV_DATA_LAKE_DATA_BUCKET_ARN = ''DATA_LAKE_DATA_BUCKET_ARN''"

definition analytics_ENV_DATA_LAKE_DATA_BUCKET_NAME :: pystr where
  "analytics_ENV_DATA_LAKE_DATA_BUCKET_NAME = ''DATA_LAKE_DATA_BUCKET_NAME''"

definition ENV_DATA_ACCESS_ROLE_ARN :: pystr where
  "ENV_DATA_ACCESS_ROLE_ARN = ''DATA_ACCESS_ROLE_ARN''"

text \<open>
  \<open>construct_destination_object_key\<close>: two replacements in sequence, each of every
  occurrence: the raw-recordings prefix by the transcription prefix, then \<open>.wav\<close> by the
  result suffix and \<open>.json\<close>.
\<close>

definition analytics_construct_destination_object_key :: "paths \<Rightarrow> pystr \<Rightarrow> pystr" where
  "analytics_construct_destination_object_key P source_object_key =
     (let destination_object_key =
            py_replace source_object_key (PATH_CONNECT_CALLRECORDINGS_RAW P)
              (PATH_TRANSCRIBE_CALLANALYTICS_RAW P);
          destination_object_key =
            py_replace destination_object_key ''.wav'' (PATH_CALL_ANALYTICS_RESULT P @ ''.json'')
      in destination_object_key)"

text \<open>The job name, \<open>"job-" + uuid.uuid4().hex\<close>, from the invocation's random bytes.\<close>

definition analytics_job_name :: "128 word \<Rightarrow> pystr" where
  "analytics_job_name rnd = ''job-'' @ uuid_hex (uuid4 rnd)"

definition call_analytics_channels :: "channel_definition list" where
  "call_analytics_channels =
     [\<lparr>ChannelId = 0, ParticipantRole = CUSTOMER\<rparr>, \<lparr>ChannelId = 1, ParticipantRole = AGENT\<rparr>]"

text \<open>
  \<open>run_call_analytics\<close>: the media URI, then the output URI (concatenating an unset
  destination bucket, \<open>None\<close>, to a string raises \<open>TypeError\<close>), then the job name,
  then the service call with the role from the environment (possibly unset).
\<close>

definition run_call_analytics ::
  "environ \<Rightarrow> 128 word \<Rightarrow> jobs \<Rightarrow> pystr \<Rightarrow> pystr \<Rightarrow> pystr option \<Rightarrow> pystr \<Rightarrow> jobs py_result" where
  "run_call_analytics env rnd js source_bucket_name source_object_key destination_bucket_name
       destination_object_key =
     (let media_uri = ''s3://'' @ source_bucket_name @ ''/'' @ source_object_key
      in case destination_bucket_name of
           None \<Rightarrow> Inl (TypeError ''can only concatenate str to str, not NoneType'')
         | Some dbn \<Rightarrow>
             (let output_location = ''s3://'' @ dbn @ ''/'' @ destination_object_key;
                  job_name = analytics_job_name rnd
              in start_call_analytics_job js job_name media_uri output_location
                   (env ENV_DATA_ACCESS_ROLE_ARN) call_analytics_channels))"

definition analytics_lambda_handler ::
  "paths \<Rightarrow> environ \<Rightarrow> json \<Rightarrow> 128 word \<Rightarrow> jobs \<Rightarrow> jobs py_result" where
  "analytics_lambda_handler P env event rnd js =
     py_bind (extract_source_bucket_name event) (\<lambda>source_bucket_name.
     py_bind (extract_source_object_key event) (\<lambda>source_object_key.
       (let destination_bucket_name = env analytics_ENV_DATA_LAKE_DATA_BUCKET_NAME;
            destination_object_key =
              analytics_construct_destination_object_key P source_object_key
        in run_call_analytics env rnd js source_bucket_name source_object_key
             destination_bucket_name destination_object_key)))"

text \<open>The job a successful call stores.\<close>

definition analytics_job :: "pystr \<Rightarrow> pystr \<Rightarrow> pystr \<Rightarrow> pystr \<Rightarrow> call_analytics_job" where
  "analytics_job name media output role =
     \<lparr>CallAnalyticsJobName = name, MediaFileUri = media, OutputLocation = output,
      DataAccessRoleArn = role, ChannelDefinitions = call_analytics_channels\<rparr>"

text \<open>The random bytes of one invocation, used by the witnesses.\<close>

definition example_rnd :: "128 word" where
  "example_rnd = 0x0123456789abcdef0123456789abcdef"

text \<open>The data-lake object of the example recording, as its event names it.\<close>

definition example_datalake_event :: json where
  "example_datalake_event =
     object_created_event ''datalake-bucket''
       ''call-recordings-raw/2022/06/01/1c2a6f0e-3b4d-4e5f-8a9b-0c1d2e3f4a5b_2022-06-01T12:34:00Z.wav''"

section \<open>The key mapping\<close>

text \<open>
  On a data-lake recording key the two replacements each fire exactly once: the prefix
  is found only at the start, \<open>.wav\<close> only at the end.
\<close>

text \<open>
  The first replacement, on a key that starts with the prefix and holds a character of
  the prefix nowhere else, fires once: only the prefix is exchanged.
\<close>

lemma replace_prefix_once:
  assumes "c \<in> set R" and "c \<notin> set x"
  shows "py_replace (R @ x) R T = T @ x"
proof -
  from assms(1) have R: "R \<noteq> []" by auto
  from assms have "\<not> sublist R x" by (rule no_occurrence_char)
  then show ?thesis
    using replace_scan_at [of R "[]" T x] R not_sublist_butlast [OF R]
    by (simp add: py_str replace_scan_absent)
qed

text \<open>An occurrence across \<open>xs @ ys\<close> needs the first character of the pattern in \<open>xs\<close> or lies in \<open>ys\<close>.\<close>

lemma no_occurrence_append:
  assumes "old \<noteq> []" and "hd old \<notin> set xs" and "\<not> sublist old ys"
  shows "\<not> sublist old (xs @ ys)"
proof
  assume "sublist old (xs @ ys)"
  then consider "sublist old xs" | "sublist old ys"
    | xs1 xs2 where "old = xs1 @ xs2" "suffix xs1 xs" "prefix xs2 ys"
    by (auto simp: sublist_append)
  then show False
  proof cases
    case 1
    then have "hd old \<in> set xs" using assms(1) by (auto simp: sublist_def)
    with assms(2) show False ..
  next
    case 2
    with assms(3) show False ..
  next
    case 3
    show False
    proof (cases xs1)
      case Nil
      with 3 assms(3) show False by (auto dest: prefix_imp_sublist)
    next
      case (Cons a as)
      with 3 have "hd old \<in> set xs" by (auto simp: suffix_def)
      with assms(2) show False ..
    qed
  qed
qed

text \<open>
  On any key under the raw-recordings prefix, the first replacement exchanges the prefix
  and the second cannot start inside the transcription prefix (it has no dot): the result
  is under the transcription prefix, whatever follows.
\<close>

lemma raw_start_replacements:
  assumes "R \<noteq> []" and "CHR ''.'' \<notin> set T"
  shows "py_replace (py_replace (R @ z) R T) ''.wav'' N = T @ replace_scan ''.wav'' N (replace_scan R T z)"
  using assms by (simp add: py_str replace_scan_start replace_scan_skip)

lemma analytics_key_raw_start:
  assumes "PATH_CONNECT_CALLRECORDINGS_RAW P \<noteq> []"
    and "CHR ''.'' \<notin> set (PATH_TRANSCRIBE_CALLANALYTICS_RAW P)"
  shows "analytics_construct_destination_object_key P (PATH_CONNECT_CALLRECORDINGS_RAW P @ z) =
           PATH_TRANSCRIBE_CALLANALYTICS_RAW P @
             replace_scan ''.wav'' (PATH_CALL_ANALYTICS_RESULT P @ ''.json'')
               (replace_scan (PATH_CONNECT_CALLRECORDINGS_RAW P) (PATH_TRANSCRIBE_CALLANALYTICS_RAW P) z)"
  using raw_start_replacements [OF assms]
  by (simp add: analytics_construct_destination_object_key_def)

text \<open>
  A pattern occurring at the start of \<open>x @ p\<close> with \<open>x\<close> shorter than \<open>p\<close> overlaps itself;
  \<open>.wav\<close> does not, so its occurrence at the very end is always the one replaced.
\<close>

lemma prefix_self_overlap:
  assumes "prefix p (x @ p @ z)" and "length x \<le> length p"
  shows "drop (length x) p = take (length p - length x) p"
proof -
  from assms(1) have "take (length p) (x @ p @ z) = p" by (metis append_eq_conv_conj prefix_def)
  with assms(2) have "x @ take (length p - length x) p = p" by simp
  then show ?thesis by (metis append_eq_conv_conj)
qed

lemma wav_no_overlap: "prefix ''.wav'' (x @ ''.wav'' @ z) \<Longrightarrow> x = [] \<or> 4 \<le> length x"
proof (rule ccontr)
  assume p: "prefix ''.wav'' (x @ ''.wav'' @ z)" and n: "\<not> (x = [] \<or> 4 \<le> length x)"
  then have "0 < length x" and "length x < 4" by auto
  then have "length x = 1 \<or> length x = 2 \<or> length x = 3" by arith
  moreover have "drop (length x) ''.wav'' = take (4 - length x) ''.wav''"
    using prefix_self_overlap [OF p] n by (simp add: numeral_eq_Suc)
  ultimately show False by auto
qed

text \<open>Before the first \<open>.wav\<close>, the scan keeps what it passes and replaces that occurrence.\<close>

lemma replace_wav_first:
  "\<not> sublist ''.wav'' x \<Longrightarrow> replace_scan ''.wav'' N (x @ ''.wav'' @ z) = x @ N @ replace_scan ''.wav'' N z"
proof (induction x)
  case Nil
  show ?case using replace_scan_start [of "''.wav''" N z] by simp
next
  case (Cons c x)
  have np: "\<not> prefix ''.wav'' ((c # x) @ ''.wav'' @ z)"
  proof
    assume p: "prefix ''.wav'' ((c # x) @ ''.wav'' @ z)"
    then have "4 \<le> length (c # x)" using wav_no_overlap by blast
    then have len: "length ''.wav'' \<le> length (c # x)" by simp
    have pre: "prefix (c # x) ((c # x) @ ''.wav'' @ z)" unfolding prefix_def by blast
    have "prefix ''.wav'' (c # x)" by (rule prefix_length_prefix [OF p pre len])
    with Cons.prems show False by (auto dest: prefix_imp_sublist)
  qed
  have "\<not> sublist ''.wav'' x" using Cons.prems by (auto simp: sublist_Cons_right)
  then have "replace_scan ''.wav'' N (x @ ''.wav'' @ z) = x @ N @ replace_scan ''.wav'' N z" by (rule Cons.IH)
  moreover have "replace_scan ''.wav'' N (c # (x @ ''.wav'' @ z)) = c # replace_scan ''.wav'' N (x @ ''.wav'' @ z)"
    using np by (subst replace_scan.simps(2)) (simp only: append_Cons if_False simp_thms)
  ultimately show ?case by simp
qed

lemma replace_wav_tail: "\<exists>u. replace_scan ''.wav'' N (x @ ''.wav'') = u @ N"
proof (induction "length x" arbitrary: x rule: less_induct)
  case less
  show ?case
  proof (cases "prefix ''.wav'' (x @ ''.wav'')")
    case True
    show ?thesis
    proof (cases "x = []")
      case True
      then show ?thesis by simp
    next
      case False
      with True wav_no_overlap [of x "[]"] have len: "4 \<le> length x" by simp
      then have d: "drop 4 (x @ ''.wav'') = drop 4 x @ ''.wav''" by simp
      have "length (drop 4 x) < length x" using len by simp
      then obtain u where u: "replace_scan ''.wav'' N (drop 4 x @ ''.wav'') = u @ N"
        using less by blast
      have "replace_scan ''.wav'' N (x @ ''.wav'') = N @ replace_scan ''.wav'' N (drop 4 (x @ ''.wav''))"
        using replace_scan_prefix [OF _ True] by (simp add: numeral_eq_Suc)
      with d u show ?thesis by auto
    qed
  next
    case False
    show ?thesis
    proof (cases x)
      case Nil
      with False show ?thesis by simp
    next
      case (Cons c x')
      from less [of x'] Cons obtain u where "replace_scan ''.wav'' N (x' @ ''.wav'') = u @ N" by auto
      with False Cons show ?thesis by auto
    qed
  qed
qed

lemma datalake_key_replacements:
  assumes "wf_paths P" and "connect_key_chars k"
  shows "py_replace (py_replace (datalake_recording_key P k) (PATH_CONNECT_CALLRECORDINGS_RAW P)
             (PATH_TRANSCRIBE_CALLANALYTICS_RAW P)) ''.wav'' (PATH_CALL_ANALYTICS_RESULT P @ ''.json'') =
           transcript_key P k"
proof -
  let ?R = "PATH_CONNECT_CALLRECORDINGS_RAW P" and ?T = "PATH_TRANSCRIBE_CALLANALYTICS_RAW P"
  let ?x = "iso_stem k @ ''.wav''"
  from assms(1) obtain c where c: "c \<in> set ?R" "c \<notin> set stem_chars"
    and dot: "CHR ''.'' \<notin> set ?T"
    by (auto simp: wf_paths_def)
  have "c \<notin> set ?x"
    using c(2) iso_stem_chars(1) [OF assms(2)] by blast
  with c(1) have step1: "py_replace (?R @ ?x) ?R ?T = ?T @ ?x" by (rule replace_prefix_once)
  have "CHR ''.'' \<notin> set (?T @ iso_stem k)"
    using dot iso_stem_chars(2) [OF assms(2)] by simp
  then have "\<not> sublist ''.wav'' ((?T @ iso_stem k) @ butlast ''.wav'')"
    by (intro first_char_absent) simp_all
  then have step2: "py_replace ((?T @ iso_stem k) @ ''.wav'') ''.wav'' (PATH_CALL_ANALYTICS_RESULT P @ ''.json'') =
      ?T @ iso_stem k @ PATH_CALL_ANALYTICS_RESULT P @ ''.json''"
    using replace_scan_at [of "''.wav''" "?T @ iso_stem k"] by (simp add: py_str)
  show ?thesis
    using step1 step2 by (simp add: datalake_recording_key_def transcript_key_def)
qed

lemma analytics_key_datalake:
  assumes "wf_paths P" and "connect_key_chars k"
  shows "analytics_construct_destination_object_key P (datalake_recording_key P k) =
           transcript_key P k"
  using datalake_key_replacements [OF assms]
  by (simp add: analytics_construct_destination_object_key_def)

section \<open>Job names\<close>

lemma uuid_hex_chars: "set (uuid_hex u) \<subseteq> set hex_chars"
  by (simp add: uuid_hex_def set_hex_digits)

lemma analytics_job_name_length: "length (analytics_job_name rnd) = 36"
  by (simp add: analytics_job_name_def uuid_hex_def)

lemma analytics_job_name_valid: "valid_job_name (analytics_job_name rnd)"
proof -
  have "set hex_chars \<subseteq> set job_name_chars" and "set ''job-'' \<subseteq> set job_name_chars"
    by (simp_all add: hex_chars_def job_name_chars_def)
  then have "set (analytics_job_name rnd) \<subseteq> set job_name_chars"
    using uuid_hex_chars [of "uuid4 rnd"] by (auto simp: analytics_job_name_def)
  moreover have "length (analytics_job_name rnd) = 36" by (rule analytics_job_name_length)
  ultimately show ?thesis unfolding valid_job_name_def by auto
qed

lemma example_job_name:
  "analytics_job_name example_rnd = ''job-0123456789ab4def8123456789abcdef''"
  by (simp add: example_rnd_def analytics_job_name_def uuid4_def uuid_hex_def hex_chars_def
      hex_digits_numeral)

text \<open>The handler succeeds exactly when it adds the one job \<open>run_call_analytics\<close> builds.\<close>

lemma analytics_lambda_handler_Inr:
  "analytics_lambda_handler P env event rnd js = Inr js' \<longleftrightarrow>
     (\<exists>b key dl role. extract_source_bucket_name event = Inr b \<and> extract_source_object_key event = Inr key \<and>
        env analytics_ENV_DATA_LAKE_DATA_BUCKET_NAME = Some dl \<and> env ENV_DATA_ACCESS_ROLE_ARN = Some role \<and>
        analytics_job_name rnd \<notin> dom js \<and>
        js' = js(analytics_job_name rnd \<mapsto>
          analytics_job (analytics_job_name rnd) (''s3://'' @ b @ ''/'' @ key)
            (''s3://'' @ dl @ ''/'' @ analytics_construct_destination_object_key P key) role))"
  by (auto simp: analytics_lambda_handler_def run_call_analytics_def start_call_analytics_job_Inr
      analytics_job_def analytics_job_name_valid Let_def split: option.splits)

lemmas analytics_handler_simps =
  analytics_lambda_handler_def run_call_analytics_def start_call_analytics_job_def Let_def

section \<open>Properties of the handler\<close>

text \<open>
  C2. On the Object Created event of a data-lake recording key, with the function
  configured and a job name not yet in use, the analytics handler starts exactly one
  Transcribe job: it reads the recording's S3 URI, writes to the transcription prefix under
  the same stem with the result suffix and \<open>.json\<close>, uses the configured role and maps
  channel 0 to the customer and channel 1 to the agent.
\<close>

theorem analytics_handler_starts_job:
  assumes "env analytics_ENV_DATA_LAKE_DATA_BUCKET_NAME = Some dl"
    and "env ENV_DATA_ACCESS_ROLE_ARN = Some role"
    and "analytics_job_name rnd \<notin> dom js"
    and "wf_paths P" and "connect_key_chars k"
  shows "analytics_lambda_handler P env (object_created_event b (datalake_recording_key P k)) rnd js =
           Inr (js(analytics_job_name rnd \<mapsto>
             analytics_job (analytics_job_name rnd) (''s3://'' @ b @ ''/'' @ datalake_recording_key P k)
               (''s3://'' @ dl @ ''/'' @ transcript_key P k) role))"
  using assms datalake_key_replacements [OF assms(4,5)]
  by (simp add: analytics_handler_simps analytics_construct_destination_object_key_def
      analytics_job_name_valid analytics_job_def)

theorem analytics_handler_starts_job_witness:
  "analytics_lambda_handler aux_paths example_env
     (object_created_event ''datalake-bucket''
        ''call-recordings-raw/2022/06/01/1c2a6f0e-3b4d-4e5f-8a9b-0c1d2e3f4a5b_2022-06-01T12:34:00Z.wav'')
     example_rnd Map.empty =
   Inr [''job-0123456789ab4def8123456789abcdef'' \<mapsto>
     analytics_job ''job-0123456789ab4def8123456789abcdef''
       ''s3://datalake-bucket/call-recordings-raw/2022/06/01/1c2a6f0e-3b4d-4e5f-8a9b-0c1d2e3f4a5b_2022-06-01T12:34:00Z.wav''
       ''s3://datalake-bucket/transcribe-call-analytics-raw/2022/06/01/1c2a6f0e-3b4d-4e5f-8a9b-0c1d2e3f4a5b_2022-06-01T12:34:00Z-call-analytics-result.json''
       ''arn:aws:iam::123456789012:role/transcribe-data-access'']"
proof -
  have env: "example_env analytics_ENV_DATA_LAKE_DATA_BUCKET_NAME = Some ''datalake-bucket''"
    "example_env ENV_DATA_ACCESS_ROLE_ARN = Some ''arn:aws:iam::123456789012:role/transcribe-data-access''"
    by (simp_all add: example_env_def analytics_ENV_DATA_LAKE_DATA_BUCKET_NAME_def
        ENV_DATA_ACCESS_ROLE_ARN_def)
  have fresh: "analytics_job_name example_rnd \<notin> dom (Map.empty :: jobs)" by simp
  show ?thesis
    using analytics_handler_starts_job [OF env fresh wf_aux_paths example_connect_key_chars,
        of "''datalake-bucket''"]
    by (simp add: example_datalake_key example_transcript_key example_job_name)
qed

text \<open>
  C12. \<open>run_call_analytics\<close> succeeds only with a destination bucket, a role and a job
  name not in use, and then adds exactly that one job to the service's store: no existing
  job is replaced.
\<close>

theorem run_call_analytics_adds_one_job:
  assumes "run_call_analytics env rnd js sb sk db dk = Inr js'"
  shows "analytics_job_name rnd \<notin> dom js \<and>
         (\<exists>dbn role. db = Some dbn \<and> env ENV_DATA_ACCESS_ROLE_ARN = Some role \<and>
            js' = js(analytics_job_name rnd \<mapsto>
              analytics_job (analytics_job_name rnd) (''s3://'' @ sb @ ''/'' @ sk)
                (''s3://'' @ dbn @ ''/'' @ dk) role))"
  using assms
  by (auto simp: run_call_analytics_def start_call_analytics_job_Inr analytics_job_def Let_def
      split: option.splits)

theorem run_call_analytics_adds_one_job_witness:
  "analytics_job_name example_rnd \<notin> dom (Map.empty :: jobs) \<and>
   (\<exists>dbn role. Some ''datalake-bucket'' = Some dbn \<and> example_env ENV_DATA_ACCESS_ROLE_ARN = Some role \<and>
      [''job-0123456789ab4def8123456789abcdef'' \<mapsto>
         analytics_job ''job-0123456789ab4def8123456789abcdef'' ''s3://datalake-bucket/k.wav''
           ''s3://datalake-bucket/t.json'' ''arn:aws:iam::123456789012:role/transcribe-data-access''] =
      (Map.empty :: jobs)(analytics_job_name example_rnd \<mapsto>
        analytics_job (analytics_job_name example_rnd) (''s3://'' @ ''datalake-bucket'' @ ''/'' @ ''k.wav'')
          (''s3://'' @ dbn @ ''/'' @ ''t.json'') role))"
proof -
  have "run_call_analytics example_env example_rnd Map.empty ''datalake-bucket'' ''k.wav''
      (Some ''datalake-bucket'') ''t.json'' =
     Inr [''job-0123456789ab4def8123456789abcdef'' \<mapsto>
         analytics_job ''job-0123456789ab4def8123456789abcdef'' ''s3://datalake-bucket/k.wav''
           ''s3://datalake-bucket/t.json'' ''arn:aws:iam::123456789012:role/transcribe-data-access'']"
    using analytics_job_name_valid [of example_rnd]
    by (simp add: run_call_analytics_def start_call_analytics_job_def Let_def analytics_job_def
        example_job_name example_env_def ENV_DATA_ACCESS_ROLE_ARN_def)
  then show ?thesis by (rule run_call_analytics_adds_one_job)
qed

text \<open>
  C13. Two invocations get the same job name exactly when their random draws agree on the
  122 bits \<open>uuid4\<close> keeps: the name is an injective image of the random bits.
\<close>

theorem analytics_job_name_eq_iff:
  "analytics_job_name r1 = analytics_job_name r2 \<longleftrightarrow>
     r1 AND NOT uuid4_fixed_bits = r2 AND NOT uuid4_fixed_bits"
  by (simp add: analytics_job_name_def uuid_hex_inj uuid4_eq_iff)

text \<open>
  C14. Every job name is \<open>job-\<close> and 32 lower-case hex digits, the 13th of them the
  version digit \<open>4\<close>, and is a name Transcribe accepts.
\<close>

theorem analytics_job_name_format:
  "length (analytics_job_name r) = 36 \<and> take 4 (analytics_job_name r) = ''job-'' \<and>
   set (drop 4 (analytics_job_name r)) \<subseteq> set hex_chars \<and>
   analytics_job_name r ! 16 = CHR ''4'' \<and> valid_job_name (analytics_job_name r)"
proof -
  have "analytics_job_name r ! 16 = uuid_hex (uuid4 r) ! 12"
    by (simp add: analytics_job_name_def)
  also have "\<dots> = CHR ''4''"
    by (simp add: uuid_hex_digit_12 uuid4_version_nibble hex_chars_def)
  finally show ?thesis
    using analytics_job_name_length [of r] analytics_job_name_valid [of r] uuid_hex_chars [of "uuid4 r"]
    by (simp add: analytics_job_name_def)
qed

text \<open>
  C15. The destination bucket is read with \<open>os.environ.get\<close>; when it is unset the
  output URI cannot be built (\<open>"s3://" + None\<close> raises \<open>TypeError\<close>), before any job
  name is drawn, and no job is started.
\<close>

theorem analytics_handler_unset_bucket:
  assumes "extract_source_bucket_name event = Inr b" and "extract_source_object_key event = Inr k"
    and "env analytics_ENV_DATA_LAKE_DATA_BUCKET_NAME = None"
  shows "analytics_lambda_handler P env event rnd js =
           Inl (TypeError ''can only concatenate str to str, not NoneType'')"
  using assms by (simp add: analytics_handler_simps)

theorem analytics_handler_unset_bucket_witness:
  "analytics_lambda_handler aux_paths Map.empty example_datalake_event example_rnd Map.empty =
     Inl (TypeError ''can only concatenate str to str, not NoneType'')"
  using analytics_handler_unset_bucket [of example_datalake_event _ _ Map.empty]
  by (simp add: example_datalake_event_def)

text \<open>
  C16. The role is read with \<open>os.environ.get\<close> too; when it is unset the service call is
  rejected by parameter validation and no job is started.
\<close>

theorem analytics_handler_unset_role:
  assumes "extract_source_bucket_name event = Inr b" and "extract_source_object_key event = Inr k"
    and "env analytics_ENV_DATA_LAKE_DATA_BUCKET_NAME = Some dl"
    and "env ENV_DATA_ACCESS_ROLE_ARN = None"
  shows "analytics_lambda_handler P env event rnd js =
           Inl (ParamValidationError ''DataAccessRoleArn'')"
  using assms by (simp add: analytics_handler_simps)

theorem analytics_handler_unset_role_witness:
  "analytics_lambda_handler aux_paths (example_env(''DATA_ACCESS_ROLE_ARN'' := None))
     example_datalake_event example_rnd Map.empty = Inl (ParamValidationError ''DataAccessRoleArn'')"
proof -
  have "(example_env(''DATA_ACCESS_ROLE_ARN'' := None)) analytics_ENV_DATA_LAKE_DATA_BUCKET_NAME =
          Some ''datalake-bucket''"
    and "(example_env(''DATA_ACCESS_ROLE_ARN'' := None)) ENV_DATA_ACCESS_ROLE_ARN = None"
    by (simp_all add: example_env_def analytics_ENV_DATA_LAKE_DATA_BUCKET_NAME_def
        ENV_DATA_ACCESS_ROLE_ARN_def)
  then show ?thesis
    using analytics_handler_unset_role [of example_datalake_event] by (simp add: example_datalake_event_def)
qed

text \<open>
  C18. \<open>str.replace\<close> replaces every occurrence, not only the extension: on a data-lake
  key whose path holds \<open>.wav\<close> before the extension (a directory \<open>voicemail.wav.d\<close>,
  say), the result suffix and \<open>.json\<close> are put in both places.
\<close>

theorem analytics_key_replaces_every_wav:
  assumes "c \<in> set (PATH_CONNECT_CALLRECORDINGS_RAW P)" and "c \<notin> set (x @ ''.wav'' @ y @ ''.wav'')"
    and "CHR ''.'' \<notin> set (PATH_TRANSCRIBE_CALLANALYTICS_RAW P)"
    and "\<not> sublist ''.wav'' x" and "\<not> sublist ''.wav'' y"
  shows "analytics_construct_destination_object_key P (PATH_CONNECT_CALLRECORDINGS_RAW P @ x @ ''.wav'' @ y @ ''.wav'') =
           PATH_TRANSCRIBE_CALLANALYTICS_RAW P @ x @ PATH_CALL_ANALYTICS_RESULT P @ ''.json'' @
             y @ PATH_CALL_ANALYTICS_RESULT P @ ''.json''"
proof -
  let ?N = "PATH_CALL_ANALYTICS_RESULT P @ ''.json''"
  have "replace_scan ''.wav'' ?N (x @ ''.wav'' @ y @ ''.wav'') = x @ ?N @ y @ ?N"
    using replace_wav_first [OF assms(4)] replace_wav_first [OF assms(5), of ?N "[]"] by simp
  then show ?thesis
    using replace_prefix_once [OF assms(1,2)] assms(3)
    by (simp add: analytics_construct_destination_object_key_def py_str replace_scan_skip)
qed

theorem analytics_key_replaces_every_wav_witness:
  "analytics_construct_destination_object_key aux_paths
     ''call-recordings-raw/2022/06/01/voicemail.wav.d/1c2a6f0e-3b4d-4e5f-8a9b-0c1d2e3f4a5b_2022-06-01T12:34:00Z.wav'' =
   ''transcribe-call-analytics-raw/2022/06/01/voicemail-call-analytics-result.json.d/1c2a6f0e-3b4d-4e5f-8a9b-0c1d2e3f4a5b_2022-06-01T12:34:00Z-call-analytics-result.json''"
proof -
  have "CHR ''g'' \<in> set (PATH_CONNECT_CALLRECORDINGS_RAW aux_paths)"
    and "CHR ''g'' \<notin> set (''2022/06/01/voicemail'' @ ''.wav'' @
           ''.d/1c2a6f0e-3b4d-4e5f-8a9b-0c1d2e3f4a5b_2022-06-01T12:34:00Z'' @ ''.wav'')"
    and "CHR ''.'' \<notin> set (PATH_TRANSCRIBE_CALLANALYTICS_RAW aux_paths)"
    and "\<not> sublist ''.wav'' ''2022/06/01/voicemail''"
    and "\<not> sublist ''.wav'' ''.d/1c2a6f0e-3b4d-4e5f-8a9b-0c1d2e3f4a5b_2022-06-01T12:34:00Z''"
    by (simp_all add: aux_paths_def sublist_code)
  from analytics_key_replaces_every_wav [OF this] show ?thesis by (simp add: aux_paths_def)
qed


section \<open>Configuration the handler reads\<close>

lemma analytics_lambda_handler_env_frame:
  assumes "env' analytics_ENV_DATA_LAKE_DATA_BUCKET_NAME = env analytics_ENV_DATA_LAKE_DATA_BUCKET_NAME"
    and "env' ENV_DATA_ACCESS_ROLE_ARN = env ENV_DATA_ACCESS_ROLE_ARN"
  shows "analytics_lambda_handler P env' event rnd js = analytics_lambda_handler P env event rnd js"
  unfolding analytics_lambda_handler_def run_call_analytics_def assms ..

text \<open>
  C27. The analytics handler reads the data-lake bucket name and the role from the
  configuration and nothing else: its result does not depend on the declared
  \<open>DATA_LAKE_DATA_BUCKET_ARN\<close>, nor on \<open>AWS_REGION\<close> (the job runs in the function's region).
\<close>

theorem analytics_handler_ignores_unused_config:
  "analytics_lambda_handler P
     (env(analytics_ENV_DATA_LAKE_DATA_BUCKET_ARN := a, ''AWS_REGION'' := r)) event rnd js =
   analytics_lambda_handler P env event rnd js"
  by (rule analytics_lambda_handler_env_frame)
    (simp_all add: analytics_ENV_DATA_LAKE_DATA_BUCKET_ARN_def analytics_ENV_DATA_LAKE_DATA_BUCKET_NAME_def
      ENV_DATA_ACCESS_ROLE_ARN_def)


text \<open>
  C31. A malformed event makes the analytics handler raise the extraction error before it
  reads its configuration, and no job is started.
\<close>

theorem analytics_handler_malformed_event:
  assumes "extract_copy_source event = Inl err"
  shows "analytics_lambda_handler P env event rnd js = Inl err"
  using assms
  by (auto simp: analytics_lambda_handler_def extract_copy_source_def split: sum.splits)

theorem analytics_handler_malformed_event_witness:
  "analytics_lambda_handler aux_paths example_env scheduled_event example_rnd Map.empty =
     Inl (KeyError ''bucket'')"
proof -
  have "extract_copy_source scheduled_event = Inl (KeyError ''bucket'')"
    by (simp add: extract_copy_source_def extract_source_bucket_name_def scheduled_event_def)
  then show ?thesis by (rule analytics_handler_malformed_event)
qed

text \<open>
  C37. A data-lake key whose media is not a \<open>.wav\<close> file (and which holds a character of
  the raw-recordings prefix nowhere after it) keeps its own extension: the mapping only
  exchanges the prefix, so the job's output key has neither the result suffix nor
  \<open>.json\<close>, contrary to the specification's contract for the analytics key mapper.
\<close>

theorem analytics_key_without_wav:
  assumes "c \<in> set (PATH_CONNECT_CALLRECORDINGS_RAW P)" and "c \<notin> set x"
    and "CHR ''.'' \<notin> set (PATH_TRANSCRIBE_CALLANALYTICS_RAW P)" and "\<not> sublist ''.wav'' x"
  shows "analytics_construct_destination_object_key P (PATH_CONNECT_CALLRECORDINGS_RAW P @ x) =
           PATH_TRANSCRIBE_CALLANALYTICS_RAW P @ x"
proof -
  have "\<not> sublist ''.wav'' (PATH_TRANSCRIBE_CALLANALYTICS_RAW P @ x)"
    using assms(3,4) by (intro no_occurrence_append) simp_all
  with replace_prefix_once [OF assms(1,2)] show ?thesis
    by (simp add: analytics_construct_destination_object_key_def py_str replace_scan_absent)
qed

theorem analytics_key_without_wav_witness:
  "analytics_construct_destination_object_key aux_paths
     ''call-recordings-raw/2022/06/01/1c2a6f0e-3b4d-4e5f-8a9b-0c1d2e3f4a5b_2022-06-01T12:34:00Z.mp3'' =
   ''transcribe-call-analytics-raw/2022/06/01/1c2a6f0e-3b4d-4e5f-8a9b-0c1d2e3f4a5b_2022-06-01T12:34:00Z.mp3''"
proof -
  have "CHR ''l'' \<in> set (PATH_CONNECT_CALLRECORDINGS_RAW aux_paths)"
    and "CHR ''l'' \<notin> set ''2022/06/01/1c2a6f0e-3b4d-4e5f-8a9b-0c1d2e3f4a5b_2022-06-01T12:34:00Z.mp3''"
    and "CHR ''.'' \<notin> set (PATH_TRANSCRIBE_CALLANALYTICS_RAW aux_paths)"
    and "\<not> sublist ''.wav'' ''2022/06/01/1c2a6f0e-3b4d-4e5f-8a9b-0c1d2e3f4a5b_2022-06-01T12:34:00Z.mp3''"
    by (simp_all add: aux_paths_def sublist_code)
  from analytics_key_without_wav [OF this] show ?thesis by (simp add: aux_paths_def)
qed

section \<open>The two functions together\<close>

text \<open>
  C3. The pipeline transcribes the recording: the ingestion handler, run on Connect's
  event, copies the recording to a data-lake key; the analytics handler, run on the event
  of that copy, starts a job whose media URI is that copy (the original recording) and whose
  output URI is the transcript key of the same recording.
\<close>

theorem pipeline_transcribes_recording:
  assumes "4 < length (py_split (invoked_function_arn ctx) '':'')"
    and "env ''AWS_REGION'' = Some region"
    and "env ''DATA_LAKE_DATA_BUCKET_NAME'' = Some dl"
    and "env ''DATA_ACCESS_ROLE_ARN'' = Some role"
    and "s3 cc = Some ccb" and "ccb (connect_recording_key P k) = Some rec" and "s3 dl = Some dlb"
    and "analytics_job_name rnd \<notin> dom js"
    and "wf_paths P" and "connect_key_shape k" and "connect_key_chars k" and "marker_first P k"
  shows "\<exists>s3' key.
           ingest_lambda_handler P env (object_created_event cc (connect_recording_key P k)) ctx s3 = Inr s3' \<and>
           s3' dl = Some (dlb(key \<mapsto> rec)) \<and>
           analytics_lambda_handler P env (object_created_event dl key) rnd js =
             Inr (js(analytics_job_name rnd \<mapsto>
               analytics_job (analytics_job_name rnd) (''s3://'' @ dl @ ''/'' @ key)
                 (''s3://'' @ dl @ ''/'' @ transcript_key P k) role))"
proof -
  let ?key = "datalake_recording_key P k"
  have ingest: "ingest_lambda_handler P env (object_created_event cc (connect_recording_key P k)) ctx s3 =
      Inr (s3(dl \<mapsto> dlb(?key \<mapsto> rec)))"
    using assms by (simp add: ingest_handler_simps ingest_key_connect ENV_DATA_LAKE_DATA_BUCKET_NAME_def)
  have analytics: "analytics_lambda_handler P env (object_created_event dl ?key) rnd js =
      Inr (js(analytics_job_name rnd \<mapsto>
        analytics_job (analytics_job_name rnd) (''s3://'' @ dl @ ''/'' @ ?key)
          (''s3://'' @ dl @ ''/'' @ transcript_key P k) role))"
    using assms
    by (simp add: analytics_handler_simps analytics_key_datalake analytics_job_name_valid
        analytics_job_def analytics_ENV_DATA_LAKE_DATA_BUCKET_NAME_def ENV_DATA_ACCESS_ROLE_ARN_def)
  from ingest analytics show ?thesis by auto
qed

theorem pipeline_transcribes_recording_witness:
  "\<exists>s3' key.
     ingest_lambda_handler aux_paths example_env
       (object_created_event ''contact-center-bucket'' (connect_recording_key aux_paths example_connect_key))
       example_context example_store = Inr s3' \<and>
     s3' ''datalake-bucket'' = Some (Map.empty(key \<mapsto> 1)) \<and>
     analytics_lambda_handler aux_paths example_env (object_created_event ''datalake-bucket'' key)
       example_rnd Map.empty =
       Inr ((Map.empty :: jobs)(analytics_job_name example_rnd \<mapsto>
         analytics_job (analytics_job_name example_rnd) (''s3://'' @ ''datalake-bucket'' @ ''/'' @ key)
           (''s3://'' @ ''datalake-bucket'' @ ''/'' @ transcript_key aux_paths example_connect_key)
           ''arn:aws:iam::123456789012:role/transcribe-data-access''))"
proof -
  have arn: "4 < length (py_split (invoked_function_arn example_context) '':'')"
    by (simp add: example_context_def py_split_def)
  have env: "example_env ''AWS_REGION'' = Some ''eu-central-1''"
    "example_env ''DATA_LAKE_DATA_BUCKET_NAME'' = Some ''datalake-bucket''"
    "example_env ''DATA_ACCESS_ROLE_ARN'' = Some ''arn:aws:iam::123456789012:role/transcribe-data-access''"
    by (simp_all add: example_env_def)
  have store: "example_store ''contact-center-bucket'' =
      Some [connect_recording_key aux_paths example_connect_key \<mapsto> 1]"
    "example_store ''datalake-bucket'' = Some Map.empty"
    by (simp_all add: example_store_def)
  have fresh: "analytics_job_name example_rnd \<notin> dom (Map.empty :: jobs)" by simp
  show ?thesis
    using pipeline_transcribes_recording [OF arn env(1,2,3) store(1) _ store(2) fresh wf_aux_paths
        example_connect_key_shape example_connect_key_chars example_marker_first]
    by simp
qed

text \<open>
  C4. On a Connect recording key, the analytics mapping applied to the ingestion mapping's
  output is the transcript key: the two key conventions fit, the prefix is exchanged and
  \<open>.wav\<close> becomes the result suffix and \<open>.json\<close>, the stem is kept.
\<close>

theorem key_mappings_compose:
  assumes "wf_paths P" and "connect_key_shape k" and "connect_key_chars k" and "marker_first P k"
  shows "analytics_construct_destination_object_key P
           (ingest_construct_destination_object_key P (connect_recording_key P k)) = transcript_key P k"
  using assms datalake_key_replacements [OF assms(1,3)]
  by (simp add: ingest_key_connect analytics_construct_destination_object_key_def)

theorem key_mappings_compose_witness:
  "analytics_construct_destination_object_key aux_paths
     (ingest_construct_destination_object_key aux_paths
       ''connect/acme-contact-center/CallRecordings/2022/06/01/1c2a6f0e-3b4d-4e5f-8a9b-0c1d2e3f4a5b_20220601T12:34_UTC.wav'') =
   ''transcribe-call-analytics-raw/2022/06/01/1c2a6f0e-3b4d-4e5f-8a9b-0c1d2e3f4a5b_2022-06-01T12:34:00Z-call-analytics-result.json''"
proof -
  have "connect_recording_key aux_paths example_connect_key =
     ''connect/acme-contact-center/CallRecordings/2022/06/01/1c2a6f0e-3b4d-4e5f-8a9b-0c1d2e3f4a5b_20220601T12:34_UTC.wav''"
    by (simp add: connect_recording_key_def aux_paths_def example_connect_key_def)
  then show ?thesis
    using key_mappings_compose [OF wf_aux_paths example_connect_key_shape example_connect_key_chars
        example_marker_first] by (simp add: example_transcript_key)
qed

text \<open>
  C38. For every source key, not only a recording key of Connect's shape, the analytics
  function's key mapper applied to the ingestion function's key gives a key under the
  transcription prefix ending in the result suffix and \<open>.json\<close> (the specification's
  contract for the analytics key, across both functions): the raw prefix ends in a character
  that the suffix \<open>:00Z.wav\<close> does not contain, so its replacement cannot reach into the
  suffix, and \<open>.wav\<close> cannot overlap itself, so its last occurrence is replaced.
\<close>

theorem analytics_after_ingest_key:
  assumes raw: "PATH_CONNECT_CALLRECORDINGS_RAW P \<noteq> []"
    and last: "last (PATH_CONNECT_CALLRECORDINGS_RAW P) \<notin> set '':00Z.wav''"
    and dot: "CHR ''.'' \<notin> set (PATH_TRANSCRIBE_CALLANALYTICS_RAW P)"
  shows "\<exists>mid. analytics_construct_destination_object_key P (ingest_construct_destination_object_key P s) =
           PATH_TRANSCRIBE_CALLANALYTICS_RAW P @ mid @ PATH_CALL_ANALYTICS_RESULT P @ ''.json''"
proof -
  obtain y where y: "ingest_construct_destination_object_key P s = PATH_CONNECT_CALLRECORDINGS_RAW P @ y @ '':00Z.wav''"
    using ingest_key_shape by blast
  obtain u where u: "replace_scan (PATH_CONNECT_CALLRECORDINGS_RAW P) (PATH_TRANSCRIBE_CALLANALYTICS_RAW P)
      (y @ '':00Z.wav'') = (u @ '':00Z'') @ ''.wav''"
    using replace_scan_keeps_tail [OF raw last] by fastforce
  obtain v where v: "replace_scan ''.wav'' (PATH_CALL_ANALYTICS_RESULT P @ ''.json'') ((u @ '':00Z'') @ ''.wav'') =
      v @ PATH_CALL_ANALYTICS_RESULT P @ ''.json''"
    using replace_wav_tail by blast
  show ?thesis
    using raw_start_replacements [OF raw dot, of "y @ '':00Z.wav''" "PATH_CALL_ANALYTICS_RESULT P @ ''.json''"] y u v
    by (auto simp: analytics_construct_destination_object_key_def)
qed

theorem analytics_after_ingest_key_witness:
  "\<exists>mid. analytics_construct_destination_object_key aux_paths
      (ingest_construct_destination_object_key aux_paths ''connect/example-instance/ChatTranscripts/2022/06/01/t.json'') =
    ''transcribe-call-analytics-raw/'' @ mid @ ''-call-analytics-result.json''"
  using analytics_after_ingest_key [of aux_paths] by (simp add: aux_paths_def)

end
