(* ===== verification/Pipeline.thy ===== *)
theory Pipeline
  imports Ingest Analytics
begin

text \<open>
  The two functions in their deployment, as a transition system. The state is the S3 store
  and Transcribe's job store; a step is one of: Amazon Connect storing a recording in the
  contact-center bucket; the ingestion function running on the Object Created event of any
  object of that bucket (EventBridge delivers at least once, so a run may repeat); the
  analytics function running on the event of any object under the raw-recordings prefix
  of the data-lake bucket; Transcribe completing a job by writing its output object.
  A failed invocation changes nothing and is no step. The routing (which bucket triggers
  which function) is the deployment's, not code of \<open>src/\<close>; the handlers are the models
  of \<open>Ingest\<close> and \<open>Analytics\<close>.
\<close>

section \<open>Deployment and state\<close>

record deployment =
  dp_paths :: paths
  dp_env :: environ
  dp_context :: lambda_context
  dp_cc_bucket :: pystr
  dp_dl_bucket :: pystr

record 'obj pipeline =
  p_store :: "'obj s3_store"
  p_jobs :: jobs

text \<open>
  A deployment as the stack sets it up: well-formed paths whose two prefixes diverge
  (neither is a prefix of the other), two different buckets, the data-lake bucket in the
  environment, and bucket names without \<open>/\<close> (as S3 requires).
\<close>

definition wf_deployment :: "deployment \<Rightarrow> bool" where
  "wf_deployment D \<longleftrightarrow>
     wf_paths (dp_paths D) \<and>
     parallel (PATH_CONNECT_CALLRECORDINGS_RAW (dp_paths D)) (PATH_TRANSCRIBE_CALLANALYTICS_RAW (dp_paths D)) \<and>
     dp_cc_bucket D \<noteq> dp_dl_bucket D \<and>
     dp_env D ''DATA_LAKE_DATA_BUCKET_NAME'' = Some (dp_dl_bucket D) \<and>
     CHR ''/'' \<notin> set (dp_dl_bucket D)"

inductive pipeline_step :: "deployment \<Rightarrow> 'obj pipeline \<Rightarrow> 'obj pipeline \<Rightarrow> bool"
  for D :: deployment where
  connect_stores_recording:
    "wf_connect_key (dp_paths D) k \<Longrightarrow> p_store s (dp_cc_bucket D) = Some b \<Longrightarrow>
     pipeline_step D s
       (s\<lparr>p_store := (p_store s)(dp_cc_bucket D \<mapsto> b(connect_recording_key (dp_paths D) k \<mapsto> obj))\<rparr>)"
| ingest_fires:
    "p_store s (dp_cc_bucket D) = Some b \<Longrightarrow> key \<in> dom b \<Longrightarrow>
     ingest_lambda_handler (dp_paths D) (dp_env D) (object_created_event (dp_cc_bucket D) key)
       (dp_context D) (p_store s) = Inr st' \<Longrightarrow>
     pipeline_step D s (s\<lparr>p_store := st'\<rparr>)"
| analytics_fires:
    "p_store s (dp_dl_bucket D) = Some b \<Longrightarrow> key \<in> dom b \<Longrightarrow>
     prefix (PATH_CONNECT_CALLRECORDINGS_RAW (dp_paths D)) key \<Longrightarrow>
     analytics_lambda_handler (dp_paths D) (dp_env D) (object_created_event (dp_dl_bucket D) key)
       rnd (p_jobs s) = Inr js' \<Longrightarrow>
     pipeline_step D s (s\<lparr>p_jobs := js'\<rparr>)"
| job_completes:
    "p_jobs s name = Some j \<Longrightarrow> OutputLocation j = ''s3://'' @ bk @ ''/'' @ okey \<Longrightarrow>
     CHR ''/'' \<notin> set bk \<Longrightarrow> p_store s bk = Some b \<Longrightarrow>
     pipeline_step D s (s\<lparr>p_store := (p_store s)(bk \<mapsto> b(okey \<mapsto> result))\<rparr>)"

section \<open>The invariant\<close>

text \<open>The contact-center bucket holds Connect recordings only.\<close>

definition cc_holds_recordings :: "deployment \<Rightarrow> 'obj s3_store \<Rightarrow> bool" where
  "cc_holds_recordings D st \<longleftrightarrow>
     (\<forall>b. st (dp_cc_bucket D) = Some b \<longrightarrow>
        (\<forall>key\<in>dom b. \<exists>k. wf_connect_key (dp_paths D) k \<and> key = connect_recording_key (dp_paths D) k))"

text \<open>The data-lake bucket holds recording copies and transcripts only.\<close>

definition dl_holds_pipeline_keys :: "deployment \<Rightarrow> 'obj s3_store \<Rightarrow> bool" where
  "dl_holds_pipeline_keys D st \<longleftrightarrow>
     (\<forall>b. st (dp_dl_bucket D) = Some b \<longrightarrow>
        (\<forall>key\<in>dom b. \<exists>k. wf_connect_key (dp_paths D) k \<and>
           (key = datalake_recording_key (dp_paths D) k \<or> key = transcript_key (dp_paths D) k)))"

text \<open>Every job reads a recording copy and writes that recording's transcript.\<close>

definition jobs_transcribe_recordings :: "deployment \<Rightarrow> jobs \<Rightarrow> bool" where
  "jobs_transcribe_recordings D js \<longleftrightarrow>
     (\<forall>j\<in>ran js. \<exists>k. wf_connect_key (dp_paths D) k \<and>
        MediaFileUri j = ''s3://'' @ dp_dl_bucket D @ ''/'' @ datalake_recording_key (dp_paths D) k \<and>
        OutputLocation j = ''s3://'' @ dp_dl_bucket D @ ''/'' @ transcript_key (dp_paths D) k)"

definition pipeline_inv :: "deployment \<Rightarrow> 'obj pipeline \<Rightarrow> bool" where
  "pipeline_inv D s \<longleftrightarrow>
     p_store s (dp_dl_bucket D) \<noteq> None \<and>
     cc_holds_recordings D (p_store s) \<and> dl_holds_pipeline_keys D (p_store s) \<and>
     jobs_transcribe_recordings D (p_jobs s)"

text \<open>Initial states: recordings only in the contact-center bucket, an empty data lake, no jobs.\<close>

definition pipeline_init :: "deployment \<Rightarrow> 'obj pipeline \<Rightarrow> bool" where
  "pipeline_init D s \<longleftrightarrow>
     cc_holds_recordings D (p_store s) \<and> p_store s (dp_dl_bucket D) = Some Map.empty \<and>
     p_jobs s = Map.empty"


text \<open>
  The example deployment: the configured paths, the example configuration and context,
  and the two buckets of \<open>example_store\<close>, which is also the initial store of the example run.
\<close>

definition example_deployment :: deployment where
  "example_deployment =
     \<lparr>dp_paths = aux_paths, dp_env = example_env, dp_context = example_context,
      dp_cc_bucket = ''contact-center-bucket'', dp_dl_bucket = ''datalake-bucket''\<rparr>"

definition example_state :: "nat pipeline" where
  "example_state = \<lparr>p_store = example_store, p_jobs = Map.empty\<rparr>"

text \<open>
  A contact-center bucket holding two recordings, an empty data lake. A second contact of
  the example's minute; and a second Connect instance that recorded the same contact at
  the same minute (\<open>other_instance_key\<close> differs from \<open>example_connect_key\<close> only in its
  prefix).
\<close>

definition recordings_store :: "connect_key \<Rightarrow> connect_key \<Rightarrow> nat s3_store" where
  "recordings_store k1 k2 =
     [''contact-center-bucket'' \<mapsto> [connect_recording_key aux_paths k1 \<mapsto> 1, connect_recording_key aux_paths k2 \<mapsto> 2],
      ''datalake-bucket'' \<mapsto> Map.empty]"

definition second_contact_key :: connect_key where
  "second_contact_key = example_connect_key\<lparr>ck_contact_id := ''7d9e2b1a-5c6d-4e7f-9a0b-1c2d3e4f5a6b''\<rparr>"

section \<open>Preservation\<close>

lemma raw_not_transcript:
  assumes "parallel R T" shows "\<not> prefix R (T @ x)"
  using assms prefix_same_cases [of R "T @ x" T] unfolding parallel_def by auto

lemma s3_uri_eq:
  assumes "''s3://'' @ a @ ''/'' @ x = ''s3://'' @ b @ ''/'' @ y"
    and "CHR ''/'' \<notin> set a" and "CHR ''/'' \<notin> set b"
  shows "a = b \<and> x = y"
  using assms append_sep_unique [of a "CHR ''/''" x b y] by simp

lemma cc_holds_other_bucket:
  "cc_holds_recordings D st \<Longrightarrow> bk \<noteq> dp_cc_bucket D \<Longrightarrow> cc_holds_recordings D (st(bk \<mapsto> x))"
  by (simp add: cc_holds_recordings_def)

lemma dl_holds_other_bucket:
  "dl_holds_pipeline_keys D st \<Longrightarrow> bk \<noteq> dp_dl_bucket D \<Longrightarrow> dl_holds_pipeline_keys D (st(bk \<mapsto> x))"
  by (simp add: dl_holds_pipeline_keys_def)

lemma dl_holds_put:
  assumes "dl_holds_pipeline_keys D st" and "st (dp_dl_bucket D) = Some b"
    and "wf_connect_key (dp_paths D) k"
    and "key = datalake_recording_key (dp_paths D) k \<or> key = transcript_key (dp_paths D) k"
  shows "dl_holds_pipeline_keys D (st(dp_dl_bucket D \<mapsto> b(key \<mapsto> obj)))"
  using assms unfolding dl_holds_pipeline_keys_def by auto

lemma cc_holds_put:
  assumes "cc_holds_recordings D st" and "st (dp_cc_bucket D) = Some b"
    and "wf_connect_key (dp_paths D) k"
  shows "cc_holds_recordings D (st(dp_cc_bucket D \<mapsto> b(connect_recording_key (dp_paths D) k \<mapsto> obj)))"
  using assms unfolding cc_holds_recordings_def by auto

lemma jobs_transcribe_put:
  assumes "jobs_transcribe_recordings D js" and "wf_connect_key (dp_paths D) k"
    and "MediaFileUri j = ''s3://'' @ dp_dl_bucket D @ ''/'' @ datalake_recording_key (dp_paths D) k"
    and "OutputLocation j = ''s3://'' @ dp_dl_bucket D @ ''/'' @ transcript_key (dp_paths D) k"
  shows "jobs_transcribe_recordings D (js(name \<mapsto> j))"
  using assms unfolding jobs_transcribe_recordings_def ran_def
  by (auto split: if_splits)


lemma pipeline_init_inv:
  "pipeline_init D s \<Longrightarrow> pipeline_inv D s"
  by (simp add: pipeline_init_def pipeline_inv_def dl_holds_pipeline_keys_def
      jobs_transcribe_recordings_def)

text \<open>The ingestion function copies a Connect recording to its data-lake key.\<close>

lemma ingest_step_effect:
  assumes D: "wf_deployment D" and inv: "pipeline_inv D s"
    and cc: "p_store s (dp_cc_bucket D) = Some b" and key: "key \<in> dom b"
    and run: "ingest_lambda_handler (dp_paths D) (dp_env D) (object_created_event (dp_cc_bucket D) key)
       (dp_context D) (p_store s) = Inr st'"
  obtains k dlb obj where "wf_connect_key (dp_paths D) k" and "key = connect_recording_key (dp_paths D) k"
    and "p_store s (dp_dl_bucket D) = Some dlb" and "b key = Some obj"
    and "st' = (p_store s)(dp_dl_bucket D \<mapsto> dlb(datalake_recording_key (dp_paths D) k \<mapsto> obj))"
proof -
  from inv cc key obtain k where k: "wf_connect_key (dp_paths D) k"
    and kk: "key = connect_recording_key (dp_paths D) k"
    by (auto simp: pipeline_inv_def cc_holds_recordings_def)
  from run D cc obtain dlb obj where dlb: "p_store s (dp_dl_bucket D) = Some dlb" and obj: "b key = Some obj"
    and st': "st' = (p_store s)(dp_dl_bucket D \<mapsto>
       dlb(ingest_construct_destination_object_key (dp_paths D) key \<mapsto> obj))"
    by (auto simp: ingest_lambda_handler_Inr s3_copy_object_Inr wf_deployment_def
        ENV_DATA_LAKE_DATA_BUCKET_NAME_def)
  have "ingest_construct_destination_object_key (dp_paths D) key = datalake_recording_key (dp_paths D) k"
    using k kk ingest_key_connect [of k "dp_paths D"] by (simp add: wf_connect_key_def)
  with k kk dlb obj st' that show ?thesis by simp
qed

text \<open>The analytics function, on a data-lake recording, starts the job that transcribes it.\<close>

lemma analytics_step_effect:
  assumes D: "wf_deployment D" and inv: "pipeline_inv D s"
    and dl: "p_store s (dp_dl_bucket D) = Some b" and key: "key \<in> dom b"
    and raw: "prefix (PATH_CONNECT_CALLRECORDINGS_RAW (dp_paths D)) key"
    and run: "analytics_lambda_handler (dp_paths D) (dp_env D) (object_created_event (dp_dl_bucket D) key)
       rnd (p_jobs s) = Inr js'"
  obtains k role where "wf_connect_key (dp_paths D) k" and "key = datalake_recording_key (dp_paths D) k"
    and "js' = (p_jobs s)(analytics_job_name rnd \<mapsto> analytics_job (analytics_job_name rnd)
       (''s3://'' @ dp_dl_bucket D @ ''/'' @ datalake_recording_key (dp_paths D) k)
       (''s3://'' @ dp_dl_bucket D @ ''/'' @ transcript_key (dp_paths D) k) role)"
proof -
  from inv dl key obtain k where k: "wf_connect_key (dp_paths D) k"
    and kk: "key = datalake_recording_key (dp_paths D) k \<or> key = transcript_key (dp_paths D) k"
    by (auto simp: pipeline_inv_def dl_holds_pipeline_keys_def)
  have "\<not> prefix (PATH_CONNECT_CALLRECORDINGS_RAW (dp_paths D)) (transcript_key (dp_paths D) k)"
    using D raw_not_transcript unfolding wf_deployment_def transcript_key_def by blast
  with raw kk have kd: "key = datalake_recording_key (dp_paths D) k" by auto
  have tk: "analytics_construct_destination_object_key (dp_paths D) key = transcript_key (dp_paths D) k"
    using D k kd analytics_key_datalake by (simp add: wf_deployment_def wf_connect_key_def)
  from run D tk kd obtain role where
    "js' = (p_jobs s)(analytics_job_name rnd \<mapsto> analytics_job (analytics_job_name rnd)
       (''s3://'' @ dp_dl_bucket D @ ''/'' @ datalake_recording_key (dp_paths D) k)
       (''s3://'' @ dp_dl_bucket D @ ''/'' @ transcript_key (dp_paths D) k) role)"
    by (auto simp: analytics_lambda_handler_Inr wf_deployment_def analytics_ENV_DATA_LAKE_DATA_BUCKET_NAME_def)
  with k kd that show ?thesis by blast
qed

text \<open>A job writes where the invariant says: the transcript key of a recording, in the data lake.\<close>

lemma job_output_transcript:
  assumes D: "wf_deployment D" and inv: "pipeline_inv D s"
    and job: "p_jobs s name = Some j" and out: "OutputLocation j = ''s3://'' @ bk @ ''/'' @ okey"
    and bk: "CHR ''/'' \<notin> set bk"
  obtains k where "wf_connect_key (dp_paths D) k" and "bk = dp_dl_bucket D"
    and "okey = transcript_key (dp_paths D) k"
proof -
  from inv job obtain k where k: "wf_connect_key (dp_paths D) k"
    and out': "OutputLocation j = ''s3://'' @ dp_dl_bucket D @ ''/'' @ transcript_key (dp_paths D) k"
    by (auto simp: pipeline_inv_def jobs_transcribe_recordings_def ran_def)
  have "''s3://'' @ bk @ ''/'' @ okey = ''s3://'' @ dp_dl_bucket D @ ''/'' @ transcript_key (dp_paths D) k"
    using out out' by simp
  moreover have "CHR ''/'' \<notin> set (dp_dl_bucket D)" using D by (simp add: wf_deployment_def)
  ultimately have "bk = dp_dl_bucket D \<and> okey = transcript_key (dp_paths D) k"
    using s3_uri_eq bk by blast
  with k that show ?thesis by blast
qed

lemma pipeline_step_inv:
  assumes "pipeline_step D s t" and D: "wf_deployment D" and inv: "pipeline_inv D s"
  shows "pipeline_inv D t"
  using assms(1)
proof cases
  case (connect_stores_recording k b obj)
  with D inv show ?thesis
    by (auto simp: pipeline_inv_def wf_deployment_def intro: cc_holds_put dl_holds_other_bucket)
next
  case (ingest_fires b key st')
  from ingest_step_effect [OF D inv ingest_fires(2,3,4)] obtain k dlb obj
    where "wf_connect_key (dp_paths D) k" "p_store s (dp_dl_bucket D) = Some dlb"
      "st' = (p_store s)(dp_dl_bucket D \<mapsto> dlb(datalake_recording_key (dp_paths D) k \<mapsto> obj))" .
  with D inv ingest_fires(1) show ?thesis
    by (auto simp: pipeline_inv_def wf_deployment_def intro: cc_holds_other_bucket dl_holds_put)
next
  case (analytics_fires b key rnd js')
  from analytics_step_effect [OF D inv analytics_fires(2-5)] obtain k role
    where "wf_connect_key (dp_paths D) k"
      "js' = (p_jobs s)(analytics_job_name rnd \<mapsto> analytics_job (analytics_job_name rnd)
       (''s3://'' @ dp_dl_bucket D @ ''/'' @ datalake_recording_key (dp_paths D) k)
       (''s3://'' @ dp_dl_bucket D @ ''/'' @ transcript_key (dp_paths D) k) role)" .
  with inv analytics_fires(1) show ?thesis
    by (auto simp: pipeline_inv_def analytics_job_def intro: jobs_transcribe_put)
next
  case (job_completes name j bk okey b result)
  from job_output_transcript [OF D inv job_completes(2-4)] obtain k where
    "wf_connect_key (dp_paths D) k" "bk = dp_dl_bucket D" "okey = transcript_key (dp_paths D) k" .
  with D inv job_completes(1,5) show ?thesis
    by (auto simp: pipeline_inv_def wf_deployment_def intro: cc_holds_other_bucket dl_holds_put)
qed

lemma pipeline_reachable_inv:
  assumes "(pipeline_step D)\<^sup>*\<^sup>* s0 s" and "wf_deployment D" and "pipeline_init D s0"
  shows "pipeline_inv D s"
  using assms(1)
proof induction
  case base
  then show ?case using assms(3) by (rule pipeline_init_inv)
next
  case (step t u)
  then show ?case using assms(2) by (blast intro: pipeline_step_inv)
qed


section \<open>Runs\<close>

lemma prefixes_distinct: "parallel R T \<Longrightarrow> R @ x \<noteq> T @ y"
  using raw_not_transcript [of R T y] by (metis prefixI)

text \<open>
  Each function, on the event of its object and with a complete configuration, succeeds:
  the ingestion function copies a recording to its data-lake key, the analytics function
  starts the job for a data-lake copy.
\<close>

lemma ingest_handler_recording:
  assumes D: "wf_deployment D" and k: "wf_connect_key (dp_paths D) k"
    and cc: "st (dp_cc_bucket D) = Some b" and obj: "b (connect_recording_key (dp_paths D) k) = Some obj"
    and dl: "st (dp_dl_bucket D) = Some dlb"
    and arn: "4 < length (py_split (invoked_function_arn (dp_context D)) '':'')"
    and region: "dp_env D ''AWS_REGION'' = Some region"
  shows "ingest_lambda_handler (dp_paths D) (dp_env D)
      (object_created_event (dp_cc_bucket D) (connect_recording_key (dp_paths D) k)) (dp_context D) st =
    Inr (st(dp_dl_bucket D \<mapsto> dlb(datalake_recording_key (dp_paths D) k \<mapsto> obj)))"
  using D k cc obj dl arn region
  by (simp add: ingest_handler_simps ingest_key_connect wf_connect_key_def wf_deployment_def
      ENV_DATA_LAKE_DATA_BUCKET_NAME_def)

lemma analytics_handler_recording:
  assumes D: "wf_deployment D" and k: "wf_connect_key (dp_paths D) k"
    and role: "dp_env D ''DATA_ACCESS_ROLE_ARN'' = Some role"
    and fresh: "analytics_job_name rnd \<notin> dom js"
  shows "analytics_lambda_handler (dp_paths D) (dp_env D)
      (object_created_event (dp_dl_bucket D) (datalake_recording_key (dp_paths D) k)) rnd js =
    Inr (js(analytics_job_name rnd \<mapsto> analytics_job (analytics_job_name rnd)
              (''s3://'' @ dp_dl_bucket D @ ''/'' @ datalake_recording_key (dp_paths D) k)
              (''s3://'' @ dp_dl_bucket D @ ''/'' @ transcript_key (dp_paths D) k) role))"
  using D k role fresh
  by (simp add: analytics_lambda_handler_Inr analytics_key_datalake wf_connect_key_def wf_deployment_def
      analytics_ENV_DATA_LAKE_DATA_BUCKET_NAME_def ENV_DATA_ACCESS_ROLE_ARN_def)

text \<open>So each function, when its event comes and the configuration is complete, takes its step.\<close>

lemma ingest_step_run:
  assumes D: "wf_deployment D" and k: "wf_connect_key (dp_paths D) k"
    and cc: "p_store s (dp_cc_bucket D) = Some b" and obj: "b (connect_recording_key (dp_paths D) k) = Some obj"
    and dl: "p_store s (dp_dl_bucket D) = Some dlb"
    and arn: "4 < length (py_split (invoked_function_arn (dp_context D)) '':'')"
    and region: "dp_env D ''AWS_REGION'' = Some region"
  shows "pipeline_step D s
           (s\<lparr>p_store := (p_store s)(dp_dl_bucket D \<mapsto> dlb(datalake_recording_key (dp_paths D) k \<mapsto> obj))\<rparr>)"
  using obj by (blast intro: ingest_fires [OF cc] ingest_handler_recording [OF D k cc obj dl arn region])

lemma analytics_step_run:
  assumes D: "wf_deployment D" and k: "wf_connect_key (dp_paths D) k"
    and dl: "p_store s (dp_dl_bucket D) = Some b" and obj: "b (datalake_recording_key (dp_paths D) k) = Some obj"
    and role: "dp_env D ''DATA_ACCESS_ROLE_ARN'' = Some role"
    and fresh: "analytics_job_name rnd \<notin> dom (p_jobs s)"
  shows "pipeline_step D s
           (s\<lparr>p_jobs := (p_jobs s)(analytics_job_name rnd \<mapsto> analytics_job (analytics_job_name rnd)
              (''s3://'' @ dp_dl_bucket D @ ''/'' @ datalake_recording_key (dp_paths D) k)
              (''s3://'' @ dp_dl_bucket D @ ''/'' @ transcript_key (dp_paths D) k) role)\<rparr>)"
proof (rule analytics_fires [OF dl])
  show "datalake_recording_key (dp_paths D) k \<in> dom b" using obj by blast
  show "prefix (PATH_CONNECT_CALLRECORDINGS_RAW (dp_paths D)) (datalake_recording_key (dp_paths D) k)"
    by (simp add: datalake_recording_key_def)
qed (rule analytics_handler_recording [OF D k role fresh])

lemma example_wf_deployment: "wf_deployment example_deployment"
  using wf_aux_paths
  by (simp add: wf_deployment_def example_deployment_def example_env_def parallel_def)
    (simp add: aux_paths_def)

lemma example_wf_connect_key: "wf_connect_key aux_paths example_connect_key"
  by (simp add: wf_connect_key_def example_connect_key_shape example_connect_key_chars example_marker_first)

lemma example_init: "pipeline_init example_deployment example_state"
  using example_wf_connect_key
  by (auto simp: pipeline_init_def cc_holds_recordings_def example_deployment_def example_state_def
      example_store_def)


lemma example_run:
  "(pipeline_step example_deployment)\<^sup>*\<^sup>* example_state
     \<lparr>p_store = example_store(''datalake-bucket'' \<mapsto> [datalake_recording_key aux_paths example_connect_key \<mapsto> 1]),
      p_jobs = [analytics_job_name example_rnd \<mapsto> analytics_job (analytics_job_name example_rnd)
        (''s3://datalake-bucket/'' @ datalake_recording_key aux_paths example_connect_key)
        (''s3://datalake-bucket/'' @ transcript_key aux_paths example_connect_key)
        ''arn:aws:iam::123456789012:role/transcribe-data-access'']\<rparr>"
proof -
  let ?D = example_deployment
  let ?s1 = "example_state\<lparr>p_store := example_store(''datalake-bucket'' \<mapsto>
     [datalake_recording_key aux_paths example_connect_key \<mapsto> 1])\<rparr>"
  have D: "dp_paths ?D = aux_paths" "dp_cc_bucket ?D = ''contact-center-bucket''"
    "dp_dl_bucket ?D = ''datalake-bucket''" "dp_context ?D = example_context" "dp_env ?D = example_env"
    by (simp_all add: example_deployment_def)
  have st: "p_store example_state = example_store" "p_jobs example_state = Map.empty"
    by (simp_all add: example_state_def)
  have cc: "example_store ''contact-center-bucket'' = Some [connect_recording_key aux_paths example_connect_key \<mapsto> 1]"
    and dl: "example_store ''datalake-bucket'' = Some Map.empty"
    by (simp_all add: example_store_def)
  have arn: "4 < length (py_split (invoked_function_arn example_context) '':'')"
    by (simp add: example_context_def py_split_def)
  have env: "example_env ''AWS_REGION'' = Some ''eu-central-1''"
    "example_env ''DATA_ACCESS_ROLE_ARN'' = Some ''arn:aws:iam::123456789012:role/transcribe-data-access''"
    by (simp_all add: example_env_def)
  have 1: "pipeline_step ?D example_state ?s1"
    using ingest_step_run [OF example_wf_deployment, of example_connect_key example_state]
      example_wf_connect_key cc dl arn env(1) by (simp add: D st)
  have 2: "pipeline_step ?D ?s1
     \<lparr>p_store = example_store(''datalake-bucket'' \<mapsto> [datalake_recording_key aux_paths example_connect_key \<mapsto> 1]),
      p_jobs = [analytics_job_name example_rnd \<mapsto> analytics_job (analytics_job_name example_rnd)
        (''s3://datalake-bucket/'' @ datalake_recording_key aux_paths example_connect_key)
        (''s3://datalake-bucket/'' @ transcript_key aux_paths example_connect_key)
        ''arn:aws:iam::123456789012:role/transcribe-data-access'']\<rparr>"
    using analytics_step_run [OF example_wf_deployment, of example_connect_key ?s1 _ 1 _ example_rnd]
      example_wf_connect_key env(2) by (simp add: D st example_state_def)
  from 1 2 show ?thesis by simp
qed


section \<open>Properties of the pipeline\<close>

text \<open>
  C19. In every reachable state of a well-formed deployment, every Transcribe job reads the
  data-lake copy of a Connect recording and writes that same recording's transcript key
  in the data lake: no job is started for a transcript or for a foreign object.
\<close>

theorem pipeline_jobs_transcribe_recordings:
  assumes "wf_deployment D" and "pipeline_init D s0" and "(pipeline_step D)\<^sup>*\<^sup>* s0 s"
    and "p_jobs s name = Some j"
  shows "\<exists>k. wf_connect_key (dp_paths D) k \<and>
           MediaFileUri j = ''s3://'' @ dp_dl_bucket D @ ''/'' @ datalake_recording_key (dp_paths D) k \<and>
           OutputLocation j = ''s3://'' @ dp_dl_bucket D @ ''/'' @ transcript_key (dp_paths D) k"
proof -
  have "jobs_transcribe_recordings D (p_jobs s)"
    using pipeline_reachable_inv [OF assms(3,1,2)] by (simp add: pipeline_inv_def)
  moreover have "j \<in> ran (p_jobs s)" using assms(4) by (auto simp: ran_def)
  ultimately show ?thesis unfolding jobs_transcribe_recordings_def by blast
qed

theorem pipeline_jobs_transcribe_recordings_witness:
  "\<exists>k. wf_connect_key aux_paths k \<and>
     ''s3://datalake-bucket/'' @ datalake_recording_key aux_paths example_connect_key =
       ''s3://'' @ ''datalake-bucket'' @ ''/'' @ datalake_recording_key aux_paths k \<and>
     ''s3://datalake-bucket/'' @ transcript_key aux_paths example_connect_key =
       ''s3://'' @ ''datalake-bucket'' @ ''/'' @ transcript_key aux_paths k"
  using pipeline_jobs_transcribe_recordings [OF example_wf_deployment example_init example_run,
      of "analytics_job_name example_rnd"]
  by (simp add: example_deployment_def analytics_job_def)

text \<open>
  C20. In every reachable state the data-lake bucket holds only the ISO-keyed copies of
  Connect recordings and their transcripts: every key there is the data-lake key or the
  transcript key of a well-formed Connect key.
\<close>

theorem pipeline_datalake_keys:
  assumes "wf_deployment D" and "pipeline_init D s0" and "(pipeline_step D)\<^sup>*\<^sup>* s0 s"
    and "p_store s (dp_dl_bucket D) = Some b" and "b key = Some obj"
  shows "\<exists>k. wf_connect_key (dp_paths D) k \<and>
           (key = datalake_recording_key (dp_paths D) k \<or> key = transcript_key (dp_paths D) k)"
  using pipeline_reachable_inv [OF assms(3,1,2)] assms(4,5)
  unfolding pipeline_inv_def dl_holds_pipeline_keys_def by blast

theorem pipeline_datalake_keys_witness:
  "\<exists>k. wf_connect_key aux_paths k \<and>
     (datalake_recording_key aux_paths example_connect_key = datalake_recording_key aux_paths k \<or>
      datalake_recording_key aux_paths example_connect_key = transcript_key aux_paths k)"
  using pipeline_datalake_keys [OF example_wf_deployment example_init example_run,
      of "[datalake_recording_key aux_paths example_connect_key \<mapsto> 1]"
         "datalake_recording_key aux_paths example_connect_key" 1]
  by (simp add: example_deployment_def)


text \<open>
  C21. Progress: in a reachable state of a well-formed deployment whose configuration is
  complete (an ARN with an account field, a region, a role), every object of the
  contact-center bucket is a Connect recording, and a run of three steps (ingestion on its
  event, analytics on the copy's event with a fresh job name, the job completing with any
  result) reaches a state with the job and with both the copy and the transcript in the
  data lake.
\<close>

theorem pipeline_recording_transcribed:
  assumes D: "wf_deployment D" and init: "pipeline_init D s0" and reach: "(pipeline_step D)\<^sup>*\<^sup>* s0 s"
    and cc: "p_store s (dp_cc_bucket D) = Some b" and rec: "b key = Some obj"
    and arn: "4 < length (py_split (invoked_function_arn (dp_context D)) '':'')"
    and region: "dp_env D ''AWS_REGION'' = Some region"
    and role: "dp_env D ''DATA_ACCESS_ROLE_ARN'' = Some role"
    and fresh: "analytics_job_name rnd \<notin> dom (p_jobs s)"
  shows "\<exists>k s'. key = connect_recording_key (dp_paths D) k \<and> (pipeline_step D)\<^sup>*\<^sup>* s s' \<and>
           p_jobs s' (analytics_job_name rnd) = Some (analytics_job (analytics_job_name rnd)
             (''s3://'' @ dp_dl_bucket D @ ''/'' @ datalake_recording_key (dp_paths D) k)
             (''s3://'' @ dp_dl_bucket D @ ''/'' @ transcript_key (dp_paths D) k) role) \<and>
           (\<exists>b'. p_store s' (dp_dl_bucket D) = Some b' \<and>
              b' (datalake_recording_key (dp_paths D) k) = Some obj \<and>
              b' (transcript_key (dp_paths D) k) = Some result)"
proof -
  let ?P = "dp_paths D" and ?dl = "dp_dl_bucket D"
  have inv: "pipeline_inv D s" using pipeline_reachable_inv [OF reach D init] .
  from inv cc rec obtain k where k: "wf_connect_key ?P k" and kk: "key = connect_recording_key ?P k"
    by (auto simp: pipeline_inv_def cc_holds_recordings_def)
  from inv obtain dlb where dlb: "p_store s ?dl = Some dlb" by (auto simp: pipeline_inv_def)
  let ?dk = "datalake_recording_key ?P k" and ?tk = "transcript_key ?P k"
  let ?job = "analytics_job (analytics_job_name rnd) (''s3://'' @ ?dl @ ''/'' @ ?dk) (''s3://'' @ ?dl @ ''/'' @ ?tk) role"
  define s1 where "s1 = s\<lparr>p_store := (p_store s)(?dl \<mapsto> dlb(?dk \<mapsto> obj))\<rparr>"
  define s2 where "s2 = s1\<lparr>p_jobs := (p_jobs s1)(analytics_job_name rnd \<mapsto> ?job)\<rparr>"
  define s3 where "s3 = s2\<lparr>p_store := (p_store s2)(?dl \<mapsto> (dlb(?dk \<mapsto> obj))(?tk \<mapsto> result))\<rparr>"
  have 1: "pipeline_step D s s1"
    using ingest_step_run [OF D k cc _ dlb arn region] rec kk by (simp add: s1_def)
  have 2: "pipeline_step D s1 s2"
    using analytics_step_run [OF D k, of s1 "dlb(?dk \<mapsto> obj)" obj role rnd] role fresh
    by (simp add: s1_def s2_def)
  have 3: "pipeline_step D s2 s3"
    unfolding s3_def
  proof (rule job_completes)
    show "p_jobs s2 (analytics_job_name rnd) = Some ?job" by (simp add: s2_def)
    show "OutputLocation ?job = ''s3://'' @ ?dl @ ''/'' @ ?tk" by (simp add: analytics_job_def)
    show "CHR ''/'' \<notin> set ?dl" using D by (simp add: wf_deployment_def)
    show "p_store s2 ?dl = Some (dlb(?dk \<mapsto> obj))" by (simp add: s1_def s2_def)
  qed
  have "?dk \<noteq> ?tk"
    using D prefixes_distinct unfolding wf_deployment_def datalake_recording_key_def transcript_key_def
    by blast
  then have "p_jobs s3 (analytics_job_name rnd) = Some ?job \<and>
      p_store s3 ?dl = Some ((dlb(?dk \<mapsto> obj))(?tk \<mapsto> result)) \<and>
      ((dlb(?dk \<mapsto> obj))(?tk \<mapsto> result)) ?dk = Some obj \<and> ((dlb(?dk \<mapsto> obj))(?tk \<mapsto> result)) ?tk = Some result"
    by (simp add: s1_def s2_def s3_def)
  moreover have "(pipeline_step D)\<^sup>*\<^sup>* s s3" using 1 2 3 by simp
  ultimately show ?thesis using kk by blast
qed

theorem pipeline_recording_transcribed_witness:
  "\<exists>k s'. connect_recording_key aux_paths example_connect_key = connect_recording_key aux_paths k \<and>
     (pipeline_step example_deployment)\<^sup>*\<^sup>* example_state s' \<and>
     p_jobs s' (analytics_job_name example_rnd) = Some (analytics_job (analytics_job_name example_rnd)
       (''s3://datalake-bucket/'' @ datalake_recording_key aux_paths k)
       (''s3://datalake-bucket/'' @ transcript_key aux_paths k)
       ''arn:aws:iam::123456789012:role/transcribe-data-access'') \<and>
     (\<exists>b'. p_store s' ''datalake-bucket'' = Some b' \<and>
        b' (datalake_recording_key aux_paths k) = Some (1::nat) \<and> b' (transcript_key aux_paths k) = Some 2)"
proof -
  have "p_store example_state (dp_cc_bucket example_deployment) =
      Some [connect_recording_key aux_paths example_connect_key \<mapsto> 1]"
    by (simp add: example_state_def example_store_def example_deployment_def)
  moreover have "4 < length (py_split (invoked_function_arn (dp_context example_deployment)) '':'')"
    by (simp add: example_deployment_def example_context_def py_split_def)
  moreover have "dp_env example_deployment ''AWS_REGION'' = Some ''eu-central-1''"
    "dp_env example_deployment ''DATA_ACCESS_ROLE_ARN'' = Some ''arn:aws:iam::123456789012:role/transcribe-data-access''"
    by (simp_all add: example_deployment_def example_env_def)
  moreover have "analytics_job_name example_rnd \<notin> dom (p_jobs example_state)"
    by (simp add: example_state_def)
  ultimately show ?thesis
    using pipeline_recording_transcribed [OF example_wf_deployment example_init rtranclp.rtrancl_refl,
        of "[connect_recording_key aux_paths example_connect_key \<mapsto> 1]"
           "connect_recording_key aux_paths example_connect_key" 1 _ _ example_rnd 2]
    by (simp add: example_deployment_def)
qed


section \<open>Repeated events\<close>

text \<open>
  C22. EventBridge delivers an event at least once. The ingestion handler is idempotent: run
  again on the same event, context and configuration in the store it produced, it succeeds
  and leaves that store as it is.
\<close>

theorem ingest_handler_idempotent:
  assumes "ingest_lambda_handler P env event ctx s3 = Inr s3'"
  shows "ingest_lambda_handler P env event ctx s3' = Inr s3'"
  using assms s3_copy_object_idempotent by (auto simp: ingest_lambda_handler_Inr)

theorem ingest_handler_idempotent_witness:
  "ingest_lambda_handler aux_paths example_env
     (object_created_event ''contact-center-bucket'' (connect_recording_key aux_paths example_connect_key))
     example_context (example_store(''datalake-bucket'' \<mapsto> [datalake_recording_key aux_paths example_connect_key \<mapsto> 1])) =
   Inr (example_store(''datalake-bucket'' \<mapsto> [datalake_recording_key aux_paths example_connect_key \<mapsto> 1]))"
proof -
  have "ingest_lambda_handler aux_paths example_env
     (object_created_event ''contact-center-bucket'' (connect_recording_key aux_paths example_connect_key))
     example_context example_store =
   Inr (example_store(''datalake-bucket'' \<mapsto> [datalake_recording_key aux_paths example_connect_key \<mapsto> 1]))"
    using example_connect_key_shape example_marker_first
    by (simp add: ingest_handler_simps ingest_key_connect ENV_DATA_LAKE_DATA_BUCKET_NAME_def
        example_env_def example_context_def example_store_def py_split_def)
  then show ?thesis by (rule ingest_handler_idempotent)
qed

text \<open>
  C23. The analytics handler is not idempotent: run again on the same event with a fresh
  job name, it succeeds and starts a second job on the same media with the same output
  location, so the recording is transcribed twice and its transcript written twice.
\<close>

theorem analytics_duplicate_event_second_job:
  assumes "analytics_lambda_handler P env event rnd1 js = Inr js1"
    and "analytics_job_name rnd2 \<notin> dom js1"
  shows "\<exists>js2 j1 j2. analytics_lambda_handler P env event rnd2 js1 = Inr js2 \<and>
           js2 (analytics_job_name rnd1) = Some j1 \<and> js2 (analytics_job_name rnd2) = Some j2 \<and>
           analytics_job_name rnd1 \<noteq> analytics_job_name rnd2 \<and>
           MediaFileUri j1 = MediaFileUri j2 \<and> OutputLocation j1 = OutputLocation j2"
proof -
  let ?n1 = "analytics_job_name rnd1" and ?n2 = "analytics_job_name rnd2"
  from assms(1) obtain b key dl role where ev: "extract_source_bucket_name event = Inr b"
      "extract_source_object_key event = Inr key"
    and env: "env analytics_ENV_DATA_LAKE_DATA_BUCKET_NAME = Some dl" "env ENV_DATA_ACCESS_ROLE_ARN = Some role"
    and js1: "js1 = js(?n1 \<mapsto> analytics_job ?n1 (''s3://'' @ b @ ''/'' @ key)
       (''s3://'' @ dl @ ''/'' @ analytics_construct_destination_object_key P key) role)"
    using assms(1) unfolding analytics_lambda_handler_Inr by blast
  let ?job = "\<lambda>n. analytics_job n (''s3://'' @ b @ ''/'' @ key)
       (''s3://'' @ dl @ ''/'' @ analytics_construct_destination_object_key P key) role"
  have run: "analytics_lambda_handler P env event rnd2 js1 = Inr (js1(?n2 \<mapsto> ?job ?n2))"
    unfolding analytics_lambda_handler_Inr using ev env assms(2) by blast
  have ne: "?n1 \<noteq> ?n2" using assms(2) js1 by auto
  with run js1 show ?thesis
    by (intro exI [of _ "js1(?n2 \<mapsto> ?job ?n2)"] exI [of _ "?job ?n1"] exI [of _ "?job ?n2"])
      (simp add: analytics_job_def)
qed

theorem analytics_duplicate_event_second_job_witness:
  "\<exists>js2 j1 j2. analytics_lambda_handler aux_paths example_env example_datalake_event 1
       [analytics_job_name 0 \<mapsto> analytics_job (analytics_job_name 0)
          (''s3://datalake-bucket/'' @ datalake_recording_key aux_paths example_connect_key)
          (''s3://datalake-bucket/'' @ transcript_key aux_paths example_connect_key)
          ''arn:aws:iam::123456789012:role/transcribe-data-access''] = Inr js2 \<and>
     js2 (analytics_job_name 0) = Some j1 \<and> js2 (analytics_job_name 1) = Some j2 \<and>
     analytics_job_name 0 \<noteq> analytics_job_name 1 \<and>
     MediaFileUri j1 = MediaFileUri j2 \<and> OutputLocation j1 = OutputLocation j2"
proof -
  have first: "analytics_lambda_handler aux_paths example_env example_datalake_event 0 Map.empty =
      Inr [analytics_job_name 0 \<mapsto> analytics_job (analytics_job_name 0)
          (''s3://datalake-bucket/'' @ datalake_recording_key aux_paths example_connect_key)
          (''s3://datalake-bucket/'' @ transcript_key aux_paths example_connect_key)
          ''arn:aws:iam::123456789012:role/transcribe-data-access'']"
    unfolding example_datalake_event_def example_datalake_key [symmetric]
    by (simp add: analytics_lambda_handler_Inr analytics_key_datalake [OF wf_aux_paths example_connect_key_chars]
        example_env_def analytics_ENV_DATA_LAKE_DATA_BUCKET_NAME_def ENV_DATA_ACCESS_ROLE_ARN_def)
  have names: "analytics_job_name (0::128 word) \<noteq> analytics_job_name 1"
  proof
    assume "analytics_job_name (0::128 word) = analytics_job_name 1"
    then have "uuid4 (0::128 word) = uuid4 1" by (simp add: analytics_job_name_def uuid_hex_inj)
    then have "bit ((0::128 word) AND NOT uuid4_fixed_bits) 0 = bit ((1::128 word) AND NOT uuid4_fixed_bits) 0"
      by (simp only: uuid4_eq_iff)
    then show False by (simp only: bit_and_not_fixed) simp
  qed
  have fresh: "analytics_job_name 1 \<notin> dom [analytics_job_name 0 \<mapsto> analytics_job (analytics_job_name 0)
          (''s3://datalake-bucket/'' @ datalake_recording_key aux_paths example_connect_key)
          (''s3://datalake-bucket/'' @ transcript_key aux_paths example_connect_key)
          ''arn:aws:iam::123456789012:role/transcribe-data-access'']"
    using names by simp
  show ?thesis using analytics_duplicate_event_second_job [OF first fresh] by simp
qed


section \<open>Order of delivery\<close>

text \<open>
  C28. Two ingestions of different recordings commute when their data-lake keys differ
  (and the data lake is not the source bucket): delivering the two events in the other
  order succeeds and ends in the same store.
\<close>

theorem ingest_deliveries_commute:
  assumes r1: "ingest_lambda_handler P env (object_created_event cc key1) ctx s3 = Inr s3a"
    and r2: "ingest_lambda_handler P env (object_created_event cc key2) ctx s3a = Inr s3ab"
    and ne: "ingest_construct_destination_object_key P key1 \<noteq> ingest_construct_destination_object_key P key2"
    and src: "env ENV_DATA_LAKE_DATA_BUCKET_NAME \<noteq> Some cc"
  shows "\<exists>s3b. ingest_lambda_handler P env (object_created_event cc key2) ctx s3 = Inr s3b \<and>
           ingest_lambda_handler P env (object_created_event cc key1) ctx s3b = Inr s3ab"
proof -
  let ?k1 = "ingest_construct_destination_object_key P key1"
    and ?k2 = "ingest_construct_destination_object_key P key2"
  from r1 obtain acct region d sb o1 b where pre: "lambda_account_id ctx = Inr acct"
      "environ_getitem env ''AWS_REGION'' = Inr region"
    and d: "env ENV_DATA_LAKE_DATA_BUCKET_NAME = Some d" and sb: "s3 cc = Some sb" and o1: "sb key1 = Some o1"
    and b: "s3 d = Some b" and s3a: "s3a = s3(d \<mapsto> b(?k1 \<mapsto> o1))"
    by (auto simp: ingest_lambda_handler_Inr s3_copy_object_Inr)
  from d src have dc: "d \<noteq> cc" by auto
  from r2 d obtain o2 where o2: "sb key2 = Some o2" and s3ab: "s3ab = s3a(d \<mapsto> (b(?k1 \<mapsto> o1))(?k2 \<mapsto> o2))"
    using sb dc by (auto simp: ingest_lambda_handler_Inr s3_copy_object_Inr s3a)
  let ?s3b = "s3(d \<mapsto> b(?k2 \<mapsto> o2))"
  have "ingest_lambda_handler P env (object_created_event cc key2) ctx s3 = Inr ?s3b"
    using pre d sb o2 b by (simp add: ingest_lambda_handler_Inr s3_copy_object_Inr)
  moreover have "ingest_lambda_handler P env (object_created_event cc key1) ctx ?s3b = Inr s3ab"
    using pre d sb o1 dc ne by (simp add: ingest_lambda_handler_Inr s3_copy_object_Inr s3ab s3a fun_upd_twist)
  ultimately show ?thesis by blast
qed


lemma example_ingest:
  assumes "connect_key_shape k" and "marker_first aux_paths k"
    and "st ''contact-center-bucket'' = Some b" and "b (connect_recording_key aux_paths k) = Some obj"
    and "st ''datalake-bucket'' = Some dlb"
  shows "ingest_lambda_handler aux_paths example_env
      (object_created_event ''contact-center-bucket'' (connect_recording_key aux_paths k)) example_context st =
    Inr (st(''datalake-bucket'' \<mapsto> dlb(datalake_recording_key aux_paths k \<mapsto> obj)))"
  using assms
  by (simp add: ingest_handler_simps ingest_key_connect example_env_def example_context_def py_split_def
      ENV_DATA_LAKE_DATA_BUCKET_NAME_def)

lemma second_contact_key_wf:
  "connect_key_shape second_contact_key" "marker_first aux_paths second_contact_key"
  "connect_key_shape other_instance_key" "marker_first aux_paths other_instance_key"
  by (simp_all add: second_contact_key_def other_instance_key_def example_connect_key_def
      connect_key_shape_def marker_first_def aux_paths_def sublist_code)

theorem ingest_deliveries_commute_witness:
  "\<exists>s3b. ingest_lambda_handler aux_paths example_env
       (object_created_event ''contact-center-bucket'' (connect_recording_key aux_paths second_contact_key))
       example_context (recordings_store example_connect_key second_contact_key) = Inr s3b \<and>
     ingest_lambda_handler aux_paths example_env
       (object_created_event ''contact-center-bucket'' (connect_recording_key aux_paths example_connect_key))
       example_context s3b =
     Inr ((recordings_store example_connect_key second_contact_key)(''datalake-bucket'' \<mapsto>
        [datalake_recording_key aux_paths example_connect_key \<mapsto> 1,
         datalake_recording_key aux_paths second_contact_key \<mapsto> 2]))"
proof -
  let ?st = "recordings_store example_connect_key second_contact_key"
  let ?k1 = "connect_recording_key aux_paths example_connect_key"
    and ?k2 = "connect_recording_key aux_paths second_contact_key"
  have ne: "?k1 \<noteq> ?k2" and dne: "datalake_recording_key aux_paths example_connect_key \<noteq>
      datalake_recording_key aux_paths second_contact_key"
    by (simp_all add: connect_recording_key_def datalake_recording_key_def iso_stem_def
        second_contact_key_def example_connect_key_def)
  have cc: "?st ''contact-center-bucket'' = Some [?k1 \<mapsto> 1, ?k2 \<mapsto> 2]"
    and dl: "?st ''datalake-bucket'' = Some Map.empty"
    by (simp_all add: recordings_store_def)
  have r1: "ingest_lambda_handler aux_paths example_env (object_created_event ''contact-center-bucket'' ?k1)
      example_context ?st = Inr (?st(''datalake-bucket'' \<mapsto> [datalake_recording_key aux_paths example_connect_key \<mapsto> 1]))"
    using example_ingest [OF example_connect_key_shape example_marker_first cc _ dl] ne by simp
  have r2: "ingest_lambda_handler aux_paths example_env (object_created_event ''contact-center-bucket'' ?k2)
      example_context (?st(''datalake-bucket'' \<mapsto> [datalake_recording_key aux_paths example_connect_key \<mapsto> 1])) =
    Inr (?st(''datalake-bucket'' \<mapsto> [datalake_recording_key aux_paths example_connect_key \<mapsto> 1,
         datalake_recording_key aux_paths second_contact_key \<mapsto> 2]))"
    using example_ingest [OF second_contact_key_wf(1,2), of "?st(''datalake-bucket'' \<mapsto> _)" "[?k1 \<mapsto> 1, ?k2 \<mapsto> 2]"]
      cc by simp
  have keys: "ingest_construct_destination_object_key aux_paths ?k1 \<noteq> ingest_construct_destination_object_key aux_paths ?k2"
    using dne by (simp add: ingest_key_connect example_connect_key_shape example_marker_first second_contact_key_wf)
  have src: "example_env ENV_DATA_LAKE_DATA_BUCKET_NAME \<noteq> Some ''contact-center-bucket''"
    by (simp add: example_env_def ENV_DATA_LAKE_DATA_BUCKET_NAME_def)
  show ?thesis using ingest_deliveries_commute [OF r1 r2 keys src] .
qed

text \<open>
  C29. When two objects of the contact-center bucket map to the same data-lake key (for
  recordings: two Connect instances, the same contact and minute), the outcome depends on
  the order of delivery: the data lake ends with whichever object was delivered last, the
  other is overwritten without an error.
\<close>

theorem ingest_collision_last_writer_wins:
  assumes arn: "4 < length (py_split (invoked_function_arn ctx) '':'')"
    and region: "env ''AWS_REGION'' = Some region"
    and dl: "env ENV_DATA_LAKE_DATA_BUCKET_NAME = Some d" and ne: "d \<noteq> cc"
    and cc: "s3 cc = Some ccb" and o1: "ccb key1 = Some obj1" and o2: "ccb key2 = Some obj2"
    and dlb: "s3 d = Some dlb"
    and collide: "ingest_construct_destination_object_key P key1 = ingest_construct_destination_object_key P key2"
  shows "py_bind (ingest_lambda_handler P env (object_created_event cc key1) ctx s3)
           (ingest_lambda_handler P env (object_created_event cc key2) ctx) =
         Inr (s3(d \<mapsto> dlb(ingest_construct_destination_object_key P key1 \<mapsto> obj2))) \<and>
         py_bind (ingest_lambda_handler P env (object_created_event cc key2) ctx s3)
           (ingest_lambda_handler P env (object_created_event cc key1) ctx) =
         Inr (s3(d \<mapsto> dlb(ingest_construct_destination_object_key P key1 \<mapsto> obj1)))"
  using assms by (simp add: ingest_handler_simps)

theorem ingest_collision_last_writer_wins_witness:
  "py_bind (ingest_lambda_handler aux_paths example_env
       (object_created_event ''contact-center-bucket'' (connect_recording_key aux_paths example_connect_key))
       example_context (recordings_store example_connect_key other_instance_key))
     (ingest_lambda_handler aux_paths example_env
       (object_created_event ''contact-center-bucket'' (connect_recording_key aux_paths other_instance_key))
       example_context) =
   Inr ((recordings_store example_connect_key other_instance_key)(''datalake-bucket'' \<mapsto> [datalake_recording_key aux_paths example_connect_key \<mapsto> 2])) \<and>
   py_bind (ingest_lambda_handler aux_paths example_env
       (object_created_event ''contact-center-bucket'' (connect_recording_key aux_paths other_instance_key))
       example_context (recordings_store example_connect_key other_instance_key))
     (ingest_lambda_handler aux_paths example_env
       (object_created_event ''contact-center-bucket'' (connect_recording_key aux_paths example_connect_key))
       example_context) =
   Inr ((recordings_store example_connect_key other_instance_key)(''datalake-bucket'' \<mapsto> [datalake_recording_key aux_paths example_connect_key \<mapsto> 1]))"
proof -
  let ?k1 = "connect_recording_key aux_paths example_connect_key"
    and ?k2 = "connect_recording_key aux_paths other_instance_key"
    and ?st = "recordings_store example_connect_key other_instance_key"
  have arn: "4 < length (py_split (invoked_function_arn example_context) '':'')"
    by (simp add: example_context_def py_split_def)
  have env: "example_env ''AWS_REGION'' = Some ''eu-central-1''"
    "example_env ENV_DATA_LAKE_DATA_BUCKET_NAME = Some ''datalake-bucket''"
    by (simp_all add: example_env_def ENV_DATA_LAKE_DATA_BUCKET_NAME_def)
  have ne: "?k1 \<noteq> ?k2"
    by (simp add: connect_recording_key_def other_instance_key_def example_connect_key_def)
  have cc: "?st ''contact-center-bucket'' = Some [?k1 \<mapsto> 1, ?k2 \<mapsto> 2]"
    and dl: "?st ''datalake-bucket'' = Some Map.empty"
    by (simp_all add: recordings_store_def)
  have o: "[?k1 \<mapsto> (1::nat), ?k2 \<mapsto> 2] ?k1 = Some 1" "[?k1 \<mapsto> (1::nat), ?k2 \<mapsto> 2] ?k2 = Some 2"
    using ne by simp_all
  have k1: "ingest_construct_destination_object_key aux_paths ?k1 = datalake_recording_key aux_paths example_connect_key"
    using ingest_key_connect [OF example_connect_key_shape example_marker_first] .
  have k2: "ingest_construct_destination_object_key aux_paths ?k2 = datalake_recording_key aux_paths example_connect_key"
    using ingest_key_connect [OF second_contact_key_wf(3,4)]
    by (simp add: datalake_recording_key_def iso_stem_def other_instance_key_def)
  show ?thesis
    using ingest_collision_last_writer_wins [OF arn env(1,2) _ cc o dl, of aux_paths] k1 k2
    by simp
qed


section \<open>The contact-center bucket\<close>

text \<open>
  C33. Neither function nor any job ever writes into the contact-center bucket, the bucket
  whose events trigger the ingestion: in a reachable state a step either leaves that
  bucket as it is or is Connect storing a recording. So no output of the pipeline
  re-triggers the ingestion.
\<close>

theorem pipeline_cc_bucket_only_connect:
  assumes D: "wf_deployment D" and init: "pipeline_init D s0" and reach: "(pipeline_step D)\<^sup>*\<^sup>* s0 s"
    and step: "pipeline_step D s t"
  shows "p_store t (dp_cc_bucket D) = p_store s (dp_cc_bucket D) \<or>
         (\<exists>k b obj. wf_connect_key (dp_paths D) k \<and> p_store s (dp_cc_bucket D) = Some b \<and>
            p_store t (dp_cc_bucket D) = Some (b(connect_recording_key (dp_paths D) k \<mapsto> obj)))"
proof -
  have inv: "pipeline_inv D s" using pipeline_reachable_inv [OF reach D init] .
  have ne: "dp_dl_bucket D \<noteq> dp_cc_bucket D" using D by (auto simp: wf_deployment_def)
  from step show ?thesis
  proof cases
    case (connect_stores_recording k b obj)
    then show ?thesis by auto
  next
    case (ingest_fires b key st')
    from ingest_step_effect [OF D inv ingest_fires(2,3,4)] obtain k dlb obj
      where "st' = (p_store s)(dp_dl_bucket D \<mapsto> dlb(datalake_recording_key (dp_paths D) k \<mapsto> obj))" .
    with ingest_fires(1) ne show ?thesis by simp
  next
    case (analytics_fires b key rnd js')
    then show ?thesis by simp
  next
    case (job_completes name j bk okey b result)
    from job_output_transcript [OF D inv job_completes(2-4)] have "bk = dp_dl_bucket D" by blast
    with job_completes(1) ne show ?thesis by simp
  qed
qed

theorem pipeline_cc_bucket_only_connect_witness:
  "p_store (example_state\<lparr>p_store := example_store(''datalake-bucket'' \<mapsto>
       [datalake_recording_key aux_paths example_connect_key \<mapsto> 1])\<rparr>) ''contact-center-bucket'' =
     p_store example_state ''contact-center-bucket'' \<or>
   (\<exists>k b obj. wf_connect_key aux_paths k \<and> p_store example_state ''contact-center-bucket'' = Some b \<and>
      p_store (example_state\<lparr>p_store := example_store(''datalake-bucket'' \<mapsto>
       [datalake_recording_key aux_paths example_connect_key \<mapsto> 1])\<rparr>) ''contact-center-bucket'' =
        Some (b(connect_recording_key aux_paths k \<mapsto> obj)))"
proof -
  have "p_store example_state (dp_cc_bucket example_deployment) =
      Some [connect_recording_key aux_paths example_connect_key \<mapsto> 1]"
    "p_store example_state (dp_dl_bucket example_deployment) = Some Map.empty"
    by (simp_all add: example_state_def example_store_def example_deployment_def)
  moreover have "4 < length (py_split (invoked_function_arn (dp_context example_deployment)) '':'')"
    by (simp add: example_deployment_def example_context_def py_split_def)
  moreover have "dp_env example_deployment ''AWS_REGION'' = Some ''eu-central-1''"
    by (simp add: example_deployment_def example_env_def)
  ultimately have "pipeline_step example_deployment example_state
      (example_state\<lparr>p_store := example_store(''datalake-bucket'' \<mapsto>
       [datalake_recording_key aux_paths example_connect_key \<mapsto> 1])\<rparr>)"
    using ingest_step_run [OF example_wf_deployment, of example_connect_key example_state] example_wf_connect_key
    by (simp add: example_deployment_def example_state_def)
  from pipeline_cc_bucket_only_connect [OF example_wf_deployment example_init rtranclp.rtrancl_refl this]
  show ?thesis by (simp add: example_deployment_def)
qed

end
