(* ===== verification/Cascade.thy ===== *)
theory Cascade
  imports Pipeline
begin

text \<open>
  The event cascade of the deployment, executably: every object written produces one
  Object Created event, delivered once to the function its bucket and key are routed to
  (the contact-center bucket to the ingestion function, the raw-recordings prefix of the
  data-lake bucket to the analytics function, anything else to none). A job the analytics
  function starts is completed at once by writing a result at its output location, which
  is an object again. \<open>cascade\<close> delivers pending events in order with fuel; the
  \<open>i\<close>-th delivery draws the random word \<open>rnd + i\<close>. A failed invocation changes nothing
  and writes nothing.
\<close>

section \<open>Delivering one event\<close>

text \<open>How Transcribe reads an output location \<open>s3://bucket/key\<close>.\<close>

definition s3_uri_parse :: "pystr \<Rightarrow> (pystr \<times> pystr) option" where
  "s3_uri_parse u =
     (if take 5 u = ''s3://'' \<and> CHR ''/'' \<in> set (drop 5 u)
      then Some (takeWhile (\<lambda>c. c \<noteq> CHR ''/'') (drop 5 u), tl (dropWhile (\<lambda>c. c \<noteq> CHR ''/'') (drop 5 u)))
      else None)"

text \<open>A job completing: its result is written at its output location, if that bucket exists.\<close>

definition job_output :: "'obj \<Rightarrow> call_analytics_job \<Rightarrow> 'obj s3_store \<Rightarrow> ('obj s3_store \<times> (pystr \<times> pystr)) option" where
  "job_output result j st =
     (case s3_uri_parse (OutputLocation j) of
        None \<Rightarrow> None
      | Some (bk, okey) \<Rightarrow>
          (case st bk of
             None \<Rightarrow> None
           | Some b \<Rightarrow> Some (st(bk \<mapsto> b(okey \<mapsto> result)), (bk, okey))))"

text \<open>Where the deployment routes the Object Created event of an object.\<close>

datatype target = To_ingest | To_analytics | To_none

fun route :: "deployment \<Rightarrow> pystr \<times> pystr \<Rightarrow> target" where
  "route D (bk, key) =
     (if bk = dp_cc_bucket D then To_ingest
      else if bk = dp_dl_bucket D \<and> prefix (PATH_CONNECT_CALLRECORDINGS_RAW (dp_paths D)) key then To_analytics
      else To_none)"

text \<open>
  One invocation of each function on the event of \<open>(bk, key)\<close>: the new state and the
  objects written. The ingestion function writes the copy; the analytics function starts
  the job, which completes by writing its result.
\<close>

definition invoke_ingest :: "deployment \<Rightarrow> 'obj pipeline \<Rightarrow> pystr \<Rightarrow> pystr \<Rightarrow>
    'obj pipeline \<times> (pystr \<times> pystr) list" where
  "invoke_ingest D s bk key =
     (case ingest_lambda_handler (dp_paths D) (dp_env D) (object_created_event bk key) (dp_context D) (p_store s) of
        Inl _ \<Rightarrow> (s, [])
      | Inr st' \<Rightarrow>
          (case dp_env D ENV_DATA_LAKE_DATA_BUCKET_NAME of
             None \<Rightarrow> (s, [])
           | Some d \<Rightarrow> (s\<lparr>p_store := st'\<rparr>, [(d, ingest_construct_destination_object_key (dp_paths D) key)])))"

definition invoke_analytics :: "deployment \<Rightarrow> 128 word \<Rightarrow> 'obj \<Rightarrow> 'obj pipeline \<Rightarrow> pystr \<Rightarrow> pystr \<Rightarrow>
    'obj pipeline \<times> (pystr \<times> pystr) list" where
  "invoke_analytics D rnd result s bk key =
     (case analytics_lambda_handler (dp_paths D) (dp_env D) (object_created_event bk key) rnd (p_jobs s) of
        Inl _ \<Rightarrow> (s, [])
      | Inr js' \<Rightarrow>
          (case js' (analytics_job_name rnd) of
             None \<Rightarrow> (s\<lparr>p_jobs := js'\<rparr>, [])
           | Some j \<Rightarrow>
               (case job_output result j (p_store s) of
                  None \<Rightarrow> (s\<lparr>p_jobs := js'\<rparr>, [])
                | Some (st', obj) \<Rightarrow> (s\<lparr>p_store := st', p_jobs := js'\<rparr>, [obj]))))"

fun deliver :: "deployment \<Rightarrow> 128 word \<Rightarrow> 'obj \<Rightarrow> 'obj pipeline \<Rightarrow> pystr \<times> pystr \<Rightarrow>
    'obj pipeline \<times> (pystr \<times> pystr) list" where
  "deliver D rnd result s (bk, key) =
     (case route D (bk, key) of
        To_ingest \<Rightarrow> invoke_ingest D s bk key
      | To_analytics \<Rightarrow> invoke_analytics D rnd result s bk key
      | To_none \<Rightarrow> (s, []))"

fun cascade :: "deployment \<Rightarrow> 128 word \<Rightarrow> 'obj \<Rightarrow> nat \<Rightarrow> nat \<Rightarrow> 'obj pipeline \<Rightarrow> (pystr \<times> pystr) list \<Rightarrow>
    'obj pipeline option" where
  "cascade D rnd result n i s [] = Some s"
| "cascade D rnd result 0 i s (e # es) = None"
| "cascade D rnd result (Suc n) i s (e # es) =
     (case deliver D (rnd + word_of_nat i) result s e of
        (s', new) \<Rightarrow> cascade D rnd result n (Suc i) s' (es @ new))"


text \<open>
  A measure on pending events for the termination argument: an event routed to the
  ingestion function weighs three, one routed to the analytics function two, any other one.
\<close>

definition event_rank :: "deployment \<Rightarrow> pystr \<times> pystr \<Rightarrow> nat" where
  "event_rank D e = (case route D e of To_ingest \<Rightarrow> 3 | To_analytics \<Rightarrow> 2 | To_none \<Rightarrow> 1)"

section \<open>Lemmas\<close>

lemma s3_uri_parse_roundtrip:
  assumes "CHR ''/'' \<notin> set b"
  shows "s3_uri_parse (''s3://'' @ b @ ''/'' @ k) = Some (b, k)"
  using assms by (simp add: s3_uri_parse_def takeWhile_append dropWhile_append)

lemma cascade_more_fuel:
  "cascade D rnd result n i s es = Some s' \<Longrightarrow> n \<le> m \<Longrightarrow> cascade D rnd result m i s es = Some s'"
proof (induction D rnd result n i s es arbitrary: m rule: cascade.induct)
  case (3 D rnd result n i s e es)
  then obtain m' where m: "m = Suc m'" and "n \<le> m'" by (cases m) auto
  with 3 show ?case by (auto split: prod.splits)
qed auto


text \<open>
  The deliveries a cascade consists of: the ingestion of any object of the contact-center
  bucket, the analytics run on any data-lake object under the raw prefix (its job completing
  at once), and an event no rule routes.
\<close>

lemma deliver_ingest_any:
  assumes D: "wf_deployment D"
    and cc: "p_store s (dp_cc_bucket D) = Some b" and obj: "b key = Some obj"
    and dl: "p_store s (dp_dl_bucket D) = Some dlb"
    and arn: "4 < length (py_split (invoked_function_arn (dp_context D)) '':'')"
    and region: "dp_env D ''AWS_REGION'' = Some region"
  shows "deliver D rnd result s (dp_cc_bucket D, key) =
    (s\<lparr>p_store := (p_store s)(dp_dl_bucket D \<mapsto> dlb(ingest_construct_destination_object_key (dp_paths D) key \<mapsto> obj))\<rparr>,
     [(dp_dl_bucket D, ingest_construct_destination_object_key (dp_paths D) key)])"
proof -
  have env: "dp_env D ENV_DATA_LAKE_DATA_BUCKET_NAME = Some (dp_dl_bucket D)"
    using D by (simp add: wf_deployment_def ENV_DATA_LAKE_DATA_BUCKET_NAME_def)
  have "ingest_lambda_handler (dp_paths D) (dp_env D) (object_created_event (dp_cc_bucket D) key)
      (dp_context D) (p_store s) =
    Inr ((p_store s)(dp_dl_bucket D \<mapsto> dlb(ingest_construct_destination_object_key (dp_paths D) key \<mapsto> obj)))"
    using env cc obj dl arn region by (simp add: ingest_handler_simps)
  with env show ?thesis by (simp add: invoke_ingest_def)
qed

lemma deliver_analytics_any:
  assumes D: "wf_deployment D" and raw: "prefix (PATH_CONNECT_CALLRECORDINGS_RAW (dp_paths D)) key"
    and dl: "p_store s (dp_dl_bucket D) = Some b"
    and role: "dp_env D ''DATA_ACCESS_ROLE_ARN'' = Some role"
    and fresh: "analytics_job_name rnd \<notin> dom (p_jobs s)"
  shows "deliver D rnd result s (dp_dl_bucket D, key) =
    (s\<lparr>p_store := (p_store s)(dp_dl_bucket D \<mapsto>
          b(analytics_construct_destination_object_key (dp_paths D) key \<mapsto> result)),
       p_jobs := (p_jobs s)(analytics_job_name rnd \<mapsto> analytics_job (analytics_job_name rnd)
              (''s3://'' @ dp_dl_bucket D @ ''/'' @ key)
              (''s3://'' @ dp_dl_bucket D @ ''/'' @ analytics_construct_destination_object_key (dp_paths D) key) role)\<rparr>,
     [(dp_dl_bucket D, analytics_construct_destination_object_key (dp_paths D) key)])"
proof -
  let ?a = "analytics_construct_destination_object_key (dp_paths D) key"
  let ?j = "analytics_job (analytics_job_name rnd) (''s3://'' @ dp_dl_bucket D @ ''/'' @ key)
              (''s3://'' @ dp_dl_bucket D @ ''/'' @ ?a) role"
  have ne: "dp_dl_bucket D \<noteq> dp_cc_bucket D" and sl: "CHR ''/'' \<notin> set (dp_dl_bucket D)"
    using D by (auto simp: wf_deployment_def)
  have run: "analytics_lambda_handler (dp_paths D) (dp_env D) (object_created_event (dp_dl_bucket D) key) rnd
      (p_jobs s) = Inr ((p_jobs s)(analytics_job_name rnd \<mapsto> ?j))"
    using D role fresh
    by (simp add: analytics_lambda_handler_Inr wf_deployment_def analytics_ENV_DATA_LAKE_DATA_BUCKET_NAME_def
        ENV_DATA_ACCESS_ROLE_ARN_def)
  have out: "job_output result ?j (p_store s) =
      Some ((p_store s)(dp_dl_bucket D \<mapsto> b(?a \<mapsto> result)), (dp_dl_bucket D, ?a))"
    using dl unfolding job_output_def analytics_job_def call_analytics_job.select_convs
      s3_uri_parse_roundtrip [OF sl] by simp
  show ?thesis
    using ne raw run out by (simp add: invoke_analytics_def)
qed

lemma deliver_recording:
  assumes D: "wf_deployment D" and k: "wf_connect_key (dp_paths D) k"
    and cc: "p_store s (dp_cc_bucket D) = Some b" and obj: "b (connect_recording_key (dp_paths D) k) = Some obj"
    and dl: "p_store s (dp_dl_bucket D) = Some dlb"
    and arn: "4 < length (py_split (invoked_function_arn (dp_context D)) '':'')"
    and region: "dp_env D ''AWS_REGION'' = Some region"
  shows "deliver D rnd result s (dp_cc_bucket D, connect_recording_key (dp_paths D) k) =
    (s\<lparr>p_store := (p_store s)(dp_dl_bucket D \<mapsto> dlb(datalake_recording_key (dp_paths D) k \<mapsto> obj))\<rparr>,
     [(dp_dl_bucket D, datalake_recording_key (dp_paths D) k)])"
  using deliver_ingest_any [OF D cc obj dl arn region] k by (simp add: ingest_key_connect wf_connect_key_def)

lemma deliver_copy:
  assumes D: "wf_deployment D" and k: "wf_connect_key (dp_paths D) k"
    and dl: "p_store s (dp_dl_bucket D) = Some b"
    and role: "dp_env D ''DATA_ACCESS_ROLE_ARN'' = Some role"
    and fresh: "analytics_job_name rnd \<notin> dom (p_jobs s)"
  shows "deliver D rnd result s (dp_dl_bucket D, datalake_recording_key (dp_paths D) k) =
    (s\<lparr>p_store := (p_store s)(dp_dl_bucket D \<mapsto> b(transcript_key (dp_paths D) k \<mapsto> result)),
       p_jobs := (p_jobs s)(analytics_job_name rnd \<mapsto> analytics_job (analytics_job_name rnd)
              (''s3://'' @ dp_dl_bucket D @ ''/'' @ datalake_recording_key (dp_paths D) k)
              (''s3://'' @ dp_dl_bucket D @ ''/'' @ transcript_key (dp_paths D) k) role)\<rparr>,
     [(dp_dl_bucket D, transcript_key (dp_paths D) k)])"
proof -
  have "prefix (PATH_CONNECT_CALLRECORDINGS_RAW (dp_paths D)) (datalake_recording_key (dp_paths D) k)"
    by (simp add: datalake_recording_key_def)
  from deliver_analytics_any [OF D this dl role fresh] show ?thesis
    using D k by (simp add: analytics_key_datalake wf_deployment_def wf_connect_key_def)
qed

lemma deliver_transcript:
  assumes D: "wf_deployment D"
  shows "deliver D rnd result s (dp_dl_bucket D, transcript_key (dp_paths D) k) = (s, [])"
proof -
  have "dp_dl_bucket D \<noteq> dp_cc_bucket D" using D by (auto simp: wf_deployment_def)
  moreover have "\<not> prefix (PATH_CONNECT_CALLRECORDINGS_RAW (dp_paths D)) (transcript_key (dp_paths D) k)"
    using D raw_not_transcript unfolding wf_deployment_def transcript_key_def by blast
  ultimately show ?thesis by simp
qed


section \<open>Every cascade terminates\<close>

text \<open>
  On any deployment with a complete configuration, a delivery writes events that weigh less
  in total than the event delivered: the ingestion function writes at most one object, into the
  data lake; the analytics function's job writes at most one, under the transcription prefix,
  which no rule routes. So pending events always drain, whatever their keys.
\<close>

lemma analytics_key_transcription:
  assumes D: "wf_deployment D" and raw: "prefix (PATH_CONNECT_CALLRECORDINGS_RAW (dp_paths D)) key"
  shows "\<not> prefix (PATH_CONNECT_CALLRECORDINGS_RAW (dp_paths D))
           (analytics_construct_destination_object_key (dp_paths D) key)"
proof -
  from raw obtain z where z: "key = PATH_CONNECT_CALLRECORDINGS_RAW (dp_paths D) @ z" by (auto simp: prefix_def)
  have "PATH_CONNECT_CALLRECORDINGS_RAW (dp_paths D) \<noteq> []"
    and "CHR ''.'' \<notin> set (PATH_TRANSCRIBE_CALLANALYTICS_RAW (dp_paths D))"
    using D by (auto simp: wf_deployment_def wf_paths_def)
  moreover have "parallel (PATH_CONNECT_CALLRECORDINGS_RAW (dp_paths D)) (PATH_TRANSCRIBE_CALLANALYTICS_RAW (dp_paths D))"
    using D by (simp add: wf_deployment_def)
  ultimately show ?thesis
    using analytics_key_raw_start z raw_not_transcript by simp
qed

lemma invoke_analytics_new:
  assumes D: "wf_deployment D"
    and run: "invoke_analytics D rnd result s (dp_dl_bucket D) key = (s', new)"
  shows "new = [] \<or> new = [(dp_dl_bucket D, analytics_construct_destination_object_key (dp_paths D) key)]"
proof (cases "analytics_lambda_handler (dp_paths D) (dp_env D) (object_created_event (dp_dl_bucket D) key) rnd (p_jobs s)")
  case (Inl err)
  with run show ?thesis by (simp add: invoke_analytics_def)
next
  case (Inr js')
  let ?j = "\<lambda>role. analytics_job (analytics_job_name rnd) (''s3://'' @ dp_dl_bucket D @ ''/'' @ key)
              (''s3://'' @ dp_dl_bucket D @ ''/'' @ analytics_construct_destination_object_key (dp_paths D) key) role"
  from Inr D have "\<exists>role. js' (analytics_job_name rnd) = Some (?j role)"
    by (auto simp: analytics_lambda_handler_Inr wf_deployment_def analytics_ENV_DATA_LAKE_DATA_BUCKET_NAME_def)
  then obtain role where js': "js' (analytics_job_name rnd) = Some (?j role)" ..
  have sl: "CHR ''/'' \<notin> set (dp_dl_bucket D)" using D by (simp add: wf_deployment_def)
  have "job_output result (?j role) (p_store s) = None \<or>
      (\<exists>st'. job_output result (?j role) (p_store s) =
         Some (st', (dp_dl_bucket D, analytics_construct_destination_object_key (dp_paths D) key)))"
    unfolding job_output_def analytics_job_def call_analytics_job.select_convs s3_uri_parse_roundtrip [OF sl]
    by (simp split: option.splits)
  with Inr js' run show ?thesis by (auto simp: invoke_analytics_def)
qed

lemma event_rank_pos: "0 < event_rank D e"
  by (simp add: event_rank_def split: target.splits)

lemma deliver_rank:
  assumes D: "wf_deployment D" and d: "deliver D rnd result s (bk, key) = (s', new)"
  shows "sum_list (map (event_rank D) new) < event_rank D (bk, key)"
proof (cases "route D (bk, key)")
  case To_ingest
  have "dp_dl_bucket D \<noteq> dp_cc_bucket D" using D by (auto simp: wf_deployment_def)
  then have "event_rank D (dp_dl_bucket D, k) < 3" for k
    by (simp add: event_rank_def)
  with To_ingest d D show ?thesis
    by (auto simp: invoke_ingest_def event_rank_def wf_deployment_def ENV_DATA_LAKE_DATA_BUCKET_NAME_def
        split: sum.splits option.splits)
next
  case To_analytics
  then have bk: "bk = dp_dl_bucket D" and raw: "prefix (PATH_CONNECT_CALLRECORDINGS_RAW (dp_paths D)) key"
    by (auto split: if_splits)
  have "dp_dl_bucket D \<noteq> dp_cc_bucket D" using D by (auto simp: wf_deployment_def)
  then have "event_rank D (dp_dl_bucket D, analytics_construct_destination_object_key (dp_paths D) key) = 1"
    using analytics_key_transcription [OF D raw] by (simp add: event_rank_def)
  moreover have "invoke_analytics D rnd result s (dp_dl_bucket D) key = (s', new)"
    using d To_analytics bk by simp
  ultimately show ?thesis
    using invoke_analytics_new [OF D] To_analytics by (fastforce simp: event_rank_def)
next
  case To_none
  with d show ?thesis by (simp add: event_rank_def)
qed

lemma cascade_terminates_rank:
  assumes D: "wf_deployment D" and fuel: "sum_list (map (event_rank D) es) \<le> n"
  shows "cascade D rnd result n i s es \<noteq> None"
  using D fuel
proof (induction D rnd result n i s es rule: cascade.induct)
  case (2 D rnd result i s e es)
  with event_rank_pos [of D e] show ?case by simp
next
  case (3 D' rnd result n i s e es)
  obtain s' new where d: "deliver D' (rnd + word_of_nat i) result s e = (s', new)"
    by (cases "deliver D' (rnd + word_of_nat i) result s e")
  have "sum_list (map (event_rank D') new) < event_rank D' e"
    using deliver_rank [OF "3.prems"(1)] d by (cases e) simp
  with "3.prems"(2) have "sum_list (map (event_rank D') (es @ new)) \<le> n" by simp
  with "3.IH" [OF d [symmetric] "3.prems"(1)] d show ?case by simp
qed simp


section \<open>The cascade runs the pipeline\<close>















section \<open>The cascade of one recording\<close>

lemma deliver_unrouted: "route D e = To_none \<Longrightarrow> deliver D rnd result s e = (s, [])"
  by (cases e) simp

lemma cascade_any_object:
  assumes D: "wf_deployment D"
    and cc: "p_store s (dp_cc_bucket D) = Some b" and obj: "b key = Some obj"
    and dl: "p_store s (dp_dl_bucket D) = Some dlb"
    and arn: "4 < length (py_split (invoked_function_arn (dp_context D)) '':'')"
    and region: "dp_env D ''AWS_REGION'' = Some region"
    and role: "dp_env D ''DATA_ACCESS_ROLE_ARN'' = Some role"
    and fresh: "analytics_job_name (rnd + 1) \<notin> dom (p_jobs s)"
  shows "cascade D rnd result 3 0 s [(dp_cc_bucket D, key)] =
    Some (s\<lparr>p_store := (p_store s)(dp_dl_bucket D \<mapsto>
               (dlb(ingest_construct_destination_object_key (dp_paths D) key \<mapsto> obj))
                 (analytics_construct_destination_object_key (dp_paths D)
                    (ingest_construct_destination_object_key (dp_paths D) key) \<mapsto> result)),
            p_jobs := (p_jobs s)(analytics_job_name (rnd + 1) \<mapsto> analytics_job (analytics_job_name (rnd + 1))
              (''s3://'' @ dp_dl_bucket D @ ''/'' @ ingest_construct_destination_object_key (dp_paths D) key)
              (''s3://'' @ dp_dl_bucket D @ ''/'' @ analytics_construct_destination_object_key (dp_paths D)
                 (ingest_construct_destination_object_key (dp_paths D) key)) role)\<rparr>)"
proof -
  let ?dl = "dp_dl_bucket D" and ?ik = "ingest_construct_destination_object_key (dp_paths D) key"
  let ?ak = "analytics_construct_destination_object_key (dp_paths D) ?ik"
  define s1 where "s1 = s\<lparr>p_store := (p_store s)(?dl \<mapsto> dlb(?ik \<mapsto> obj))\<rparr>"
  define s2 where "s2 = s1\<lparr>p_store := (p_store s1)(?dl \<mapsto> (dlb(?ik \<mapsto> obj))(?ak \<mapsto> result)),
       p_jobs := (p_jobs s1)(analytics_job_name (rnd + 1) \<mapsto> analytics_job (analytics_job_name (rnd + 1))
              (''s3://'' @ ?dl @ ''/'' @ ?ik) (''s3://'' @ ?dl @ ''/'' @ ?ak) role)\<rparr>"
  have raw: "prefix (PATH_CONNECT_CALLRECORDINGS_RAW (dp_paths D)) ?ik"
    using ingest_key_shape [of "dp_paths D" key] by (auto simp: prefix_def)
  have 1: "deliver D (rnd + word_of_nat 0) result s (dp_cc_bucket D, key) = (s1, [(?dl, ?ik)])"
    unfolding s1_def by (rule deliver_ingest_any [OF D cc obj dl arn region])
  have dl1: "p_store s1 ?dl = Some (dlb(?ik \<mapsto> obj))" by (simp add: s1_def)
  have fresh1: "analytics_job_name (rnd + 1) \<notin> dom (p_jobs s1)" using fresh by (simp add: s1_def)
  have 2: "deliver D (rnd + word_of_nat 1) result s1 (?dl, ?ik) = (s2, [(?dl, ?ak)])"
    unfolding s2_def of_nat_1 by (rule deliver_analytics_any [OF D raw dl1 role fresh1])
  have "route D (?dl, ?ak) = To_none"
    using D analytics_key_transcription [OF D raw] by (auto simp: wf_deployment_def)
  then have 3: "deliver D (rnd + word_of_nat 2) result s2 (?dl, ?ak) = (s2, [])"
    by (rule deliver_unrouted)
  have "cascade D rnd result 3 0 s [(dp_cc_bucket D, key)] = Some s2"
    using 1 2 3 by (simp add: eval_nat_numeral del: deliver.simps)
  then show ?thesis by (simp add: s1_def s2_def)
qed

lemma cascade_recording:
  assumes D: "wf_deployment D" and k: "wf_connect_key (dp_paths D) k"
    and cc: "p_store s (dp_cc_bucket D) = Some b" and obj: "b (connect_recording_key (dp_paths D) k) = Some obj"
    and dl: "p_store s (dp_dl_bucket D) = Some dlb"
    and arn: "4 < length (py_split (invoked_function_arn (dp_context D)) '':'')"
    and region: "dp_env D ''AWS_REGION'' = Some region"
    and role: "dp_env D ''DATA_ACCESS_ROLE_ARN'' = Some role"
    and fresh: "analytics_job_name (rnd + 1) \<notin> dom (p_jobs s)"
  shows "cascade D rnd result 3 0 s [(dp_cc_bucket D, connect_recording_key (dp_paths D) k)] =
    Some (s\<lparr>p_store := (p_store s)(dp_dl_bucket D \<mapsto>
               (dlb(datalake_recording_key (dp_paths D) k \<mapsto> obj))(transcript_key (dp_paths D) k \<mapsto> result)),
            p_jobs := (p_jobs s)(analytics_job_name (rnd + 1) \<mapsto> analytics_job (analytics_job_name (rnd + 1))
              (''s3://'' @ dp_dl_bucket D @ ''/'' @ datalake_recording_key (dp_paths D) k)
              (''s3://'' @ dp_dl_bucket D @ ''/'' @ transcript_key (dp_paths D) k) role)\<rparr>)"
  using cascade_any_object [OF D cc obj dl arn region role fresh] D k
  by (simp add: ingest_key_connect analytics_key_datalake wf_connect_key_def wf_deployment_def)



section \<open>Properties of the cascade\<close>

text \<open>
  C24. The cascade a recording starts terminates: in a reachable state with a complete
  configuration, the Object Created event of an object of the contact-center bucket leads,
  with any fuel of at least three deliveries, to a state with no event pending; it holds the
  data-lake copy, the transcript and the job. The transcript's own event is routed to no
  function, so the cascade does not feed back into itself.
\<close>

theorem cascade_recording_terminates:
  assumes D: "wf_deployment D" and init: "pipeline_init D s0" and reach: "(pipeline_step D)\<^sup>*\<^sup>* s0 s"
    and cc: "p_store s (dp_cc_bucket D) = Some b" and rec: "b key = Some obj"
    and arn: "4 < length (py_split (invoked_function_arn (dp_context D)) '':'')"
    and region: "dp_env D ''AWS_REGION'' = Some region"
    and role: "dp_env D ''DATA_ACCESS_ROLE_ARN'' = Some role"
    and fresh: "analytics_job_name (rnd + 1) \<notin> dom (p_jobs s)"
    and fuel: "3 \<le> n"
  shows "\<exists>k s'. key = connect_recording_key (dp_paths D) k \<and>
           cascade D rnd result n 0 s [(dp_cc_bucket D, key)] = Some s' \<and>
           p_jobs s' (analytics_job_name (rnd + 1)) = Some (analytics_job (analytics_job_name (rnd + 1))
             (''s3://'' @ dp_dl_bucket D @ ''/'' @ datalake_recording_key (dp_paths D) k)
             (''s3://'' @ dp_dl_bucket D @ ''/'' @ transcript_key (dp_paths D) k) role) \<and>
           (\<exists>b'. p_store s' (dp_dl_bucket D) = Some b' \<and>
              b' (datalake_recording_key (dp_paths D) k) = Some obj \<and>
              b' (transcript_key (dp_paths D) k) = Some result)"
proof -
  have inv: "pipeline_inv D s" using pipeline_reachable_inv [OF reach D init] .
  from inv cc rec obtain k where k: "wf_connect_key (dp_paths D) k"
    and kk: "key = connect_recording_key (dp_paths D) k"
    by (auto simp: pipeline_inv_def cc_holds_recordings_def)
  from inv obtain dlb where dlb: "p_store s (dp_dl_bucket D) = Some dlb" by (auto simp: pipeline_inv_def)
  have "datalake_recording_key (dp_paths D) k \<noteq> transcript_key (dp_paths D) k"
    using D prefixes_distinct unfolding wf_deployment_def datalake_recording_key_def transcript_key_def
    by blast
  moreover have "cascade D rnd result n 0 s [(dp_cc_bucket D, key)] =
    Some (s\<lparr>p_store := (p_store s)(dp_dl_bucket D \<mapsto>
               (dlb(datalake_recording_key (dp_paths D) k \<mapsto> obj))(transcript_key (dp_paths D) k \<mapsto> result)),
            p_jobs := (p_jobs s)(analytics_job_name (rnd + 1) \<mapsto> analytics_job (analytics_job_name (rnd + 1))
              (''s3://'' @ dp_dl_bucket D @ ''/'' @ datalake_recording_key (dp_paths D) k)
              (''s3://'' @ dp_dl_bucket D @ ''/'' @ transcript_key (dp_paths D) k) role)\<rparr>)"
    using cascade_more_fuel [OF cascade_recording [OF D k cc _ dlb arn region role fresh] fuel] rec kk
    by simp
  ultimately show ?thesis using kk by auto
qed

theorem cascade_recording_terminates_witness:
  "\<exists>k s'. connect_recording_key aux_paths example_connect_key = connect_recording_key aux_paths k \<and>
     cascade example_deployment example_rnd (2::nat) 5 0 example_state
       [(''contact-center-bucket'', connect_recording_key aux_paths example_connect_key)] = Some s' \<and>
     p_jobs s' (analytics_job_name (example_rnd + 1)) = Some (analytics_job (analytics_job_name (example_rnd + 1))
       (''s3://datalake-bucket/'' @ datalake_recording_key aux_paths k)
       (''s3://datalake-bucket/'' @ transcript_key aux_paths k)
       ''arn:aws:iam::123456789012:role/transcribe-data-access'') \<and>
     (\<exists>b'. p_store s' ''datalake-bucket'' = Some b' \<and>
        b' (datalake_recording_key aux_paths k) = Some 1 \<and> b' (transcript_key aux_paths k) = Some 2)"
proof -
  have "p_store example_state (dp_cc_bucket example_deployment) =
      Some [connect_recording_key aux_paths example_connect_key \<mapsto> 1]"
    by (simp add: example_state_def example_store_def example_deployment_def)
  moreover have "4 < length (py_split (invoked_function_arn (dp_context example_deployment)) '':'')"
    by (simp add: example_deployment_def example_context_def py_split_def)
  moreover have "dp_env example_deployment ''AWS_REGION'' = Some ''eu-central-1''"
    "dp_env example_deployment ''DATA_ACCESS_ROLE_ARN'' = Some ''arn:aws:iam::123456789012:role/transcribe-data-access''"
    by (simp_all add: example_deployment_def example_env_def)
  moreover have "analytics_job_name (example_rnd + 1) \<notin> dom (p_jobs example_state)"
    by (simp add: example_state_def)
  ultimately show ?thesis
    using cascade_recording_terminates [OF example_wf_deployment example_init rtranclp.rtrancl_refl,
        of "[connect_recording_key aux_paths example_connect_key \<mapsto> 1]"
           "connect_recording_key aux_paths example_connect_key" 1 _ _ example_rnd 5 2]
    by (simp add: example_deployment_def)
qed



text \<open>
  C39. The cascade started by any object of the contact-center bucket terminates: with a
  complete configuration and any fuel of at least three deliveries the cascade returns a
  state, whatever the key, the store and the jobs (no invariant and no well-formed key is
  needed; a key that is not a recording ends in an error of one of the functions or in an
  event no rule routes).
\<close>

theorem cascade_any_object_terminates:
  assumes D: "wf_deployment D" and fuel: "3 \<le> n"
  shows "cascade D rnd result n i s [(dp_cc_bucket D, key)] \<noteq> None"
proof -
  have "event_rank D (dp_cc_bucket D, key) = 3" by (simp add: event_rank_def)
  with fuel show ?thesis using cascade_terminates_rank [OF D, of "[(dp_cc_bucket D, key)]" n] by simp
qed

theorem cascade_any_object_terminates_witness:
  "cascade example_deployment example_rnd (2::nat) 3 0 example_state
     [(''contact-center-bucket'', ''connect/example-instance/ChatTranscripts/2022/06/01/t.json'')] \<noteq> None"
  using cascade_any_object_terminates [OF example_wf_deployment, of 3]
  by (simp add: example_deployment_def)

end
