(* ===== verification/KeyFormat.thy ===== *)
theory KeyFormat
  imports Ingest "HOL-Library.Monad_Syntax"
begin

text \<open>
  The validating key parser the specification asks for (sections 7 and 9): instead of
  slicing at fixed offsets after the first \<open>CallRecordings/\<close>, read the Connect key field by
  field, checking each width and character class, and report a typed \<open>KeyFormatError\<close> on
  anything else. It is a reference, not code of \<open>src/\<close>: it parses exactly the keys
  \<open>connect_recording_key\<close> prints, and on every key it accepts the code's
  \<open>construct_destination_object_key\<close> gives the same result.
\<close>

section \<open>Parsers\<close>

text \<open>A parser reads a prefix of its input and returns what it read and the rest.\<close>

type_synonym 'a key_parser = "pystr \<Rightarrow> ('a \<times> pystr) option"

fun lit :: "pystr \<Rightarrow> unit key_parser" where
  "lit [] s = Some ((), s)"
| "lit (x # xs) [] = None"
| "lit (x # xs) (y # ys) = (if x \<noteq> y then None else lit xs ys)"

definition field :: "nat \<Rightarrow> pystr \<Rightarrow> pystr key_parser" where
  "field n cs s = (if n \<le> length s \<and> set (take n s) \<subseteq> set cs then Some (take n s, drop n s) else None)"

text \<open>
  What follows the marker: \<open>YYYY/MM/DD/\<langle>contact id\<rangle>_YYYYMMDDThh:mm_UTC.wav\<close>, 70
  characters; the result has an empty prefix.
\<close>

definition parse_connect_suffix :: "pystr \<Rightarrow> connect_key option" where
  "parse_connect_suffix t0 = do {
     (y, t) \<leftarrow> field 4 digits t0; (_, t) \<leftarrow> lit ''/'' t;
     (mo, t) \<leftarrow> field 2 digits t; (_, t) \<leftarrow> lit ''/'' t;
     (d, t) \<leftarrow> field 2 digits t; (_, t) \<leftarrow> lit ''/'' t;
     (cid, t) \<leftarrow> field 36 uuid_chars t; (_, t) \<leftarrow> lit ''_'' t;
     (ty, t) \<leftarrow> field 4 digits t; (tmo, t) \<leftarrow> field 2 digits t; (td, t) \<leftarrow> field 2 digits t;
     (_, t) \<leftarrow> lit ''T'' t; (h, t) \<leftarrow> field 2 digits t; (_, t) \<leftarrow> lit '':'' t;
     (mi, t) \<leftarrow> field 2 digits t; (_, t) \<leftarrow> lit ''_UTC.wav'' t;
     if t = [] then Some \<lparr>ck_prefix = [], ck_year = y, ck_month = mo, ck_day = d, ck_contact_id = cid,
         ck_ts_year = ty, ck_ts_month = tmo, ck_ts_day = td, ck_ts_hour = h, ck_ts_minute = mi\<rparr>
     else None
   }"

text \<open>What \<open>connect_recording_key\<close> writes after the marker.\<close>

definition connect_suffix :: "connect_key \<Rightarrow> pystr" where
  "connect_suffix k =
     ck_year k @ ''/'' @ ck_month k @ ''/'' @ ck_day k @ ''/'' @ ck_contact_id k @ ''_'' @
     ck_ts_year k @ ck_ts_month k @ ck_ts_day k @ ''T'' @ ck_ts_hour k @ '':'' @
     ck_ts_minute k @ ''_UTC.wav''"

text \<open>
  A whole key: the last 70 characters are the suffix, what precedes them ends with the
  marker, and the marker does not occur earlier (it is found where the format puts it).
\<close>

definition parse_connect_key :: "paths \<Rightarrow> pystr \<Rightarrow> connect_key option" where
  "parse_connect_key P key =
     (let m = PATH_CONNECT_CALLRECORDINGS P; n = length key
      in if n < 70 + length m then None
         else let pre = take (n - 70 - length m) key
              in if m \<noteq> [] \<and> take (n - 70) key = pre @ m \<and> \<not> sublist m (pre @ butlast m)
                 then map_option (\<lambda>k. k\<lparr>ck_prefix := pre\<rparr>) (parse_connect_suffix (drop (n - 70) key))
                 else None)"

text \<open>The key mapping with the validation the specification asks for.\<close>

datatype key_format_error = KeyFormatError pystr

definition validated_destination_object_key :: "paths \<Rightarrow> pystr \<Rightarrow> key_format_error + pystr" where
  "validated_destination_object_key P key =
     (case parse_connect_key P key of
        None \<Rightarrow> Inl (KeyFormatError key)
      | Some k \<Rightarrow> Inr (datalake_recording_key P k))"

section \<open>Lemmas on the parsers\<close>

lemma lit_Some: "lit x s = Some (u, r) \<Longrightarrow> s = x @ r"
  by (induction x s rule: lit.induct) (auto split: if_splits)

lemma lit_append [simp]: "lit x (x @ r) = Some ((), r)"
  by (induction x) auto

lemma field_Some: "field n cs s = Some (x, r) \<Longrightarrow> s = x @ r \<and> length x = n \<and> set x \<subseteq> set cs"
  by (auto simp: field_def split: if_splits)

lemma field_append: "length x = n \<Longrightarrow> set x \<subseteq> set cs \<Longrightarrow> field n cs (x @ r) = Some (x, r)"
  by (simp add: field_def)


lemma connect_recording_key_suffix:
  "connect_recording_key P k = ck_prefix k @ PATH_CONNECT_CALLRECORDINGS P @ connect_suffix k"
  by (simp add: connect_recording_key_def connect_suffix_def)

lemma length_connect_suffix: "connect_key_shape k \<Longrightarrow> length (connect_suffix k) = 70"
  by (simp add: connect_suffix_def connect_key_shape_def)

lemma parse_connect_suffix_print:
  assumes "connect_key_shape k" and "connect_key_chars k"
  shows "parse_connect_suffix (connect_suffix k) = Some (k\<lparr>ck_prefix := []\<rparr>)"
  using assms
  by (cases k) (simp add: parse_connect_suffix_def connect_suffix_def connect_key_shape_def
      connect_key_chars_def field_append)

lemma parse_connect_suffix_Some:
  assumes "parse_connect_suffix t = Some k"
  shows "ck_prefix k = [] \<and> t = connect_suffix k \<and> connect_key_shape k \<and> connect_key_chars k"
  using assms
  by (auto simp: parse_connect_suffix_def connect_suffix_def connect_key_shape_def connect_key_chars_def
      bind_eq_Some_conv split: if_splits dest!: field_Some lit_Some)


section \<open>The parser reads exactly what Connect writes\<close>

lemma parse_connect_key_print:
  assumes "wf_connect_key P k"
  shows "parse_connect_key P (connect_recording_key P k) = Some k"
proof -
  let ?m = "PATH_CONNECT_CALLRECORDINGS P" and ?pre = "ck_prefix k"
  from assms have shape: "connect_key_shape k" and chars: "connect_key_chars k"
    and m: "?m \<noteq> []" and first: "\<not> sublist ?m (?pre @ butlast ?m)"
    by (auto simp: wf_connect_key_def marker_first_def)
  have len: "length (connect_suffix k) = 70" using shape by (rule length_connect_suffix)
  show ?thesis
    unfolding parse_connect_key_def Let_def connect_recording_key_suffix
    using len m first parse_connect_suffix_print [OF shape chars] by simp
qed

lemma parse_connect_key_Some:
  assumes "parse_connect_key P key = Some k"
  shows "wf_connect_key P k \<and> connect_recording_key P k = key"
proof -
  let ?m = "PATH_CONNECT_CALLRECORDINGS P" and ?n = "length key"
  let ?pre = "take (?n - 70 - length ?m) key"
  from assms obtain k0 where n: "\<not> ?n < 70 + length ?m" and m: "?m \<noteq> []"
    and pm: "take (?n - 70) key = ?pre @ ?m" and first: "\<not> sublist ?m (?pre @ butlast ?m)"
    and k0: "parse_connect_suffix (drop (?n - 70) key) = Some k0" and k: "k = k0\<lparr>ck_prefix := ?pre\<rparr>"
    by (auto simp: parse_connect_key_def Let_def split: if_splits)
  from parse_connect_suffix_Some [OF k0] have t: "drop (?n - 70) key = connect_suffix k0"
    and shape: "connect_key_shape k0" and chars: "connect_key_chars k0" by auto
  have "key = ?pre @ ?m @ connect_suffix k0"
    using append_take_drop_id [of "?n - 70" key] pm t by simp
  moreover have "connect_suffix k = connect_suffix k0" using k by (simp add: connect_suffix_def)
  ultimately have "connect_recording_key P k = key"
    using k by (simp add: connect_recording_key_suffix)
  moreover have "wf_connect_key P k"
    using shape chars m first k
    by (simp add: wf_connect_key_def connect_key_shape_def connect_key_chars_def marker_first_def)
  ultimately show ?thesis by simp
qed

lemma parse_connect_key_iff:
  "parse_connect_key P key = Some k \<longleftrightarrow> wf_connect_key P k \<and> connect_recording_key P k = key"
  using parse_connect_key_Some parse_connect_key_print by blast

section \<open>Properties\<close>

text \<open>
  C34. The validating mapping the specification asks for is the code's
  \<open>construct_destination_object_key\<close> guarded by the key format: on a well-formed Connect
  recording key it returns exactly what the code computes, on every other key it raises
  \<open>KeyFormatError\<close>, where the code returns a key (compare C6).
\<close>

theorem validated_key_is_guarded_code:
  "validated_destination_object_key P key =
     (if \<exists>k. wf_connect_key P k \<and> connect_recording_key P k = key
      then Inr (ingest_construct_destination_object_key P key)
      else Inl (KeyFormatError key))"
proof (cases "parse_connect_key P key")
  case None
  then have "\<not> (\<exists>k. wf_connect_key P k \<and> connect_recording_key P k = key)"
    using parse_connect_key_print by fastforce
  with None show ?thesis by (simp add: validated_destination_object_key_def)
next
  case (Some k)
  then have "wf_connect_key P k" and "connect_recording_key P k = key" by (auto simp: parse_connect_key_iff)
  with Some show ?thesis
    by (auto simp: validated_destination_object_key_def wf_connect_key_def ingest_key_connect)
qed

end
