(* ===== verification/Spec2Isabelle.thy ===== *)
theory Spec2Isabelle
  imports Cascade KeyFormat
begin

text \<open>
  \<^bold>\<open>A verification library for the call-recording pipeline of speechai-workshop.\<close>

  \<^bold>\<open>The program.\<close> Two AWS Lambda functions, each run once per EventBridge event:
  \<^item> \<open>src/resources/code/2-datalake-ingestion-service/src/ingest_call_recording.py\<close>:
    when Amazon Connect stores a call recording in the contact-center bucket,
    \<open>lambda_handler\<close> reads the bucket and key from the event, maps the key with
    \<open>construct_destination_object_key\<close> (the marker \<open>CallRecordings/\<close> is located, the
    timestamp after the 36-character contact id is rewritten by fixed offsets 52/54/62 into
    ISO form, the prefix \<open>call-recordings-raw/\<close> is put in front) and copies the object into
    the data-lake bucket named by the environment;
  \<^item> \<open>src/resources/code/3-call-transcription-service/src/run_call_analytics.py\<close>:
    when the copy lands in the data lake, \<open>lambda_handler\<close> maps its key with its own
    \<open>construct_destination_object_key\<close> (two \<open>str.replace\<close> calls: raw-recordings prefix to
    transcription prefix, \<open>.wav\<close> to \<open>-call-analytics-result.json\<close>) and
    \<open>run_call_analytics\<close> starts an Amazon Transcribe call-analytics job with a fresh
    \<open>job-\<langle>uuid4 hex\<rangle>\<close> name and a fixed two-channel role mapping.
  The two functions share no state; they are connected only by the key convention the
  first produces and the second consumes.

  \<^bold>\<open>The theories.\<close>
  \<^item> \<open>Prelude\<close>: the Python semantics the handlers use: exceptions as values
    (\<open>py_error\<close>, results \<open>py_error + 'a\<close> sequenced by \<open>py_bind\<close>), \<open>os.environ\<close>,
    \<open>str.find\<close> (\<open>py_find\<close>), slicing (\<open>py_slice\<close>), \<open>str.replace\<close> (\<open>py_replace\<close>),
    \<open>str.split\<close>/\<open>str.join\<close>, list indexing; with the scanning lemmas the components share
    (first occurrence, replacement where the pattern occurs once, split/join).
  \<^item> \<open>Paths\<close>: the module \<open>aux_paths\<close> (not under \<open>src/\<close>, modelled from the
    specification) as a record \<open>paths\<close> and its value \<open>aux_paths\<close>; the abstract formats of
    the Connect recording key, the data-lake key and the transcript key
    (\<open>connect_recording_key\<close>, \<open>datalake_recording_key\<close>, \<open>transcript_key\<close>) and the
    well-formedness conditions the handlers' fixed offsets and replacements rely on.
  \<^item> \<open>Events\<close>: the EventBridge event as JSON and \<open>aux_eventbridge_events\<close>'s extraction
    (not under \<open>src/\<close>, modelled from the specification).
  \<^item> \<open>Aws\<close>: the external services as the handlers see them: the Lambda context, S3
    \<open>copy_object\<close> on a store of buckets, Transcribe \<open>start_call_analytics_job\<close> on a
    store of jobs, with the errors each raises (for \<open>Bucket=None\<close> the \<open>TypeError\<close> of
    botocore's bucket-name hook, for a \<open>None\<close> role its parameter validation). They are
    contracts, not code of the repository.
  \<^item> \<open>Uuid\<close>: \<open>uuid.uuid4().hex\<close> as a 128-bit word with the version and variant bits
    forced (\<open>uuid4\<close>) and its 32-digit hex rendering (\<open>uuid_hex\<close>); the rendering is
    parsed back (round trip) and two draws give the same name exactly when they agree
    outside the six fixed bits.
  \<^item> \<open>Ingest\<close>: \<open>ingest_construct_destination_object_key\<close> and
    \<open>ingest_lambda_handler\<close>, the first function (C1, C5-C11, C17, C26, C30, C35, C36):
    the key mapping refines the format change from Connect keys to data-lake keys and loses
    exactly the instance prefix (C35), the handler's only effect is the copy, it reads only
    two configuration variables, and every error path of the handler (short ARN, unset
    region, unset bucket, malformed event) is a value, raised in the order of the code; on
    keys that are not Connect recordings (no marker, a short suffix) the mapping returns a
    malformed key.
  \<^item> \<open>Analytics\<close>: \<open>analytics_construct_destination_object_key\<close>,
    \<open>run_call_analytics\<close> and \<open>analytics_lambda_handler\<close>, the second function
    (C2, C12-C16, C18, C27, C31, C37): the key mapping refines data-lake key to transcript
    key, replaces every \<open>.wav\<close> of a key (C18) and on a key without \<open>.wav\<close> only
    exchanges the prefix (C37), a run adds exactly one job, job names are equal exactly
    when the random draws agree on the bits \<open>uuid4\<close> keeps, and its failures (unset
    configuration, malformed event). The theory imports \<open>Ingest\<close> and also states what
    spans the two functions: the ingestion output is the analytics input and the job
    transcribes the original recording (C3), the two key mappings compose to the transcript
    key (C4), and for every source key, well-formed or not, the analytics mapping of the
    ingestion mapping's output lies under the transcription prefix and ends in the result
    suffix and \<open>.json\<close> (C38), because the ingestion mapping always ends its key in
    \<open>:00Z.wav\<close> (\<open>ingest_key_shape\<close>), the first replacement cannot reach into that
    suffix (\<open>replace_scan_keeps_tail\<close>) and \<open>.wav\<close> cannot overlap itself
    (\<open>replace_wav_tail\<close>). The key facts these rest on are stated of the two
    \<open>str.replace\<close> calls themselves (\<open>datalake_key_replacements\<close>,
    \<open>raw_start_replacements\<close>), so each property is proved from the code of the mapping.
  \<^item> \<open>Pipeline\<close>: the deployment as a transition system (\<open>pipeline_step\<close>: Connect stores a
    recording, either function runs on an Object Created event, a job completes), the
    invariant \<open>pipeline_inv\<close> and its preservation by every step, reachability by rule
    induction over the reflexive transitive closure; safety, invariant and progress of the
    whole pipeline (C19-C21), its behaviour under repeated delivery (C22, C23) and
    under reordered delivery (C28: ingestions with distinct keys commute; C29: colliding keys
    leave whichever object was delivered last, for any two colliding keys); only Connect ever writes into the contact-center
    bucket (C33).
  \<^item> \<open>Cascade\<close>: the same deployment as an executable scheduler: \<open>route\<close> says which
    function an object's event reaches, \<open>deliver\<close> runs it (\<open>invoke_ingest\<close>,
    \<open>invoke_analytics\<close>) (a started job completes at once, writing its
    output object), \<open>cascade\<close> delivers every written object's event once, with fuel. The
    cascade of one recording ends after three deliveries whatever the fuel above that
    (termination, C24); every cascade that ends is a run of \<open>pipeline_step\<close>
    (\<open>cascade_runs_pipeline\<close>), so a cascade from a reachable state leaves a state in
    which every job transcribes a recording into its transcript key (C25).
    Beyond recordings, every delivery writes events of smaller total weight
    (\<open>event_rank\<close>: three for an event routed to ingestion, two for analytics, one
    otherwise; \<open>deliver_rank\<close>), so any list of pending events drains with fuel equal
    to its weight (\<open>cascade_terminates_rank\<close>) and the cascade of any object of the
    contact-center bucket, whatever its key, ends within three deliveries (C39).
  \<^item> \<open>KeyFormat\<close>: the validating key parser the specification asks for (sections 7 and 9), a
    reference rather than code: parsers \<open>lit\<close> and \<open>field\<close>, \<open>parse_connect_key\<close> (the
    inverse of \<open>connect_recording_key\<close> on well-formed keys) and
    \<open>validated_destination_object_key\<close> with its \<open>KeyFormatError\<close>. The code's fixed-offset
    mapping is that reference guarded by the key format (equivalence, C34).
  This theory states the end-to-end consequence of the missing key validation: whatever
  object lands in the contact-center bucket, its cascade copies it into the data lake and
  starts a call-analytics job on the copy (C32).

  \<^bold>\<open>Fixtures and bounds.\<close> The witnesses run the model on one Connect key
  (\<open>example_connect_key\<close>), the configured paths \<open>aux_paths\<close>, one environment and
  context, a two-bucket store and the random word \<open>example_rnd\<close>; the ordering
  properties use a store with two recordings (\<open>recordings_store\<close>, with
  \<open>second_contact_key\<close> or \<open>other_instance_key\<close>), the error paths a scheduled event
  (\<open>scheduled_event\<close>) and a bare-name context; every definition is
  executable and the witnesses evaluate by \<open>simp\<close>. There is no loop in the source
  beyond the library's string scans, which are total functions here (measure
  termination). The only fuel is that of \<open>cascade\<close>: one unit per delivered event; three
  suffice for a recording (its copy, the transcript, and the transcript's event, which no
  function takes), and more fuel gives the same result (\<open>cascade_more_fuel\<close>); in
  general the weight of the pending events is enough fuel, which is how C39 shows that the
  fuel never runs out on a cascade started by one object.

  \<^bold>\<open>Not modelled.\<close> Logging (\<open>aux.update_log_level\<close>, \<open>aux.log_env_details\<close>,
  \<open>aux.log_event_and_context\<close>, every \<open>logger.debug\<close>): no effect on the state the
  program changes; the functions are assumed not to raise. The boto3 client objects are
  the service models of \<open>Aws\<close>; their responses, which the handlers only log, are not
  modelled. The deployment's routing (which bucket's events reach which function) is not
  code of \<open>src/\<close>; it is modelled from the specification as the guards of
  \<open>pipeline_step\<close> and as \<open>route\<close>. The repository's other modules (\<open>aux\<close>,
  \<open>aux_paths\<close>, \<open>aux_eventbridge_events\<close>) are not under \<open>src/\<close>: the last two are
  modelled from the specification, the first only logs.
\<close>

section \<open>Every object of the contact-center bucket is transcribed\<close>

text \<open>
  C32. Whatever object lands in the contact-center bucket (a call recording, a chat
  transcript, any other file), the deployment copies it into the data lake under the mapped
  key and starts a call-analytics job on that copy: with a complete configuration and fuel
  for at least three deliveries, the cascade of its event ends with the copy in the data
  lake and a job whose media is the copy and whose output is the analytics mapping of the
  copy's key. Neither function checks that the object is a call recording.
\<close>

theorem cascade_transcribes_any_object:
  assumes D: "wf_deployment D"
    and cc: "p_store s (dp_cc_bucket D) = Some b" and obj: "b key = Some obj"
    and dl: "p_store s (dp_dl_bucket D) = Some dlb"
    and arn: "4 < length (py_split (invoked_function_arn (dp_context D)) '':'')"
    and region: "dp_env D ''AWS_REGION'' = Some region"
    and role: "dp_env D ''DATA_ACCESS_ROLE_ARN'' = Some role"
    and fresh: "analytics_job_name (rnd + 1) \<notin> dom (p_jobs s)"
    and fuel: "3 \<le> n"
  shows "\<exists>s'. cascade D rnd result n 0 s [(dp_cc_bucket D, key)] = Some s' \<and>
           p_jobs s' (analytics_job_name (rnd + 1)) = Some (analytics_job (analytics_job_name (rnd + 1))
             (''s3://'' @ dp_dl_bucket D @ ''/'' @ ingest_construct_destination_object_key (dp_paths D) key)
             (''s3://'' @ dp_dl_bucket D @ ''/'' @ analytics_construct_destination_object_key (dp_paths D)
                (ingest_construct_destination_object_key (dp_paths D) key)) role) \<and>
           (\<exists>b'. p_store s' (dp_dl_bucket D) = Some b' \<and>
              b' (ingest_construct_destination_object_key (dp_paths D) key) = Some obj)"
proof -
  let ?ik = "ingest_construct_destination_object_key (dp_paths D) key"
  have raw: "prefix (PATH_CONNECT_CALLRECORDINGS_RAW (dp_paths D)) ?ik"
    using ingest_key_shape [of "dp_paths D" key] by (auto simp: prefix_def)
  then have "analytics_construct_destination_object_key (dp_paths D) ?ik \<noteq> ?ik"
    using analytics_key_transcription [OF D raw] by auto
  with cascade_more_fuel [OF cascade_any_object [OF D cc obj dl arn region role fresh] fuel]
  show ?thesis by auto
qed

theorem cascade_transcribes_any_object_witness:
  "\<exists>s'. cascade example_deployment example_rnd (2::nat) 3 0
        (example_state\<lparr>p_store := example_store(''contact-center-bucket'' \<mapsto>
           [''connect/acme-contact-center/ChatTranscripts/2022/06/01/t.json'' \<mapsto> 1])\<rparr>)
        [(''contact-center-bucket'', ''connect/acme-contact-center/ChatTranscripts/2022/06/01/t.json'')] = Some s' \<and>
     p_jobs s' (analytics_job_name (example_rnd + 1)) = Some (analytics_job (analytics_job_name (example_rnd + 1))
       (''s3://datalake-bucket/'' @ ingest_construct_destination_object_key aux_paths
          ''connect/acme-contact-center/ChatTranscripts/2022/06/01/t.json'')
       (''s3://datalake-bucket/'' @ analytics_construct_destination_object_key aux_paths
          (ingest_construct_destination_object_key aux_paths
             ''connect/acme-contact-center/ChatTranscripts/2022/06/01/t.json''))
       ''arn:aws:iam::123456789012:role/transcribe-data-access'') \<and>
     (\<exists>b'. p_store s' ''datalake-bucket'' = Some b' \<and>
        b' (ingest_construct_destination_object_key aux_paths
              ''connect/acme-contact-center/ChatTranscripts/2022/06/01/t.json'') = Some 1)"
proof -
  let ?k = "''connect/acme-contact-center/ChatTranscripts/2022/06/01/t.json''"
  let ?s = "example_state\<lparr>p_store := example_store(''contact-center-bucket'' \<mapsto> [?k \<mapsto> (1::nat)])\<rparr>"
  have cc: "p_store ?s (dp_cc_bucket example_deployment) = Some [?k \<mapsto> 1]"
    and dl: "p_store ?s (dp_dl_bucket example_deployment) = Some Map.empty"
    by (simp_all add: example_store_def example_deployment_def)
  have arn: "4 < length (py_split (invoked_function_arn (dp_context example_deployment)) '':'')"
    by (simp add: example_deployment_def example_context_def py_split_def)
  have env: "dp_env example_deployment ''AWS_REGION'' = Some ''eu-central-1''"
    "dp_env example_deployment ''DATA_ACCESS_ROLE_ARN'' = Some ''arn:aws:iam::123456789012:role/transcribe-data-access''"
    by (simp_all add: example_deployment_def example_env_def)
  have fresh: "analytics_job_name (example_rnd + 1) \<notin> dom (p_jobs ?s)"
    by (simp add: example_state_def)
  have three: "3 \<le> (3::nat)" by simp
  from cascade_transcribes_any_object [OF example_wf_deployment cc _ dl arn env fresh three, of ?k 1 2]
  show ?thesis by (simp add: example_deployment_def)
qed

end
